(* ===== verification/Py_Prelude.thy ===== *)
theory Py_Prelude
  imports Complex_Main "HOL-Library.Sublist"
begin

text \<open>
  Shared vocabulary of the development: the Python built-ins that the sources of
  \<^verbatim>\<open>src/backend/src\<close> call (\<^verbatim>\<open>str.strip\<close>, \<^verbatim>\<open>str.startswith\<close>, \<^verbatim>\<open>str()\<close> of an
  integer as used by f-strings, truthiness of \<^verbatim>\<open>if v:\<close>), generic list lemmas about
  separators, and the fact collections the component theories feed to the simplifier.

  A Python \<^verbatim>\<open>str\<close> is modelled as \<^typ>\<open>string\<close>, one \<^typ>\<open>char\<close> per code point; code
  points above 255 are outside the model. Python integers are \<^typ>\<open>int\<close>, floats are
  \<^typ>\<open>real\<close> (finite values only).
\<close>

section \<open>Fact collections\<close>

named_theorems py_defs "definitions of the modelled Python built-ins"
named_theorems model_defs "definitions of the data model's validators"
named_theorems cache_defs "definitions of the cache store and the key derivation"
named_theorems handler_defs "definitions of the request handlers"

section \<open>Types\<close>

type_synonym py_str = string
type_synonym py_int = int
type_synonym py_float = real

section \<open>Truthiness\<close>

text \<open>\<^verbatim>\<open>if v:\<close> on an integer, a string, a list and an \<^verbatim>\<open>Optional\<close> value.\<close>

definition truthy_int :: "py_int \<Rightarrow> bool" where
  "truthy_int i \<longleftrightarrow> i \<noteq> 0"

definition truthy_str :: "py_str \<Rightarrow> bool" where
  "truthy_str s \<longleftrightarrow> s \<noteq> []"

fun truthy_opt :: "('a \<Rightarrow> bool) \<Rightarrow> 'a option \<Rightarrow> bool" where
  "truthy_opt t None = False"
| "truthy_opt t (Some v) = t v"

section \<open>Whitespace and \<^verbatim>\<open>str.strip\<close>\<close>

text \<open>
  The code points below 256 for which \<^verbatim>\<open>str.isspace\<close> holds: TAB through CR, the
  separators FS through US, SPACE, NEL and NBSP. \<^verbatim>\<open>str.strip()\<close> removes them from
  both ends.
\<close>

definition whitespace :: "char list" where
  "whitespace = [CHR 0x09, CHR 0x0A, CHR 0x0B, CHR 0x0C, CHR 0x0D, CHR 0x1C, CHR 0x1D,
     CHR 0x1E, CHR 0x1F, CHR 0x20, CHR 0x85, CHR 0xA0]"

definition is_space :: "char \<Rightarrow> bool" where
  "is_space c \<longleftrightarrow> c \<in> set whitespace"

definition lstrip :: "py_str \<Rightarrow> py_str" where
  "lstrip s = dropWhile is_space s"

definition rstrip :: "py_str \<Rightarrow> py_str" where
  "rstrip s = rev (dropWhile is_space (rev s))"

definition strip :: "py_str \<Rightarrow> py_str" where
  "strip s = rstrip (lstrip s)"

section \<open>\<^verbatim>\<open>str.startswith\<close>\<close>

definition startswith :: "py_str \<Rightarrow> py_str \<Rightarrow> bool" where
  "startswith s p \<longleftrightarrow> prefix p s"

text \<open>\<^verbatim>\<open>s.startswith((p1, p2, ...))\<close>: some element of the tuple is a prefix.\<close>

definition startswith_any :: "py_str \<Rightarrow> py_str list \<Rightarrow> bool" where
  "startswith_any s ps \<longleftrightarrow> list_ex (startswith s) ps"

section \<open>Decimal digits and \<^verbatim>\<open>str(int)\<close>\<close>

definition digits :: "char list" where
  "digits = ''0123456789''"

definition is_digit :: "char \<Rightarrow> bool" where
  "is_digit c \<longleftrightarrow> c \<in> set digits"

definition digit_char :: "nat \<Rightarrow> char" where
  "digit_char d = digits ! d"

definition digit_val :: "char \<Rightarrow> nat" where
  "digit_val c = of_char c - 48"

fun str_nat :: "nat \<Rightarrow> py_str" where
  "str_nat n = (if n < 10 then [digit_char n]
                else str_nat (n div 10) @ [digit_char (n mod 10)])"

declare str_nat.simps [simp del]

definition str_int :: "py_int \<Rightarrow> py_str" where
  "str_int i = (if i < 0 then CHR ''-'' # str_nat (nat (- i)) else str_nat (nat i))"

text \<open>Reading a digit string back, most significant digit first.\<close>

definition nat_of_digits :: "py_str \<Rightarrow> nat" where
  "nat_of_digits s = foldl (\<lambda>a c. 10 * a + digit_val c) 0 s"

section \<open>\<^verbatim>\<open>str.join\<close>\<close>

fun join :: "'a list \<Rightarrow> 'a list list \<Rightarrow> 'a list" where
  "join sep [] = []"
| "join sep [s] = s"
| "join sep (s # t # ts) = s @ sep @ join sep (t # ts)"

text \<open>\<^verbatim>\<open>f"{v}"\<close> for an \<^verbatim>\<open>Optional[int]\<close>: \<^verbatim>\<open>None\<close> prints as the word.\<close>

fun str_opt_int :: "py_int option \<Rightarrow> py_str" where
  "str_opt_int None = ''None''"
| "str_opt_int (Some i) = str_int i"

lemmas [py_defs] = truthy_int_def truthy_str_def is_space_def whitespace_def lstrip_def
  rstrip_def strip_def startswith_def startswith_any_def digits_def is_digit_def
  digit_char_def digit_val_def str_int_def nat_of_digits_def

section \<open>Lemmas on lists with separators\<close>

lemma split_at_first_sep:
  assumes "c \<notin> set a" and "c \<notin> set b" and "a @ c # x = b @ c # y"
  shows "a = b \<and> x = y"
  using assms
proof (induction a arbitrary: b)
  case Nil
  then show ?case by (cases b) auto
next
  case (Cons u a)
  then show ?case by (cases b) auto
qed

lemma split_at_last_sep:
  assumes "c \<notin> set x" and "c \<notin> set y" and "a @ c # x = b @ c # y"
  shows "a = b \<and> x = y"
proof -
  from assms(3) have "rev (a @ c # x) = rev (b @ c # y)" by simp
  then have "rev x @ c # rev a = rev y @ c # rev b" by simp
  with assms(1,2) have "rev x = rev y \<and> rev a = rev b"
    by (intro split_at_first_sep [of c]) simp_all
  then show ?thesis by simp
qed

lemma prefix_sep_inj:
  assumes "c \<notin> set x" and "c \<notin> set y"
  shows "p @ a @ c # x = p @ b @ c # y \<longleftrightarrow> a = b \<and> x = y"
  using split_at_last_sep [OF assms] by auto

section \<open>Lemmas on \<^verbatim>\<open>strip\<close>\<close>

lemma lstrip_Nil [simp]: "lstrip [] = []"
  by (simp add: lstrip_def)

lemma rstrip_Nil [simp]: "rstrip [] = []"
  by (simp add: rstrip_def)

lemma strip_Nil [simp]: "strip [] = []"
  by (simp add: strip_def)

lemma lstrip_eq_Nil_iff: "lstrip s = [] \<longleftrightarrow> (\<forall>c\<in>set s. is_space c)"
  by (simp add: lstrip_def)

lemma rstrip_eq_Nil_iff: "rstrip s = [] \<longleftrightarrow> (\<forall>c\<in>set s. is_space c)"
  by (simp add: rstrip_def)

lemma set_lstrip: "set (lstrip s) \<subseteq> set s"
  by (auto simp: lstrip_def dest: set_dropWhileD)

lemma set_rstrip: "set (rstrip s) \<subseteq> set s"
  by (auto simp: rstrip_def dest: set_dropWhileD)

lemma set_strip: "set (strip s) \<subseteq> set s"
  using set_lstrip set_rstrip by (fastforce simp: strip_def)

lemma strip_eq_Nil_iff: "strip s = [] \<longleftrightarrow> (\<forall>c\<in>set s. is_space c)"
proof
  assume "strip s = []"
  then have all: "\<forall>c\<in>set (lstrip s). is_space c"
    by (simp add: strip_def rstrip_eq_Nil_iff)
  have "lstrip s = []"
  proof (rule ccontr)
    assume ne: "lstrip s \<noteq> []"
    then have "\<not> is_space (hd (lstrip s))"
      unfolding lstrip_def by (rule hd_dropWhile)
    moreover from ne have "hd (lstrip s) \<in> set (lstrip s)" by simp
    ultimately show False using all by blast
  qed
  then show "\<forall>c\<in>set s. is_space c" by (simp add: lstrip_eq_Nil_iff)
next
  assume "\<forall>c\<in>set s. is_space c"
  then have "lstrip s = []" by (simp add: lstrip_eq_Nil_iff)
  then show "strip s = []" by (simp add: strip_def)
qed

lemma hd_lstrip: "lstrip s \<noteq> [] \<Longrightarrow> \<not> is_space (hd (lstrip s))"
  unfolding lstrip_def by (rule hd_dropWhile)

lemma last_rstrip: "rstrip s \<noteq> [] \<Longrightarrow> \<not> is_space (last (rstrip s))"
proof -
  assume "rstrip s \<noteq> []"
  then have ne: "dropWhile is_space (rev s) \<noteq> []" by (simp add: rstrip_def)
  then have "\<not> is_space (hd (dropWhile is_space (rev s)))" by (rule hd_dropWhile)
  with ne show ?thesis by (simp add: rstrip_def last_rev)
qed

lemma lstrip_id: "s = [] \<or> \<not> is_space (hd s) \<Longrightarrow> lstrip s = s"
  by (simp add: lstrip_def dropWhile_eq_self_iff)

lemma rstrip_id: "s = [] \<or> \<not> is_space (last s) \<Longrightarrow> rstrip s = s"
proof -
  assume "s = [] \<or> \<not> is_space (last s)"
  then have "rev s = [] \<or> \<not> is_space (hd (rev s))" by (auto simp: hd_rev)
  then have "dropWhile is_space (rev s) = rev s" by (simp add: dropWhile_eq_self_iff)
  then show ?thesis by (simp add: rstrip_def)
qed

lemma hd_rstrip: "rstrip s \<noteq> [] \<Longrightarrow> hd (rstrip s) = hd s"
proof -
  assume ne: "rstrip s \<noteq> []"
  have "rev s = takeWhile is_space (rev s) @ dropWhile is_space (rev s)" by simp
  then have "s = rstrip s @ rev (takeWhile is_space (rev s))"
    by (metis rev_append rev_rev_ident rstrip_def)
  with ne show ?thesis by (metis hd_append2)
qed

lemma strip_ends:
  assumes "strip s \<noteq> []"
  shows "\<not> is_space (hd (strip s))" and "\<not> is_space (last (strip s))"
proof -
  from assms have ne: "lstrip s \<noteq> []" by (auto simp: strip_def)
  from assms have "hd (strip s) = hd (lstrip s)" by (simp add: strip_def hd_rstrip)
  with hd_lstrip [OF ne] show "\<not> is_space (hd (strip s))" by simp
  from assms show "\<not> is_space (last (strip s))" by (simp add: strip_def last_rstrip)
qed

lemma strip_id:
  assumes "s = [] \<or> (\<not> is_space (hd s) \<and> \<not> is_space (last s))"
  shows "strip s = s"
  using assms by (auto simp: strip_def lstrip_id rstrip_id)

lemma strip_idem [simp]: "strip (strip s) = strip s"
  by (cases "strip s = []") (auto intro: strip_id dest: strip_ends)

lemma length_strip_le: "length (strip s) \<le> length s"
proof -
  have "length (strip s) \<le> length (lstrip s)"
    using length_dropWhile_le [of is_space "rev (lstrip s)"] by (simp add: strip_def rstrip_def)
  also have "\<dots> \<le> length s" by (simp add: lstrip_def length_dropWhile_le)
  finally show ?thesis .
qed

section \<open>Lemmas on \<^verbatim>\<open>startswith\<close>\<close>

lemma startswith_append [simp]: "startswith (p @ s) p"
  by (simp add: startswith_def)

lemma startswith_Nil [simp]: "startswith [] p \<longleftrightarrow> p = []"
  by (simp add: startswith_def)

lemma startswith_any_iff: "startswith_any s ps \<longleftrightarrow> (\<exists>p\<in>set ps. prefix p s)"
  by (simp add: startswith_any_def startswith_def list_ex_iff)

lemma startswith_any_Nil: "[] \<notin> set ps \<Longrightarrow> \<not> startswith_any [] ps"
  by (auto simp: startswith_any_iff)

section \<open>Lemmas on digits and \<^verbatim>\<open>str(int)\<close>\<close>

lemma length_digits [simp]: "length digits = 10"
  by (simp add: digits_def)

lemma distinct_digits: "distinct digits"
  by (simp add: digits_def)

lemma is_digit_char [simp]: "d < 10 \<Longrightarrow> is_digit (digit_char d)"
  by (simp add: is_digit_def digit_char_def)

lemma digit_char_inj: "d < 10 \<Longrightarrow> e < 10 \<Longrightarrow> digit_char d = digit_char e \<longleftrightarrow> d = e"
  by (simp add: digit_char_def nth_eq_iff_index_eq distinct_digits)

lemma digit_val_char [simp]: "d < 10 \<Longrightarrow> digit_val (digit_char d) = d"
proof -
  assume "d < 10"
  then have "d \<in> {0, 1, 2, 3, 4, 5, 6, 7, 8, 9}" by auto
  then show ?thesis by (auto simp: digit_val_def digit_char_def digits_def)
qed

lemma digit_char_val: "is_digit c \<Longrightarrow> digit_char (digit_val c) = c"
  by (auto simp: digit_val_def digit_char_def digits_def is_digit_def)

lemma digit_val_less: "is_digit c \<Longrightarrow> digit_val c < 10"
  by (auto simp: digit_val_def digits_def is_digit_def)

lemma not_digit_minus [simp]: "\<not> is_digit CHR ''-''"
  by (simp add: is_digit_def digits_def)

lemma not_digit_underscore [simp]: "\<not> is_digit CHR ''_''"
  by (simp add: is_digit_def digits_def)

lemma str_nat_ne [simp]: "str_nat n \<noteq> []"
  by (subst str_nat.simps) simp

lemma str_nat_digits: "c \<in> set (str_nat n) \<Longrightarrow> is_digit c"
proof (induction n arbitrary: c rule: str_nat.induct)
  case (1 n)
  show ?case
  proof (cases "n < 10")
    case True
    with "1.prems" show ?thesis by (simp add: str_nat.simps [of n])
  next
    case False
    with "1.prems" have "c \<in> set (str_nat (n div 10)) \<or> c = digit_char (n mod 10)"
      by (auto simp: str_nat.simps [of n])
    with False "1.IH" show ?thesis by auto
  qed
qed

lemma nat_of_digits_snoc: "nat_of_digits (s @ [c]) = 10 * nat_of_digits s + digit_val c"
  by (simp add: nat_of_digits_def)

lemma nat_of_digits_str_nat [simp]: "nat_of_digits (str_nat n) = n"
proof (induction n rule: str_nat.induct)
  case (1 n)
  show ?case
  proof (cases "n < 10")
    case True
    then show ?thesis by (simp add: str_nat.simps [of n] nat_of_digits_def)
  next
    case False
    with "1.IH" show ?thesis
      by (simp add: str_nat.simps [of n] nat_of_digits_snoc)
  qed
qed

lemma str_nat_inj [simp]: "str_nat m = str_nat n \<longleftrightarrow> m = n"
  by (metis nat_of_digits_str_nat)

lemma hd_str_nat_digit: "is_digit (hd (str_nat n))"
  using str_nat_digits [of "hd (str_nat n)" n] by simp

lemma str_int_ne [simp]: "str_int i \<noteq> []"
  by (simp add: str_int_def)

lemma str_int_chars: "c \<in> set (str_int i) \<Longrightarrow> is_digit c \<or> c = CHR ''-''"
  by (auto simp: str_int_def dest: str_nat_digits split: if_splits)

lemma str_int_inj [simp]: "str_int i = str_int j \<longleftrightarrow> i = j"
proof
  assume eq: "str_int i = str_int j"
  have neg_pos: False if "k < 0" "0 \<le> l" "str_int k = str_int l" for k l
  proof -
    from that have "CHR ''-'' # str_nat (nat (- k)) = str_nat (nat l)"
      by (simp add: str_int_def)
    then have "hd (str_nat (nat l)) = CHR ''-''" by (metis list.sel(1))
    with hd_str_nat_digit [of "nat l"] show False by simp
  qed
  show "i = j"
  proof (cases "i < 0"; cases "j < 0")
    assume "i < 0" "j < 0"
    with eq show ?thesis by (simp add: str_int_def)
  next
    assume "i < 0" "\<not> j < 0"
    with eq neg_pos [of i j] show ?thesis by simp
  next
    assume "\<not> i < 0" "j < 0"
    with eq neg_pos [of j i] show ?thesis by simp
  next
    assume "\<not> i < 0" "\<not> j < 0"
    with eq show ?thesis by (simp add: str_int_def)
  qed
qed simp

lemma underscore_notin_str_int [simp]: "CHR ''_'' \<notin> set (str_int i)"
  using str_int_chars [of "CHR ''_''" i] by auto

lemma underscore_notin_str_opt_int [simp]: "CHR ''_'' \<notin> set (str_opt_int p)"
  by (cases p) simp_all

lemma sep_str_int_inj [simp]:
  "a @ CHR ''_'' # str_int i = b @ CHR ''_'' # str_int j \<longleftrightarrow> a = b \<and> i = j"
  using split_at_last_sep [of "CHR ''_''" "str_int i" "str_int j" a b] by auto

lemma str_opt_int_ne [simp]: "str_opt_int p \<noteq> []"
  by (cases p) simp_all

lemma str_opt_int_inj [simp]: "str_opt_int p = str_opt_int q \<longleftrightarrow> p = q"
proof
  assume eq: "str_opt_int p = str_opt_int q"
  have none_some: False if "str_int i = ''None''" for i
  proof -
    have "CHR ''N'' \<in> set (str_int i)" by (simp add: that)
    then show False
      using str_int_chars [of "CHR ''N''" i] by (simp add: is_digit_def digits_def)
  qed
  show "p = q"
  proof (cases p; cases q)
    fix i assume "p = Some i" "q = None"
    with eq none_some [of i] show ?thesis by simp
  next
    fix i assume "p = None" "q = Some i"
    with eq none_some [of i] show ?thesis by simp
  qed (use eq in simp_all)
qed simp

lemma sep_str_opt_int_inj [simp]:
  "a @ CHR ''_'' # str_opt_int p = b @ CHR ''_'' # str_opt_int q \<longleftrightarrow> a = b \<and> p = q"
  using split_at_last_sep [of "CHR ''_''" "str_opt_int p" "str_opt_int q" a b] by auto

end
