(* ===== verification/Pydantic.thy ===== *)
theory Pydantic
  imports Py_Prelude
begin

text \<open>
  How a pydantic \<^verbatim>\<open>BaseModel\<close> turns keyword arguments into an instance, as far as the
  classes of \<^verbatim>\<open>src/backend/src/models.py\<close> rely on it. The keyword arguments are
  taken after type coercion, so every field already has the Python type of its
  annotation; \<open>None\<close> stands for a key that was not supplied.

  \<^item> A field is \<^emph>\<open>required\<close> (\<^verbatim>\<open>Field(...)\<close>), \<^emph>\<open>optional\<close> (\<^verbatim>\<open>Optional[T] = Field(None)\<close>) or
    has a default (\<^verbatim>\<open>Field(d)\<close>, \<^verbatim>\<open>Field(default_factory=f)\<close>). Defaults are not validated.
  \<^item> A supplied value runs through the field's constraints (\<^verbatim>\<open>ge\<close>, \<^verbatim>\<open>le\<close>) and then
    through its \<^verbatim>\<open>@validator\<close>; each may raise, and a validator may replace the value.
  \<^item> Fields are processed in declaration order, inherited fields first. Errors do not
    stop the run: they are collected, each with the location of its field, and the
    instance is built only when the list is empty.
\<close>

section \<open>Errors\<close>

datatype reason =
    Missing
  | NotGe
  | NotLe
  | ValueError py_str

datatype loc_item = Name py_str | Index nat

type_synonym verror = "loc_item list \<times> reason"

text \<open>The outcome of one validator or constraint, and of a whole field or model.\<close>

type_synonym 'a checked = "reason + 'a"
type_synonym 'a validated = "verror list + 'a"

section \<open>Constraints\<close>

definition no_check :: "'a \<Rightarrow> 'a checked" where
  "no_check v = Inr v"

definition ge :: "'a::linorder \<Rightarrow> 'a \<Rightarrow> 'a checked" where
  "ge bnd v = (if bnd \<le> v then Inr v else Inl NotGe)"

definition le :: "'a::linorder \<Rightarrow> 'a \<Rightarrow> 'a checked" where
  "le bnd v = (if v \<le> bnd then Inr v else Inl NotLe)"

text \<open>One check after another: the second sees the value the first returned.\<close>

definition and_then :: "('a \<Rightarrow> 'a checked) \<Rightarrow> ('a \<Rightarrow> 'a checked) \<Rightarrow> 'a \<Rightarrow> 'a checked" where
  "and_then f g v = (case f v of Inl e \<Rightarrow> Inl e | Inr w \<Rightarrow> g w)"

section \<open>Fields\<close>

definition at_field :: "py_str \<Rightarrow> 'a checked \<Rightarrow> 'a validated" where
  "at_field name r = (case r of Inl e \<Rightarrow> Inl [([Name name], e)] | Inr v \<Rightarrow> Inr v)"

definition required :: "py_str \<Rightarrow> ('a \<Rightarrow> 'a checked) \<Rightarrow> 'a option \<Rightarrow> 'a validated" where
  "required name chk kw =
     (case kw of None \<Rightarrow> Inl [([Name name], Missing)] | Some v \<Rightarrow> at_field name (chk v))"

definition optional :: "py_str \<Rightarrow> ('a \<Rightarrow> 'a checked) \<Rightarrow> 'a option \<Rightarrow> 'a option validated" where
  "optional name chk kw =
     (case kw of None \<Rightarrow> Inr None | Some v \<Rightarrow> map_sum id Some (at_field name (chk v)))"

definition with_default :: "py_str \<Rightarrow> 'a \<Rightarrow> ('a \<Rightarrow> 'a checked) \<Rightarrow> 'a option \<Rightarrow> 'a validated" where
  "with_default name d chk kw =
     (case kw of None \<Rightarrow> Inr d | Some v \<Rightarrow> at_field name (chk v))"

section \<open>Models\<close>

text \<open>
  \<open>ap\<close> feeds the next field to a constructor that is still waiting for it and
  appends the field's errors to those found so far.
\<close>

fun ap :: "('a \<Rightarrow> 'b) validated \<Rightarrow> 'a validated \<Rightarrow> 'b validated" where
  "ap (Inr f) (Inr v) = Inr (f v)"
| "ap (Inr f) (Inl es) = Inl es"
| "ap (Inl es) (Inr v) = Inl es"
| "ap (Inl es) (Inl es') = Inl (es @ es')"

definition errors :: "'a validated \<Rightarrow> verror list" where
  "errors r = (case r of Inl es \<Rightarrow> es | Inr v \<Rightarrow> [])"

text \<open>A nested model: its errors are reported below the field that holds it.\<close>

definition nested :: "loc_item list \<Rightarrow> 'a validated \<Rightarrow> 'a validated" where
  "nested pre r = map_sum (map (\<lambda>(l, e). (pre @ l, e))) id r"

text \<open>
  A field of type \<^verbatim>\<open>List[Model]\<close>: every element is validated, element \<open>i\<close> reports
  below \<open>name, i\<close>.
\<close>

fun validate_items :: "py_str \<Rightarrow> ('r \<Rightarrow> 'a validated) \<Rightarrow> nat \<Rightarrow> 'r list \<Rightarrow> 'a list validated" where
  "validate_items name f i [] = Inr []"
| "validate_items name f i (r # rs) =
     ap (map_sum id (#) (nested [Name name, Index i] (f r))) (validate_items name f (Suc i) rs)"

definition model_list :: "py_str \<Rightarrow> ('r \<Rightarrow> 'a validated) \<Rightarrow> 'r list option \<Rightarrow> 'a list validated" where
  "model_list name f kw = (case kw of None \<Rightarrow> Inr [] | Some rs \<Rightarrow> validate_items name f 0 rs)"

text \<open>A field of type \<^verbatim>\<open>Optional[Model]\<close> with default \<^verbatim>\<open>None\<close>.\<close>

definition optional_model :: "py_str \<Rightarrow> ('r \<Rightarrow> 'a validated) \<Rightarrow> 'r option \<Rightarrow> 'a option validated" where
  "optional_model name f kw =
     (case kw of None \<Rightarrow> Inr None | Some r \<Rightarrow> map_sum id Some (nested [Name name] (f r)))"

text \<open>
  The \<^verbatim>\<open>values\<close> dictionary a validator receives holds the fields validated before
  it; a field whose validation failed is absent.
\<close>

definition values_get :: "'a validated \<Rightarrow> 'a option" where
  "values_get r = (case r of Inl es \<Rightarrow> None | Inr v \<Rightarrow> Some v)"

text \<open>
  A failed validation reports at least one error: \<open>Inl []\<close> is a value of the type
  that no validation returns.
\<close>

definition proper :: "'a validated \<Rightarrow> bool" where
  "proper r \<longleftrightarrow> r \<noteq> Inl []"

text \<open>The value a field with a default ends up with when no check changes it.\<close>

definition default_to :: "'a \<Rightarrow> 'a option \<Rightarrow> 'a" where
  "default_to d kw = (case kw of None \<Rightarrow> d | Some v \<Rightarrow> v)"

lemmas [model_defs] = default_to_def optional_model_def values_get_def no_check_def ge_def le_def and_then_def at_field_def required_def
  optional_def with_default_def errors_def nested_def model_list_def

section \<open>Lemmas\<close>

lemma errors_simps [simp]: "errors (Inl es) = es" "errors (Inr v) = []"
  by (simp_all add: errors_def)

lemma errors_Nil_iff: "errors r = [] \<longleftrightarrow> (\<exists>v. r = Inr v) \<or> r = Inl []"
  by (cases r) auto

lemma ap_errors [simp]: "errors (ap f x) = errors f @ errors x"
  by (cases f; cases x) simp_all

lemma ap_Inr_iff: "ap f x = Inr y \<longleftrightarrow> (\<exists>g v. f = Inr g \<and> x = Inr v \<and> y = g v)"
  by (cases f; cases x) auto

lemma ap_Inl_iff:
  "ap f x = Inl es \<longleftrightarrow> (isl f \<or> isl x) \<and> es = errors f @ errors x"
  by (cases f; cases x) auto

lemma map_sum_id_Inr_iff [simp]: "map_sum id f r = Inr y \<longleftrightarrow> (\<exists>v. r = Inr v \<and> y = f v)"
  by (cases r) auto

lemma map_sum_id_Inl_iff [simp]: "map_sum id f r = Inl es \<longleftrightarrow> r = Inl es"
  by (cases r) auto

lemma errors_map_sum_id [simp]: "errors (map_sum id f r) = errors r"
  by (cases r) auto

lemma default_to_simps [simp]: "default_to d None = d" "default_to d (Some v) = v"
  by (simp_all add: default_to_def)

lemma at_field_Inr_iff [simp]: "at_field name r = Inr v \<longleftrightarrow> r = Inr v"
  by (cases r) (simp_all add: at_field_def)

lemma at_field_Inl_iff: "at_field name r = Inl es \<longleftrightarrow> (\<exists>e. r = Inl e \<and> es = [([Name name], e)])"
  by (cases r) (auto simp: at_field_def)

lemma required_Inr_iff: "required name chk kw = Inr v \<longleftrightarrow> (\<exists>x. kw = Some x \<and> chk x = Inr v)"
  by (cases kw) (simp_all add: required_def)

lemma required_None [simp]: "required name chk None = Inl [([Name name], Missing)]"
  by (simp add: required_def)

lemma required_Some [simp]: "required name chk (Some x) = at_field name (chk x)"
  by (simp add: required_def)

lemma optional_None [simp]: "optional name chk None = Inr None"
  by (simp add: optional_def)

lemma optional_Some [simp]: "optional name chk (Some x) = map_sum id Some (at_field name (chk x))"
  by (simp add: optional_def)

lemma optional_Inr_iff:
  "optional name chk kw = Inr r \<longleftrightarrow>
     (kw = None \<and> r = None) \<or> (\<exists>x v. kw = Some x \<and> chk x = Inr v \<and> r = Some v)"
  by (cases kw; cases "chk (the kw)") (auto simp: at_field_def)

lemma with_default_None [simp]: "with_default name d chk None = Inr d"
  by (simp add: with_default_def)

lemma with_default_Some [simp]: "with_default name d chk (Some x) = at_field name (chk x)"
  by (simp add: with_default_def)

lemma with_default_Inr_iff:
  "with_default name d chk kw = Inr v \<longleftrightarrow>
     (kw = None \<and> v = d) \<or> (\<exists>x. kw = Some x \<and> chk x = Inr v)"
  by (cases kw) auto

lemma no_check_simp [simp]: "no_check v = Inr v"
  by (simp add: no_check_def)

lemma required_no_check_iff [simp]: "required name no_check kw = Inr v \<longleftrightarrow> kw = Some v"
  by (cases kw) auto

lemma optional_no_check [simp]: "optional name no_check kw = Inr kw"
  by (cases kw) (simp_all add: at_field_def)

lemma with_default_no_check [simp]: "with_default name d no_check kw = Inr (default_to d kw)"
  by (cases kw) (simp_all add: at_field_def)

lemma errors_required_no_check:
  "errors (required name no_check kw) = (if kw = None then [([Name name], Missing)] else [])"
  by (cases kw) (simp_all add: at_field_def)

lemma errors_at_field: "errors (at_field name r) = (case r of Inl e \<Rightarrow> [([Name name], e)] | Inr v \<Rightarrow> [])"
  by (cases r) (simp_all add: at_field_def)

lemma ge_Inr_iff [simp]: "ge bnd v = Inr w \<longleftrightarrow> bnd \<le> v \<and> w = v"
  by (auto simp: ge_def)

lemma le_Inr_iff [simp]: "le bnd v = Inr w \<longleftrightarrow> v \<le> bnd \<and> w = v"
  by (auto simp: le_def)

lemma and_then_Inr_iff: "and_then f g v = Inr w \<longleftrightarrow> (\<exists>u. f v = Inr u \<and> g u = Inr w)"
  by (cases "f v") (simp_all add: and_then_def)

lemma ge_le_Inr_iff [simp]: "and_then (ge lo) (le hi) v = Inr w \<longleftrightarrow> lo \<le> v \<and> v \<le> hi \<and> w = v"
  by (auto simp: and_then_Inr_iff)

lemma nested_Inr_iff [simp]: "nested pre r = Inr v \<longleftrightarrow> r = Inr v"
  by (cases r) (simp_all add: nested_def)

lemma proper_Inr [simp]: "proper (Inr v)"
  by (simp add: proper_def)

lemma proper_Inl [simp]: "proper (Inl es) \<longleftrightarrow> es \<noteq> []"
  by (simp add: proper_def)

lemma proper_ap [simp, intro]: "proper f \<Longrightarrow> proper x \<Longrightarrow> proper (ap f x)"
  by (cases f; cases x) simp_all

lemma proper_map_sum [simp]: "proper (map_sum id f r) \<longleftrightarrow> proper r"
  by (cases r) simp_all

lemma proper_at_field [simp]: "proper (at_field name r)"
  by (cases r) (simp_all add: at_field_def)

lemma proper_required [simp]: "proper (required name chk kw)"
  by (cases kw) simp_all

lemma proper_optional [simp]: "proper (optional name chk kw)"
  by (cases kw) simp_all

lemma proper_with_default [simp]: "proper (with_default name d chk kw)"
  by (cases kw) simp_all

lemma proper_nested [simp]: "proper (nested pre r) \<longleftrightarrow> proper r"
  by (cases r) (simp_all add: nested_def)

lemma proper_validate_items: "(\<And>r. proper (f r)) \<Longrightarrow> proper (validate_items name f i rs)"
  by (induction rs arbitrary: i) simp_all

lemma proper_model_list [simp]: "(\<And>r. proper (f r)) \<Longrightarrow> proper (model_list name f kw)"
  by (cases kw) (simp_all add: model_list_def proper_validate_items)

lemma proper_optional_model [simp]: "(\<And>r. proper (f r)) \<Longrightarrow> proper (optional_model name f kw)"
  by (cases kw) (simp_all add: optional_model_def)

text \<open>A proper outcome is determined by its error list and, when that is empty, its value.\<close>

lemma proper_Inl_iff: "proper r \<Longrightarrow> r = Inl es \<longleftrightarrow> es \<noteq> [] \<and> errors r = es"
  by (cases r) auto

lemma proper_errors_Nil_iff: "proper r \<Longrightarrow> errors r = [] \<longleftrightarrow> (\<exists>v. r = Inr v)"
  by (cases r) auto

lemma errors_nested [simp]: "errors (nested pre r) = map (\<lambda>(l, e). (pre @ l, e)) (errors r)"
  by (cases r) (simp_all add: nested_def)

lemma errors_optional:
  "errors (optional name chk kw) =
     (case kw of None \<Rightarrow> [] | Some v \<Rightarrow> (case chk v of Inl e \<Rightarrow> [([Name name], e)] | Inr w \<Rightarrow> []))"
  by (cases kw) (simp_all add: errors_at_field)

lemma errors_required:
  "errors (required name chk kw) =
     (case kw of None \<Rightarrow> [([Name name], Missing)]
      | Some v \<Rightarrow> (case chk v of Inl e \<Rightarrow> [([Name name], e)] | Inr w \<Rightarrow> []))"
  by (cases kw) (simp_all add: errors_at_field)

lemma errors_with_default:
  "errors (with_default name d chk kw) =
     (case kw of None \<Rightarrow> [] | Some v \<Rightarrow> (case chk v of Inl e \<Rightarrow> [([Name name], e)] | Inr w \<Rightarrow> []))"
  by (cases kw) (simp_all add: errors_at_field)

lemma validate_items_Inr_iff:
  "validate_items name f i rs = Inr vs \<longleftrightarrow> list_all2 (\<lambda>r v. f r = Inr v) rs vs"
proof (induction rs arbitrary: i vs)
  case Nil
  then show ?case by auto
next
  case (Cons r rs)
  show ?case
  proof (cases "f r")
    case (Inl es)
    then show ?thesis
      by (cases "validate_items name f (Suc i) rs") (auto simp: nested_def list_all2_Cons1)
  next
    case (Inr v)
    with Cons.IH [of "Suc i"] show ?thesis
      by (cases "validate_items name f (Suc i) rs") (auto simp: nested_def list_all2_Cons1)
  qed
qed

lemma optional_model_Inr_iff:
  "optional_model name f kw = Inr r \<longleftrightarrow>
     (kw = None \<and> r = None) \<or> (\<exists>x v. kw = Some x \<and> f x = Inr v \<and> r = Some v)"
  by (cases kw; cases "f (the kw)") (auto simp: optional_model_def nested_def)

lemma values_get_simps [simp]: "values_get (Inl es) = None" "values_get (Inr v) = Some v"
  by (simp_all add: values_get_def)

lemma model_list_Inr_iff:
  "model_list name f kw = Inr vs \<longleftrightarrow>
     (kw = None \<and> vs = []) \<or> (\<exists>rs. kw = Some rs \<and> list_all2 (\<lambda>r v. f r = Inr v) rs vs)"
  by (cases kw) (auto simp: model_list_def validate_items_Inr_iff)

section \<open>Where the errors of nested models are reported\<close>

lemma errors_validate_items:
  "errors (validate_items name f i rs) =
     concat (map (\<lambda>(j, r). map (\<lambda>(l, e). (Name name # Index j # l, e)) (errors (f r)))
       (List.enumerate i rs))"
  by (induction rs arbitrary: i) simp_all

lemma errors_model_list:
  "errors (model_list name f kw) =
     concat (map (\<lambda>(j, r). map (\<lambda>(l, e). (Name name # Index j # l, e)) (errors (f r)))
       (List.enumerate 0 (default_to [] kw)))"
  by (cases kw) (simp_all add: model_list_def errors_validate_items)

lemma errors_optional_model:
  "errors (optional_model name f kw) =
     (case kw of None \<Rightarrow> [] | Some r \<Rightarrow> map (\<lambda>(l, e). (Name name # l, e)) (errors (f r)))"
  by (cases kw) (simp_all add: optional_model_def)

end
