(* ===== verification/Models.thy ===== *)
theory Models
  imports Pydantic
begin

text \<open>
  The data model of \<^verbatim>\<open>src/backend/src/models.py\<close>: its three enumerations as datatypes,
  every pydantic class as a record (a subclass extends the record of its base class),
  the \<^verbatim>\<open>@validator\<close> methods as functions that return the accepted value or the
  \<^verbatim>\<open>ValueError\<close> they raise, and the construction of an instance from keyword
  arguments as a function into \<^typ>\<open>'a validated\<close>.

  Field \<open>f\<close> of a class is the record field \<open>p_f\<close>, where the prefix \<open>p\<close> names the class
  family: \<open>mv\<close> (Movie), \<open>ep\<close> (Episode), \<open>sr\<close> (Series), \<open>vs\<close> (VideoSource), \<open>sub\<close>
  (Subtitle), \<open>wr\<close> (WatchResponse), \<open>res\<close> (SearchResult), \<open>srch\<close> (SearchResponse),
  \<open>cat\<close> (CategoryItem), \<open>hs\<close> (HomeSection), \<open>hr\<close> (HomeResponse), \<open>api\<close> (APIResponse).
  The keyword arguments of a class are the record \<open>C_in\<close> with fields \<open>in_p_f\<close>.

  The lemmas characterise, class by class, the inputs that are accepted and the model
  that results (\<open>C_validate_Inr_iff\<close>), the errors of a rejected input, and the
  invariant \<open>C_ok\<close> that an accepted model satisfies. The last section states the
  properties of the models, each with an instance on the example inputs.
\<close>

section \<open>Enumerations\<close>

datatype ContentType = MOVIE | SERIES | SHOW | ANIME | DRAMA

datatype Language = ARABIC | TURKISH | ENGLISH | HINDI | KOREAN | JAPANESE | MULTI

datatype Quality = SD | HD | FHD | UHD

text \<open>The \<^verbatim>\<open>str\<close> value of a member, which \<^verbatim>\<open>use_enum_values\<close> stores and serialises.\<close>

fun ContentType_value :: "ContentType \<Rightarrow> py_str" where
  "ContentType_value MOVIE = ''movie''"
| "ContentType_value SERIES = ''series''"
| "ContentType_value SHOW = ''show''"
| "ContentType_value ANIME = ''anime''"
| "ContentType_value DRAMA = ''drama''"

fun Language_value :: "Language \<Rightarrow> py_str" where
  "Language_value ARABIC = ''arabic''"
| "Language_value TURKISH = ''turkish''"
| "Language_value ENGLISH = ''english''"
| "Language_value HINDI = ''hindi''"
| "Language_value KOREAN = ''korean''"
| "Language_value JAPANESE = ''japanese''"
| "Language_value MULTI = ''multi''"

fun Quality_value :: "Quality \<Rightarrow> py_str" where
  "Quality_value SD = ''SD''"
| "Quality_value HD = ''HD''"
| "Quality_value FHD = ''FHD''"
| "Quality_value UHD = ''UHD''"

text \<open>Looking a member up by value, \<^verbatim>\<open>Quality("HD")\<close>: the first member with that value.\<close>

definition enum_of_value :: "('e \<Rightarrow> py_str) \<Rightarrow> 'e list \<Rightarrow> py_str \<Rightarrow> 'e option" where
  "enum_of_value val members s = find (\<lambda>m. val m = s) members"

definition ContentType_members :: "ContentType list" where
  "ContentType_members = [MOVIE, SERIES, SHOW, ANIME, DRAMA]"

definition Language_members :: "Language list" where
  "Language_members = [ARABIC, TURKISH, ENGLISH, HINDI, KOREAN, JAPANESE, MULTI]"

definition Quality_members :: "Quality list" where
  "Quality_members = [SD, HD, FHD, UHD]"

definition ContentType_of_value :: "py_str \<Rightarrow> ContentType option" where
  "ContentType_of_value = enum_of_value ContentType_value ContentType_members"

definition Language_of_value :: "py_str \<Rightarrow> Language option" where
  "Language_of_value = enum_of_value Language_value Language_members"

definition Quality_of_value :: "py_str \<Rightarrow> Quality option" where
  "Quality_of_value = enum_of_value Quality_value Quality_members"

section \<open>Time stamps\<close>

text \<open>A \<^verbatim>\<open>datetime\<close> value; \<^verbatim>\<open>datetime.now()\<close> is a parameter of every validation.\<close>

record datetime =
  dt_year :: py_int
  dt_month :: py_int
  dt_day :: py_int
  dt_hour :: py_int
  dt_minute :: py_int
  dt_second :: py_int
  dt_microsecond :: py_int

section \<open>Movies\<close>

record MovieBase =
  mv_id :: py_str
  mv_title :: py_str
  mv_original_title :: "py_str option"
  mv_description :: "py_str option"
  mv_year :: "py_int option"
  mv_duration :: "py_int option"
  mv_rating :: "py_float option"

record MovieCreate = MovieBase +
  mv_poster_url :: "py_str option"
  mv_backdrop_url :: "py_str option"
  mv_trailer_url :: "py_str option"
  mv_genres :: "py_str list"
  mv_directors :: "py_str list"
  mv_cast :: "py_str list"
  mv_country :: "py_str option"
  mv_language :: "Language option"
  mv_quality :: "Quality option"

record MovieResponse = MovieCreate +
  mv_created_at :: datetime
  mv_updated_at :: datetime
  mv_views :: py_int
  mv_source_url :: py_str

record MovieBase_in =
  in_mv_id :: "py_str option"
  in_mv_title :: "py_str option"
  in_mv_original_title :: "py_str option"
  in_mv_description :: "py_str option"
  in_mv_year :: "py_int option"
  in_mv_duration :: "py_int option"
  in_mv_rating :: "py_float option"

record MovieCreate_in = MovieBase_in +
  in_mv_poster_url :: "py_str option"
  in_mv_backdrop_url :: "py_str option"
  in_mv_trailer_url :: "py_str option"
  in_mv_genres :: "py_str list option"
  in_mv_directors :: "py_str list option"
  in_mv_cast :: "py_str list option"
  in_mv_country :: "py_str option"
  in_mv_language :: "Language option"
  in_mv_quality :: "Quality option"

record MovieResponse_in = MovieCreate_in +
  in_mv_created_at :: "datetime option"
  in_mv_updated_at :: "datetime option"
  in_mv_views :: "py_int option"
  in_mv_source_url :: "py_str option"

definition validate_year :: "datetime \<Rightarrow> py_int \<Rightarrow> py_int checked" where
  "validate_year now v =
     (if truthy_int v \<and> (v < 1900 \<or> v > dt_year now + 1) then Inl (ValueError ''Invalid year'')
      else Inr v)"

definition MovieBase_validate :: "datetime \<Rightarrow> 'a MovieBase_in_scheme \<Rightarrow> MovieBase validated" where
  "MovieBase_validate now kw =
     ap (ap (ap (ap (ap (ap (ap (Inr MovieBase.make)
       (required ''id'' no_check (in_mv_id kw)))
       (required ''title'' no_check (in_mv_title kw)))
       (optional ''original_title'' no_check (in_mv_original_title kw)))
       (optional ''description'' no_check (in_mv_description kw)))
       (optional ''year'' (validate_year now) (in_mv_year kw)))
       (optional ''duration'' no_check (in_mv_duration kw)))
       (optional ''rating'' (and_then (ge 0) (le 10)) (in_mv_rating kw))"

definition MovieCreate_validate ::
    "datetime \<Rightarrow> 'a MovieCreate_in_scheme \<Rightarrow> MovieCreate validated" where
  "MovieCreate_validate now kw =
     ap (ap (ap (ap (ap (ap (ap (ap (ap
       (map_sum id (\<lambda>b p bd t g d c co l q.
          MovieBase.extend b (MovieCreate.fields p bd t g d c co l q))
          (MovieBase_validate now kw))
       (optional ''poster_url'' no_check (in_mv_poster_url kw)))
       (optional ''backdrop_url'' no_check (in_mv_backdrop_url kw)))
       (optional ''trailer_url'' no_check (in_mv_trailer_url kw)))
       (with_default ''genres'' [] no_check (in_mv_genres kw)))
       (with_default ''directors'' [] no_check (in_mv_directors kw)))
       (with_default ''cast'' [] no_check (in_mv_cast kw)))
       (optional ''country'' no_check (in_mv_country kw)))
       (optional ''language'' no_check (in_mv_language kw)))
       (optional ''quality'' no_check (in_mv_quality kw))"

definition MovieResponse_validate ::
    "datetime \<Rightarrow> 'a MovieResponse_in_scheme \<Rightarrow> MovieResponse validated" where
  "MovieResponse_validate now kw =
     ap (ap (ap (ap
       (map_sum id (\<lambda>c ca ua v s. MovieCreate.extend c (MovieResponse.fields ca ua v s))
          (MovieCreate_validate now kw))
       (with_default ''created_at'' now no_check (in_mv_created_at kw)))
       (with_default ''updated_at'' now no_check (in_mv_updated_at kw)))
       (with_default ''views'' 0 no_check (in_mv_views kw)))
       (required ''source_url'' no_check (in_mv_source_url kw))"

section \<open>Episodes\<close>

record EpisodeBase =
  ep_id :: py_str
  ep_title :: py_str
  ep_episode_number :: py_int
  ep_season_number :: py_int
  ep_description :: "py_str option"
  ep_duration :: "py_int option"

record EpisodeCreate = EpisodeBase +
  ep_thumbnail_url :: "py_str option"
  ep_air_date :: "datetime option"

record EpisodeResponse = EpisodeCreate +
  ep_created_at :: datetime
  ep_updated_at :: datetime
  ep_source_url :: py_str

record EpisodeBase_in =
  in_ep_id :: "py_str option"
  in_ep_title :: "py_str option"
  in_ep_episode_number :: "py_int option"
  in_ep_season_number :: "py_int option"
  in_ep_description :: "py_str option"
  in_ep_duration :: "py_int option"

record EpisodeCreate_in = EpisodeBase_in +
  in_ep_thumbnail_url :: "py_str option"
  in_ep_air_date :: "datetime option"

record EpisodeResponse_in = EpisodeCreate_in +
  in_ep_created_at :: "datetime option"
  in_ep_updated_at :: "datetime option"
  in_ep_source_url :: "py_str option"

definition validate_title :: "py_str \<Rightarrow> py_str checked" where
  "validate_title v =
     (if \<not> truthy_str v \<or> strip v = '''' then Inl (ValueError ''Title cannot be empty'')
      else Inr (strip v))"

definition EpisodeBase_validate :: "'a EpisodeBase_in_scheme \<Rightarrow> EpisodeBase validated" where
  "EpisodeBase_validate kw =
     ap (ap (ap (ap (ap (ap (Inr EpisodeBase.make)
       (required ''id'' no_check (in_ep_id kw)))
       (required ''title'' validate_title (in_ep_title kw)))
       (required ''episode_number'' (ge 1) (in_ep_episode_number kw)))
       (with_default ''season_number'' 1 (ge 1) (in_ep_season_number kw)))
       (optional ''description'' no_check (in_ep_description kw)))
       (optional ''duration'' no_check (in_ep_duration kw))"

definition EpisodeCreate_validate :: "'a EpisodeCreate_in_scheme \<Rightarrow> EpisodeCreate validated" where
  "EpisodeCreate_validate kw =
     ap (ap
       (map_sum id (\<lambda>b t a. EpisodeBase.extend b (EpisodeCreate.fields t a))
          (EpisodeBase_validate kw))
       (optional ''thumbnail_url'' no_check (in_ep_thumbnail_url kw)))
       (optional ''air_date'' no_check (in_ep_air_date kw))"

definition EpisodeResponse_validate ::
    "datetime \<Rightarrow> 'a EpisodeResponse_in_scheme \<Rightarrow> EpisodeResponse validated" where
  "EpisodeResponse_validate now kw =
     ap (ap (ap
       (map_sum id (\<lambda>c ca ua s. EpisodeCreate.extend c (EpisodeResponse.fields ca ua s))
          (EpisodeCreate_validate kw))
       (with_default ''created_at'' now no_check (in_ep_created_at kw)))
       (with_default ''updated_at'' now no_check (in_ep_updated_at kw)))
       (required ''source_url'' no_check (in_ep_source_url kw))"

section \<open>Series\<close>

record SeriesBase =
  sr_id :: py_str
  sr_title :: py_str
  sr_original_title :: "py_str option"
  sr_description :: "py_str option"
  sr_year_start :: "py_int option"
  sr_year_end :: "py_int option"
  sr_rating :: "py_float option"
  sr_total_seasons :: "py_int option"
  sr_total_episodes :: "py_int option"

record SeriesCreate = SeriesBase +
  sr_poster_url :: "py_str option"
  sr_backdrop_url :: "py_str option"
  sr_trailer_url :: "py_str option"
  sr_genres :: "py_str list"
  sr_directors :: "py_str list"
  sr_cast :: "py_str list"
  sr_country :: "py_str option"
  sr_language :: "Language option"
  sr_status :: "py_str option"

record SeriesResponse = SeriesCreate +
  sr_episodes :: "EpisodeResponse list"
  sr_created_at :: datetime
  sr_updated_at :: datetime
  sr_views :: py_int
  sr_source_url :: py_str

record SeriesBase_in =
  in_sr_id :: "py_str option"
  in_sr_title :: "py_str option"
  in_sr_original_title :: "py_str option"
  in_sr_description :: "py_str option"
  in_sr_year_start :: "py_int option"
  in_sr_year_end :: "py_int option"
  in_sr_rating :: "py_float option"
  in_sr_total_seasons :: "py_int option"
  in_sr_total_episodes :: "py_int option"

record SeriesCreate_in = SeriesBase_in +
  in_sr_poster_url :: "py_str option"
  in_sr_backdrop_url :: "py_str option"
  in_sr_trailer_url :: "py_str option"
  in_sr_genres :: "py_str list option"
  in_sr_directors :: "py_str list option"
  in_sr_cast :: "py_str list option"
  in_sr_country :: "py_str option"
  in_sr_language :: "Language option"
  in_sr_status :: "py_str option"

record SeriesResponse_in = SeriesCreate_in +
  in_sr_episodes :: "EpisodeResponse_in list option"
  in_sr_created_at :: "datetime option"
  in_sr_updated_at :: "datetime option"
  in_sr_views :: "py_int option"
  in_sr_source_url :: "py_str option"

text \<open>
  The first argument is \<^verbatim>\<open>values.get('year_start')\<close> when the key is in \<^verbatim>\<open>values\<close>, and
  \<open>None\<close> when it is not.
\<close>

fun validate_year_end :: "py_int option option \<Rightarrow> py_int \<Rightarrow> py_int checked" where
  "validate_year_end (Some (Some ys)) v =
     (if truthy_int v \<and> truthy_int ys \<and> v < ys
      then Inl (ValueError ''End year cannot be before start year'') else Inr v)"
| "validate_year_end (Some None) v = Inr v"
| "validate_year_end None v = Inr v"

definition SeriesBase_validate :: "'a SeriesBase_in_scheme \<Rightarrow> SeriesBase validated" where
  "SeriesBase_validate kw =
     (let year_start = optional ''year_start'' no_check (in_sr_year_start kw) in
      ap (ap (ap (ap (ap (ap (ap (ap (ap (Inr SeriesBase.make)
        (required ''id'' no_check (in_sr_id kw)))
        (required ''title'' no_check (in_sr_title kw)))
        (optional ''original_title'' no_check (in_sr_original_title kw)))
        (optional ''description'' no_check (in_sr_description kw)))
        year_start)
        (optional ''year_end'' (validate_year_end (values_get year_start)) (in_sr_year_end kw)))
        (optional ''rating'' (and_then (ge 0) (le 10)) (in_sr_rating kw)))
        (optional ''total_seasons'' (ge 1) (in_sr_total_seasons kw)))
        (optional ''total_episodes'' (ge 1) (in_sr_total_episodes kw)))"

definition SeriesCreate_validate :: "'a SeriesCreate_in_scheme \<Rightarrow> SeriesCreate validated" where
  "SeriesCreate_validate kw =
     ap (ap (ap (ap (ap (ap (ap (ap (ap
       (map_sum id (\<lambda>b p bd t g d c co l s.
          SeriesBase.extend b (SeriesCreate.fields p bd t g d c co l s))
          (SeriesBase_validate kw))
       (optional ''poster_url'' no_check (in_sr_poster_url kw)))
       (optional ''backdrop_url'' no_check (in_sr_backdrop_url kw)))
       (optional ''trailer_url'' no_check (in_sr_trailer_url kw)))
       (with_default ''genres'' [] no_check (in_sr_genres kw)))
       (with_default ''directors'' [] no_check (in_sr_directors kw)))
       (with_default ''cast'' [] no_check (in_sr_cast kw)))
       (optional ''country'' no_check (in_sr_country kw)))
       (optional ''language'' no_check (in_sr_language kw)))
       (optional ''status'' no_check (in_sr_status kw))"

definition SeriesResponse_validate ::
    "datetime \<Rightarrow> 'a SeriesResponse_in_scheme \<Rightarrow> SeriesResponse validated" where
  "SeriesResponse_validate now kw =
     ap (ap (ap (ap (ap
       (map_sum id (\<lambda>c e ca ua v s. SeriesCreate.extend c (SeriesResponse.fields e ca ua v s))
          (SeriesCreate_validate kw))
       (model_list ''episodes'' (EpisodeResponse_validate now) (in_sr_episodes kw)))
       (with_default ''created_at'' now no_check (in_sr_created_at kw)))
       (with_default ''updated_at'' now no_check (in_sr_updated_at kw)))
       (with_default ''views'' 0 no_check (in_sr_views kw)))
       (required ''source_url'' no_check (in_sr_source_url kw))"

section \<open>Video sources and subtitles\<close>

record VideoSource =
  vs_url :: py_str
  vs_quality :: Quality
  vs_type :: py_str
  vs_size :: "py_str option"
  vs_bitrate :: "py_int option"
  vs_width :: "py_int option"
  vs_height :: "py_int option"
  vs_is_direct :: bool
  vs_requires_proxy :: bool

record VideoSource_in =
  in_vs_url :: "py_str option"
  in_vs_quality :: "Quality option"
  in_vs_type :: "py_str option"
  in_vs_size :: "py_str option"
  in_vs_bitrate :: "py_int option"
  in_vs_width :: "py_int option"
  in_vs_height :: "py_int option"
  in_vs_is_direct :: "bool option"
  in_vs_requires_proxy :: "bool option"

definition url_schemes :: "py_str list" where
  "url_schemes = [''http://'', ''https://'', ''//'']"

definition validate_url :: "py_str \<Rightarrow> py_str checked" where
  "validate_url v =
     (if \<not> truthy_str v \<or> \<not> startswith_any v url_schemes
      then Inl (ValueError ''Invalid URL format'') else Inr v)"

definition VideoSource_validate :: "VideoSource_in \<Rightarrow> VideoSource validated" where
  "VideoSource_validate kw =
     ap (ap (ap (ap (ap (ap (ap (ap (ap (Inr VideoSource.make)
       (required ''url'' validate_url (in_vs_url kw)))
       (with_default ''quality'' HD no_check (in_vs_quality kw)))
       (with_default ''type'' ''video/mp4'' no_check (in_vs_type kw)))
       (optional ''size'' no_check (in_vs_size kw)))
       (optional ''bitrate'' no_check (in_vs_bitrate kw)))
       (optional ''width'' no_check (in_vs_width kw)))
       (optional ''height'' no_check (in_vs_height kw)))
       (with_default ''is_direct'' True no_check (in_vs_is_direct kw)))
       (with_default ''requires_proxy'' False no_check (in_vs_requires_proxy kw))"

record Subtitle =
  sub_language :: py_str
  sub_url :: py_str
  sub_format :: py_str
  sub_is_default :: bool

record Subtitle_in =
  in_sub_language :: "py_str option"
  in_sub_url :: "py_str option"
  in_sub_format :: "py_str option"
  in_sub_is_default :: "bool option"

definition valid_languages :: "py_str list" where
  "valid_languages = [''ar'', ''en'', ''tr'', ''fr'', ''es'', ''de'', ''ru'', ''fa'', ''ur'']"

definition validate_language :: "py_str \<Rightarrow> py_str checked" where
  "validate_language v =
     (if v \<notin> set valid_languages
      then Inl (ValueError (''Language must be one of: '' @ join '', '' valid_languages))
      else Inr v)"

definition Subtitle_validate :: "Subtitle_in \<Rightarrow> Subtitle validated" where
  "Subtitle_validate kw =
     ap (ap (ap (ap (Inr Subtitle.make)
       (required ''language'' validate_language (in_sub_language kw)))
       (required ''url'' no_check (in_sub_url kw)))
       (with_default ''format'' ''srt'' no_check (in_sub_format kw)))
       (with_default ''is_default'' False no_check (in_sub_is_default kw))"

section \<open>Responses\<close>

record WatchResponse =
  wr_content_id :: py_str
  wr_title :: py_str
  wr_type :: ContentType
  wr_video_sources :: "VideoSource list"
  wr_subtitles :: "Subtitle list"
  wr_next_episode :: "py_str option"
  wr_prev_episode :: "py_str option"

record WatchResponse_in =
  in_wr_content_id :: "py_str option"
  in_wr_title :: "py_str option"
  in_wr_type :: "ContentType option"
  in_wr_video_sources :: "VideoSource_in list option"
  in_wr_subtitles :: "Subtitle_in list option"
  in_wr_next_episode :: "py_str option"
  in_wr_prev_episode :: "py_str option"

definition WatchResponse_validate :: "WatchResponse_in \<Rightarrow> WatchResponse validated" where
  "WatchResponse_validate kw =
     ap (ap (ap (ap (ap (ap (ap (Inr WatchResponse.make)
       (required ''content_id'' no_check (in_wr_content_id kw)))
       (required ''title'' no_check (in_wr_title kw)))
       (required ''type'' no_check (in_wr_type kw)))
       (model_list ''video_sources'' VideoSource_validate (in_wr_video_sources kw)))
       (model_list ''subtitles'' Subtitle_validate (in_wr_subtitles kw)))
       (optional ''next_episode'' no_check (in_wr_next_episode kw)))
       (optional ''prev_episode'' no_check (in_wr_prev_episode kw))"

record SearchResult =
  res_id :: py_str
  res_title :: py_str
  res_type :: ContentType
  res_year :: "py_int option"
  res_poster_url :: "py_str option"
  res_description :: "py_str option"
  res_score :: py_float

record SearchResult_in =
  in_res_id :: "py_str option"
  in_res_title :: "py_str option"
  in_res_type :: "ContentType option"
  in_res_year :: "py_int option"
  in_res_poster_url :: "py_str option"
  in_res_description :: "py_str option"
  in_res_score :: "py_float option"

definition SearchResult_validate :: "SearchResult_in \<Rightarrow> SearchResult validated" where
  "SearchResult_validate kw =
     ap (ap (ap (ap (ap (ap (ap (Inr SearchResult.make)
       (required ''id'' no_check (in_res_id kw)))
       (required ''title'' no_check (in_res_title kw)))
       (required ''type'' no_check (in_res_type kw)))
       (optional ''year'' no_check (in_res_year kw)))
       (optional ''poster_url'' no_check (in_res_poster_url kw)))
       (optional ''description'' no_check (in_res_description kw)))
       (with_default ''score'' 0 no_check (in_res_score kw))"

record SearchResponse =
  srch_query :: py_str
  srch_results :: "SearchResult list"
  srch_total_results :: py_int
  srch_page :: py_int
  srch_total_pages :: py_int

record SearchResponse_in =
  in_srch_query :: "py_str option"
  in_srch_results :: "SearchResult_in list option"
  in_srch_total_results :: "py_int option"
  in_srch_page :: "py_int option"
  in_srch_total_pages :: "py_int option"

definition SearchResponse_validate :: "SearchResponse_in \<Rightarrow> SearchResponse validated" where
  "SearchResponse_validate kw =
     ap (ap (ap (ap (ap (Inr SearchResponse.make)
       (required ''query'' no_check (in_srch_query kw)))
       (model_list ''results'' SearchResult_validate (in_srch_results kw)))
       (with_default ''total_results'' 0 no_check (in_srch_total_results kw)))
       (with_default ''page'' 1 no_check (in_srch_page kw)))
       (with_default ''total_pages'' 1 no_check (in_srch_total_pages kw))"

record CategoryItem =
  cat_id :: py_str
  cat_name :: py_str
  cat_description :: "py_str option"
  cat_icon :: "py_str option"
  cat_item_count :: py_int

record CategoryItem_in =
  in_cat_id :: "py_str option"
  in_cat_name :: "py_str option"
  in_cat_description :: "py_str option"
  in_cat_icon :: "py_str option"
  in_cat_item_count :: "py_int option"

definition CategoryItem_validate :: "CategoryItem_in \<Rightarrow> CategoryItem validated" where
  "CategoryItem_validate kw =
     ap (ap (ap (ap (ap (Inr CategoryItem.make)
       (required ''id'' no_check (in_cat_id kw)))
       (required ''name'' no_check (in_cat_name kw)))
       (optional ''description'' no_check (in_cat_description kw)))
       (optional ''icon'' no_check (in_cat_icon kw)))
       (with_default ''item_count'' 0 no_check (in_cat_item_count kw))"

record HomeSection =
  hs_title :: py_str
  hs_type :: py_str
  hs_items :: "MovieResponse list"
  hs_view_all_url :: "py_str option"

record HomeSection_in =
  in_hs_title :: "py_str option"
  in_hs_type :: "py_str option"
  in_hs_items :: "MovieResponse_in list option"
  in_hs_view_all_url :: "py_str option"

definition HomeSection_validate :: "datetime \<Rightarrow> HomeSection_in \<Rightarrow> HomeSection validated" where
  "HomeSection_validate now kw =
     ap (ap (ap (ap (Inr HomeSection.make)
       (required ''title'' no_check (in_hs_title kw)))
       (required ''type'' no_check (in_hs_type kw)))
       (model_list ''items'' (MovieResponse_validate now) (in_hs_items kw)))
       (optional ''view_all_url'' no_check (in_hs_view_all_url kw))"

record HomeResponse =
  hr_sections :: "HomeSection list"
  hr_featured :: "MovieResponse option"
  hr_updated_at :: datetime

record HomeResponse_in =
  in_hr_sections :: "HomeSection_in list option"
  in_hr_featured :: "MovieResponse_in option"
  in_hr_updated_at :: "datetime option"

definition HomeResponse_validate :: "datetime \<Rightarrow> HomeResponse_in \<Rightarrow> HomeResponse validated" where
  "HomeResponse_validate now kw =
     ap (ap (ap (Inr HomeResponse.make)
       (model_list ''sections'' (HomeSection_validate now) (in_hr_sections kw)))
       (optional_model ''featured'' (MovieResponse_validate now) (in_hr_featured kw)))
       (with_default ''updated_at'' now no_check (in_hr_updated_at kw))"

text \<open>The payload of an \<^verbatim>\<open>APIResponse\<close> is \<^verbatim>\<open>Any\<close>: a type parameter.\<close>

record 'd APIResponse =
  api_success :: bool
  api_data :: "'d option"
  api_message :: "py_str option"
  api_error_code :: "py_str option"
  api_timestamp :: datetime

record 'd APIResponse_in =
  in_api_success :: "bool option"
  in_api_data :: "'d option"
  in_api_message :: "py_str option"
  in_api_error_code :: "py_str option"
  in_api_timestamp :: "datetime option"

definition APIResponse_validate :: "datetime \<Rightarrow> 'd APIResponse_in \<Rightarrow> 'd APIResponse validated" where
  "APIResponse_validate now kw =
     ap (ap (ap (ap (ap (Inr APIResponse.make)
       (with_default ''success'' True no_check (in_api_success kw)))
       (optional ''data'' no_check (in_api_data kw)))
       (optional ''message'' no_check (in_api_message kw)))
       (optional ''error_code'' no_check (in_api_error_code kw)))
       (with_default ''timestamp'' now no_check (in_api_timestamp kw))"

section \<open>Invariants of validated instances\<close>

text \<open>
  What the validators and constraints of the classes guarantee of an instance, stated
  on the instance alone. A year that is \<open>0\<close> passes every year check of the code,
  because \<^verbatim>\<open>if v and ...\<close> treats it like an absent value.
\<close>

definition year_ok :: "datetime \<Rightarrow> py_int option \<Rightarrow> bool" where
  "year_ok now y = (case y of None \<Rightarrow> True | Some v \<Rightarrow> v = 0 \<or> (1900 \<le> v \<and> v \<le> dt_year now + 1))"

definition rating_ok :: "py_float option \<Rightarrow> bool" where
  "rating_ok r = (case r of None \<Rightarrow> True | Some v \<Rightarrow> 0 \<le> v \<and> v \<le> 10)"

definition count_ok :: "py_int option \<Rightarrow> bool" where
  "count_ok n = (case n of None \<Rightarrow> True | Some v \<Rightarrow> 1 \<le> v)"

definition years_ok :: "py_int option \<Rightarrow> py_int option \<Rightarrow> bool" where
  "years_ok ys ye =
     (case ye of None \<Rightarrow> True
      | Some e \<Rightarrow> (case ys of None \<Rightarrow> True | Some s \<Rightarrow> e = 0 \<or> s = 0 \<or> s \<le> e))"

definition title_ok :: "py_str \<Rightarrow> bool" where
  "title_ok t \<longleftrightarrow> t \<noteq> [] \<and> \<not> is_space (hd t) \<and> \<not> is_space (last t)"

definition url_ok :: "py_str \<Rightarrow> bool" where
  "url_ok u \<longleftrightarrow> startswith_any u url_schemes"

definition MovieBase_ok :: "datetime \<Rightarrow> 'a MovieBase_scheme \<Rightarrow> bool" where
  "MovieBase_ok now m \<longleftrightarrow> year_ok now (mv_year m) \<and> rating_ok (mv_rating m)"

definition EpisodeBase_ok :: "'a EpisodeBase_scheme \<Rightarrow> bool" where
  "EpisodeBase_ok e \<longleftrightarrow>
     title_ok (ep_title e) \<and> 1 \<le> ep_episode_number e \<and> 1 \<le> ep_season_number e"

definition SeriesBase_ok :: "'a SeriesBase_scheme \<Rightarrow> bool" where
  "SeriesBase_ok s \<longleftrightarrow>
     years_ok (sr_year_start s) (sr_year_end s) \<and> rating_ok (sr_rating s) \<and>
     count_ok (sr_total_seasons s) \<and> count_ok (sr_total_episodes s)"

definition SeriesResponse_ok :: "SeriesResponse \<Rightarrow> bool" where
  "SeriesResponse_ok s \<longleftrightarrow> SeriesBase_ok s \<and> list_all EpisodeBase_ok (sr_episodes s)"

definition VideoSource_ok :: "VideoSource \<Rightarrow> bool" where
  "VideoSource_ok v \<longleftrightarrow> url_ok (vs_url v)"

definition Subtitle_ok :: "Subtitle \<Rightarrow> bool" where
  "Subtitle_ok s \<longleftrightarrow> sub_language s \<in> set valid_languages"

definition WatchResponse_ok :: "WatchResponse \<Rightarrow> bool" where
  "WatchResponse_ok w \<longleftrightarrow>
     list_all VideoSource_ok (wr_video_sources w) \<and> list_all Subtitle_ok (wr_subtitles w)"

section \<open>A model as keyword arguments\<close>

text \<open>\<^verbatim>\<open>Model(**m.dict())\<close>: the fields of a model given back to its class.\<close>

definition MovieResponse_to_in :: "MovieResponse \<Rightarrow> MovieResponse_in" where
  "MovieResponse_to_in m =
     \<lparr>in_mv_id = Some (mv_id m), in_mv_title = Some (mv_title m),
      in_mv_original_title = mv_original_title m, in_mv_description = mv_description m,
      in_mv_year = mv_year m, in_mv_duration = mv_duration m, in_mv_rating = mv_rating m,
      in_mv_poster_url = mv_poster_url m, in_mv_backdrop_url = mv_backdrop_url m,
      in_mv_trailer_url = mv_trailer_url m, in_mv_genres = Some (mv_genres m),
      in_mv_directors = Some (mv_directors m), in_mv_cast = Some (mv_cast m),
      in_mv_country = mv_country m, in_mv_language = mv_language m,
      in_mv_quality = mv_quality m, in_mv_created_at = Some (mv_created_at m),
      in_mv_updated_at = Some (mv_updated_at m), in_mv_views = Some (mv_views m),
      in_mv_source_url = Some (mv_source_url m)\<rparr>"

definition EpisodeResponse_to_in :: "EpisodeResponse \<Rightarrow> EpisodeResponse_in" where
  "EpisodeResponse_to_in e =
     \<lparr>in_ep_id = Some (ep_id e), in_ep_title = Some (ep_title e),
      in_ep_episode_number = Some (ep_episode_number e),
      in_ep_season_number = Some (ep_season_number e),
      in_ep_description = ep_description e, in_ep_duration = ep_duration e,
      in_ep_thumbnail_url = ep_thumbnail_url e, in_ep_air_date = ep_air_date e,
      in_ep_created_at = Some (ep_created_at e), in_ep_updated_at = Some (ep_updated_at e),
      in_ep_source_url = Some (ep_source_url e)\<rparr>"

section \<open>Example inputs\<close>

text \<open>
  Concrete keyword arguments and the models they validate to; the instances of the
  properties below are stated on them.
\<close>

definition example_now :: datetime where
  "example_now = \<lparr>dt_year = 2024, dt_month = 6, dt_day = 1, dt_hour = 12, dt_minute = 0,
     dt_second = 0, dt_microsecond = 0\<rparr>"

definition example_movie_in :: MovieResponse_in where
  "example_movie_in =
     \<lparr>in_mv_id = Some ''m1'', in_mv_title = Some ''Batman Begins'', in_mv_original_title = None,
      in_mv_description = None, in_mv_year = Some 2005, in_mv_duration = Some 140,
      in_mv_rating = Some 8.2, in_mv_poster_url = None, in_mv_backdrop_url = None,
      in_mv_trailer_url = None, in_mv_genres = Some [''action''], in_mv_directors = None,
      in_mv_cast = None, in_mv_country = None, in_mv_language = Some ENGLISH,
      in_mv_quality = Some FHD, in_mv_created_at = None, in_mv_updated_at = None,
      in_mv_views = None, in_mv_source_url = Some ''https://example.org/m1''\<rparr>"

definition example_episode_in :: EpisodeResponse_in where
  "example_episode_in =
     \<lparr>in_ep_id = Some ''e1'', in_ep_title = Some ''  Pilot '', in_ep_episode_number = Some 1,
      in_ep_season_number = None, in_ep_description = None, in_ep_duration = None,
      in_ep_thumbnail_url = None, in_ep_air_date = None, in_ep_created_at = None,
      in_ep_updated_at = None, in_ep_source_url = Some ''https://example.org/e1''\<rparr>"

definition example_series_in :: SeriesResponse_in where
  "example_series_in =
     \<lparr>in_sr_id = Some ''s1'', in_sr_title = Some ''Dark'', in_sr_original_title = None,
      in_sr_description = None, in_sr_year_start = Some 2017, in_sr_year_end = Some 2020,
      in_sr_rating = Some 8.7, in_sr_total_seasons = Some 3, in_sr_total_episodes = Some 26,
      in_sr_poster_url = None, in_sr_backdrop_url = None, in_sr_trailer_url = None,
      in_sr_genres = None, in_sr_directors = None, in_sr_cast = None, in_sr_country = None,
      in_sr_language = None, in_sr_status = Some ''completed'',
      in_sr_episodes = Some [example_episode_in], in_sr_created_at = None,
      in_sr_updated_at = None, in_sr_views = None,
      in_sr_source_url = Some ''https://example.org/s1''\<rparr>"

definition example_source_in :: VideoSource_in where
  "example_source_in =
     \<lparr>in_vs_url = Some ''https://cdn.example.org/v.mp4'', in_vs_quality = None,
      in_vs_type = None, in_vs_size = None, in_vs_bitrate = Some 500, in_vs_width = None,
      in_vs_height = None, in_vs_is_direct = Some True, in_vs_requires_proxy = Some True\<rparr>"

definition example_subtitle_in :: Subtitle_in where
  "example_subtitle_in =
     \<lparr>in_sub_language = Some ''ar'', in_sub_url = Some ''https://example.org/a.srt'',
      in_sub_format = None, in_sub_is_default = None\<rparr>"

definition example_watch_in :: WatchResponse_in where
  "example_watch_in =
     \<lparr>in_wr_content_id = Some ''m1'', in_wr_title = Some ''Batman Begins'',
      in_wr_type = Some MOVIE, in_wr_video_sources = Some [example_source_in],
      in_wr_subtitles = Some [example_subtitle_in], in_wr_next_episode = None,
      in_wr_prev_episode = None\<rparr>"

definition example_movie :: MovieResponse where
  "example_movie =
     \<lparr>mv_id = ''m1'', mv_title = ''Batman Begins'', mv_original_title = None,
      mv_description = None, mv_year = Some 2005, mv_duration = Some 140,
      mv_rating = Some 8.2, mv_poster_url = None, mv_backdrop_url = None,
      mv_trailer_url = None, mv_genres = [''action''], mv_directors = [], mv_cast = [],
      mv_country = None, mv_language = Some ENGLISH, mv_quality = Some FHD,
      mv_created_at = example_now, mv_updated_at = example_now, mv_views = 0,
      mv_source_url = ''https://example.org/m1''\<rparr>"

definition example_episode :: EpisodeResponse where
  "example_episode =
     \<lparr>ep_id = ''e1'', ep_title = ''Pilot'', ep_episode_number = 1, ep_season_number = 1,
      ep_description = None, ep_duration = None, ep_thumbnail_url = None, ep_air_date = None,
      ep_created_at = example_now, ep_updated_at = example_now,
      ep_source_url = ''https://example.org/e1''\<rparr>"

definition example_series :: SeriesResponse where
  "example_series =
     \<lparr>sr_id = ''s1'', sr_title = ''Dark'', sr_original_title = None,
      sr_description = None, sr_year_start = Some 2017, sr_year_end = Some 2020,
      sr_rating = Some 8.7, sr_total_seasons = Some 3, sr_total_episodes = Some 26,
      sr_poster_url = None, sr_backdrop_url = None, sr_trailer_url = None,
      sr_genres = [], sr_directors = [], sr_cast = [], sr_country = None,
      sr_language = None, sr_status = Some ''completed'',
      sr_episodes = [example_episode], sr_created_at = example_now,
      sr_updated_at = example_now, sr_views = 0,
      sr_source_url = ''https://example.org/s1''\<rparr>"

definition example_source :: VideoSource where
  "example_source =
     \<lparr>vs_url = ''https://cdn.example.org/v.mp4'', vs_quality = HD, vs_type = ''video/mp4'',
      vs_size = None, vs_bitrate = Some 500, vs_width = None, vs_height = None,
      vs_is_direct = True, vs_requires_proxy = True\<rparr>"

definition example_watch :: WatchResponse where
  "example_watch =
     \<lparr>wr_content_id = ''m1'', wr_title = ''Batman Begins'', wr_type = MOVIE,
      wr_video_sources = [example_source],
      wr_subtitles = [\<lparr>sub_language = ''ar'', sub_url = ''https://example.org/a.srt'',
                       sub_format = ''srt'', sub_is_default = False\<rparr>],
      wr_next_episode = None, wr_prev_episode = None\<rparr>"

definition example_home_in :: HomeResponse_in where
  "example_home_in =
     \<lparr>in_hr_sections = Some [\<lparr>in_hs_title = Some ''Latest'', in_hs_type = Some ''latest'',
         in_hs_items = Some [example_movie_in], in_hs_view_all_url = None\<rparr>],
      in_hr_featured = Some example_movie_in, in_hr_updated_at = None\<rparr>"

definition example_home :: HomeResponse where
  "example_home =
     \<lparr>hr_sections = [\<lparr>hs_title = ''Latest'', hs_type = ''latest'', hs_items = [example_movie],
         hs_view_all_url = None\<rparr>],
      hr_featured = Some example_movie, hr_updated_at = example_now\<rparr>"

definition example_category_in :: CategoryItem_in where
  "example_category_in =
     \<lparr>in_cat_id = Some ''drama'', in_cat_name = Some ''Drama'', in_cat_description = None,
      in_cat_icon = None, in_cat_item_count = None\<rparr>"

definition example_search_in :: SearchResponse_in where
  "example_search_in =
     \<lparr>in_srch_query = Some ''batman'', in_srch_results = None, in_srch_total_results = None,
      in_srch_page = None, in_srch_total_pages = None\<rparr>"

lemmas [model_defs] = validate_year_def validate_title_def validate_url_def
  validate_language_def url_schemes_def valid_languages_def enum_of_value_def
  ContentType_of_value_def Language_of_value_def Quality_of_value_def
  ContentType_members_def Language_members_def Quality_members_def

lemmas ok_defs = year_ok_def rating_ok_def count_ok_def years_ok_def title_ok_def url_ok_def
  MovieBase_ok_def EpisodeBase_ok_def SeriesBase_ok_def SeriesResponse_ok_def
  VideoSource_ok_def Subtitle_ok_def WatchResponse_ok_def

section \<open>Lemmas on the enumerations\<close>

lemma ContentType_of_value_value [simp]: "ContentType_of_value (ContentType_value c) = Some c"
  by (cases c) (simp_all add: ContentType_of_value_def enum_of_value_def ContentType_members_def)

lemma Language_of_value_value [simp]: "Language_of_value (Language_value l) = Some l"
  by (cases l) (simp_all add: Language_of_value_def enum_of_value_def Language_members_def)

lemma Quality_of_value_value [simp]: "Quality_of_value (Quality_value q) = Some q"
  by (cases q) (simp_all add: Quality_of_value_def enum_of_value_def Quality_members_def)

lemma enum_of_value_Some: "enum_of_value val ms s = Some m \<Longrightarrow> val m = s \<and> m \<in> set ms"
  by (auto simp: enum_of_value_def find_Some_iff)

lemma Quality_value_inj [simp]: "Quality_value a = Quality_value b \<longleftrightarrow> a = b"
  by (metis Quality_of_value_value option.inject)

lemma Language_value_inj [simp]: "Language_value a = Language_value b \<longleftrightarrow> a = b"
  by (metis Language_of_value_value option.inject)

lemma ContentType_value_inj [simp]: "ContentType_value a = ContentType_value b \<longleftrightarrow> a = b"
  by (metis ContentType_of_value_value option.inject)

section \<open>Lemmas on the field validators\<close>

lemma validate_year_Inr_iff:
  "validate_year now v = Inr w \<longleftrightarrow> w = v \<and> (v = 0 \<or> (1900 \<le> v \<and> v \<le> dt_year now + 1))"
  by (auto simp: validate_year_def truthy_int_def)

lemma validate_year_Inl_iff:
  "validate_year now v = Inl e \<longleftrightarrow>
     e = ValueError ''Invalid year'' \<and> v \<noteq> 0 \<and> (v < 1900 \<or> dt_year now + 1 < v)"
  by (auto simp: validate_year_def truthy_int_def)

lemma validate_title_Inr_iff: "validate_title v = Inr t \<longleftrightarrow> t = strip v \<and> strip v \<noteq> []"
  by (auto simp: validate_title_def truthy_str_def)

lemma validate_title_Inl_iff:
  "validate_title v = Inl e \<longleftrightarrow> e = ValueError ''Title cannot be empty'' \<and> (\<forall>c\<in>set v. is_space c)"
  by (auto simp: validate_title_def truthy_str_def strip_eq_Nil_iff)

lemma title_ok_strip: "strip v \<noteq> [] \<Longrightarrow> title_ok (strip v)"
  by (simp add: title_ok_def strip_ends)

lemma title_ok_fixed: "title_ok t \<Longrightarrow> validate_title t = Inr t"
  by (simp add: title_ok_def validate_title_Inr_iff strip_id)

lemma validate_year_end_Inr_iff:
  "validate_year_end (Some ys) v = Inr w \<longleftrightarrow> w = v \<and> years_ok ys (Some v)"
  by (cases ys) (auto simp: years_ok_def truthy_int_def)

lemma validate_url_Inr_iff: "validate_url v = Inr u \<longleftrightarrow> u = v \<and> url_ok v"
  by (auto simp: validate_url_def url_ok_def truthy_str_def startswith_any_iff url_schemes_def)

lemma validate_language_Inr_iff: "validate_language v = Inr l \<longleftrightarrow> l = v \<and> v \<in> set valid_languages"
  by (auto simp: validate_language_def)

section \<open>Lemmas on fields with a validator\<close>

lemma optional_year_iff [simp]:
  "optional name (validate_year now) kw = Inr y \<longleftrightarrow> y = kw \<and> year_ok now kw"
  by (cases kw) (auto simp: year_ok_def validate_year_Inr_iff)

lemma optional_rating_iff [simp]:
  "optional name (and_then (ge 0) (le 10)) kw = Inr r \<longleftrightarrow> r = kw \<and> rating_ok kw"
  by (cases kw) (auto simp: rating_ok_def)

lemma optional_count_iff [simp]:
  "optional name (ge 1) kw = Inr n \<longleftrightarrow> n = kw \<and> count_ok kw"
  by (cases kw) (auto simp: count_ok_def)

lemma optional_year_end_iff [simp]:
  "optional name (validate_year_end (Some ys)) kw = Inr y \<longleftrightarrow> y = kw \<and> years_ok ys kw"
  by (cases kw) (auto simp: validate_year_end_Inr_iff, simp add: years_ok_def)

lemma required_title_iff [simp]:
  "required name validate_title kw = Inr t \<longleftrightarrow> (\<exists>v. kw = Some v \<and> t = strip v \<and> strip v \<noteq> [])"
  by (cases kw) (auto simp: validate_title_Inr_iff)

lemma required_url_iff [simp]:
  "required name validate_url kw = Inr u \<longleftrightarrow> kw = Some u \<and> url_ok u"
  by (cases kw) (auto simp: validate_url_Inr_iff)

lemma required_language_iff [simp]:
  "required name validate_language kw = Inr l \<longleftrightarrow> kw = Some l \<and> l \<in> set valid_languages"
  by (cases kw) (auto simp: validate_language_Inr_iff)

lemma required_ge_iff [simp]:
  "required name (ge b) kw = Inr n \<longleftrightarrow> kw = Some n \<and> b \<le> n"
  by (cases kw) auto

lemma with_default_ge_iff [simp]:
  "with_default name d (ge b) kw = Inr n \<longleftrightarrow> n = default_to d kw \<and> (kw = None \<or> b \<le> n)"
  by (cases kw) auto

section \<open>Movies: accepted input\<close>

lemma MovieBase_validate_Inr_iff:
  "MovieBase_validate now kw = Inr m \<longleftrightarrow>
     (\<exists>i t. in_mv_id kw = Some i \<and> in_mv_title kw = Some t \<and>
        year_ok now (in_mv_year kw) \<and> rating_ok (in_mv_rating kw) \<and>
        m = \<lparr>mv_id = i, mv_title = t, mv_original_title = in_mv_original_title kw,
              mv_description = in_mv_description kw, mv_year = in_mv_year kw,
              mv_duration = in_mv_duration kw, mv_rating = in_mv_rating kw\<rparr>)"
  by (auto simp: MovieBase_validate_def ap_Inr_iff MovieBase.make_def)

lemma MovieCreate_validate_Inr_iff:
  "MovieCreate_validate now kw = Inr m \<longleftrightarrow>
     (\<exists>b. MovieBase_validate now kw = Inr b \<and>
        m = MovieBase.extend b (MovieCreate.fields (in_mv_poster_url kw) (in_mv_backdrop_url kw)
              (in_mv_trailer_url kw) (default_to [] (in_mv_genres kw))
              (default_to [] (in_mv_directors kw)) (default_to [] (in_mv_cast kw))
              (in_mv_country kw) (in_mv_language kw) (in_mv_quality kw)))"
  by (auto simp: MovieCreate_validate_def ap_Inr_iff)

lemma MovieResponse_validate_Inr_iff:
  "MovieResponse_validate now kw = Inr m \<longleftrightarrow>
     (\<exists>c s. MovieCreate_validate now kw = Inr c \<and> in_mv_source_url kw = Some s \<and>
        m = MovieCreate.extend c (MovieResponse.fields (default_to now (in_mv_created_at kw))
              (default_to now (in_mv_updated_at kw)) (default_to 0 (in_mv_views kw)) s))"
  by (auto simp: MovieResponse_validate_def ap_Inr_iff)

lemma MovieBase_validate_ok: "MovieBase_validate now kw = Inr m \<Longrightarrow> MovieBase_ok now m"
  by (auto simp: MovieBase_validate_Inr_iff MovieBase_ok_def)

lemma MovieResponse_validate_ok: "MovieResponse_validate now kw = Inr m \<Longrightarrow> MovieBase_ok now m"
  by (auto simp: MovieResponse_validate_Inr_iff MovieCreate_validate_Inr_iff
      MovieBase_validate_Inr_iff MovieBase_ok_def MovieBase.defs MovieCreate.defs)

section \<open>Lemmas on the errors of fields with a validator\<close>

lemma errors_optional_year [simp]:
  "errors (optional name (validate_year now) kw) =
     (if year_ok now kw then [] else [([Name name], ValueError ''Invalid year'')])"
  by (cases kw) (auto simp: errors_at_field year_ok_def validate_year_def truthy_int_def)

lemma errors_optional_rating [simp]:
  "errors (optional name (and_then (ge 0) (le 10)) (kw :: py_float option)) =
     (case kw of None \<Rightarrow> []
      | Some r \<Rightarrow> if r < 0 then [([Name name], NotGe)] else if 10 < r then [([Name name], NotLe)]
                   else [])"
  by (cases kw) (auto simp: errors_at_field and_then_def ge_def le_def)

lemma MovieBase_validate_proper [simp]: "proper (MovieBase_validate now kw)"
  by (simp add: MovieBase_validate_def)

lemma MovieCreate_validate_proper [simp]: "proper (MovieCreate_validate now kw)"
  by (simp add: MovieCreate_validate_def)

lemma MovieResponse_validate_proper [simp]: "proper (MovieResponse_validate now kw)"
  by (simp add: MovieResponse_validate_def)

lemma errors_MovieBase_validate:
  "errors (MovieBase_validate now kw) =
     (if in_mv_id kw = None then [([Name ''id''], Missing)] else []) @
     (if in_mv_title kw = None then [([Name ''title''], Missing)] else []) @
     errors (optional ''year'' (validate_year now) (in_mv_year kw)) @
     errors (optional ''rating'' (and_then (ge 0) (le 10)) (in_mv_rating kw))"
  by (simp add: MovieBase_validate_def errors_required_no_check del: errors_optional_year errors_optional_rating)

lemma errors_MovieCreate_validate:
  "errors (MovieCreate_validate now kw) = errors (MovieBase_validate now kw)"
  by (simp add: MovieCreate_validate_def)

lemma errors_MovieResponse_validate:
  "errors (MovieResponse_validate now kw) =
     errors (MovieBase_validate now kw) @
     (if in_mv_source_url kw = None then [([Name ''source_url''], Missing)] else [])"
  by (simp add: MovieResponse_validate_def errors_MovieCreate_validate errors_required_no_check)

section \<open>Episodes: accepted input\<close>

lemma EpisodeBase_validate_Inr_iff:
  "EpisodeBase_validate kw = Inr e \<longleftrightarrow>
     (\<exists>i t n. in_ep_id kw = Some i \<and> in_ep_title kw = Some t \<and> strip t \<noteq> [] \<and>
        in_ep_episode_number kw = Some n \<and> 1 \<le> n \<and>
        (in_ep_season_number kw = None \<or> 1 \<le> default_to 1 (in_ep_season_number kw)) \<and>
        e = \<lparr>ep_id = i, ep_title = strip t, ep_episode_number = n,
              ep_season_number = default_to 1 (in_ep_season_number kw),
              ep_description = in_ep_description kw, ep_duration = in_ep_duration kw\<rparr>)"
  by (auto simp: EpisodeBase_validate_def ap_Inr_iff EpisodeBase.make_def)

lemma EpisodeCreate_validate_Inr_iff:
  "EpisodeCreate_validate kw = Inr e \<longleftrightarrow>
     (\<exists>b. EpisodeBase_validate kw = Inr b \<and>
        e = EpisodeBase.extend b
              (EpisodeCreate.fields (in_ep_thumbnail_url kw) (in_ep_air_date kw)))"
  by (auto simp: EpisodeCreate_validate_def ap_Inr_iff)

lemma EpisodeResponse_validate_Inr_iff:
  "EpisodeResponse_validate now kw = Inr e \<longleftrightarrow>
     (\<exists>c s. EpisodeCreate_validate kw = Inr c \<and> in_ep_source_url kw = Some s \<and>
        e = EpisodeCreate.extend c (EpisodeResponse.fields (default_to now (in_ep_created_at kw))
              (default_to now (in_ep_updated_at kw)) s))"
  by (auto simp: EpisodeResponse_validate_def ap_Inr_iff)

lemma EpisodeBase_validate_proper [simp]: "proper (EpisodeBase_validate kw)"
  by (simp add: EpisodeBase_validate_def)

lemma EpisodeCreate_validate_proper [simp]: "proper (EpisodeCreate_validate kw)"
  by (simp add: EpisodeCreate_validate_def)

lemma EpisodeResponse_validate_proper [simp]: "proper (EpisodeResponse_validate now kw)"
  by (simp add: EpisodeResponse_validate_def)

lemma EpisodeBase_validate_ok: "EpisodeBase_validate kw = Inr e \<Longrightarrow> EpisodeBase_ok e"
  by (cases "in_ep_season_number kw")
     (auto simp: EpisodeBase_validate_Inr_iff EpisodeBase_ok_def title_ok_strip)

lemma EpisodeResponse_validate_ok: "EpisodeResponse_validate now kw = Inr e \<Longrightarrow> EpisodeBase_ok e"
proof -
  assume "EpisodeResponse_validate now kw = Inr e"
  then obtain b where b: "EpisodeBase_validate kw = Inr b"
    and "ep_title e = ep_title b" "ep_episode_number e = ep_episode_number b"
      "ep_season_number e = ep_season_number b"
    by (auto simp: EpisodeResponse_validate_Inr_iff EpisodeCreate_validate_Inr_iff
        EpisodeBase.defs EpisodeCreate.defs)
  with EpisodeBase_validate_ok [OF b] show ?thesis by (simp add: EpisodeBase_ok_def)
qed

section \<open>Series: accepted input\<close>

lemma SeriesBase_validate_Inr_iff:
  "SeriesBase_validate kw = Inr s \<longleftrightarrow>
     (\<exists>i t. in_sr_id kw = Some i \<and> in_sr_title kw = Some t \<and>
        years_ok (in_sr_year_start kw) (in_sr_year_end kw) \<and> rating_ok (in_sr_rating kw) \<and>
        count_ok (in_sr_total_seasons kw) \<and> count_ok (in_sr_total_episodes kw) \<and>
        s = \<lparr>sr_id = i, sr_title = t, sr_original_title = in_sr_original_title kw,
              sr_description = in_sr_description kw, sr_year_start = in_sr_year_start kw,
              sr_year_end = in_sr_year_end kw, sr_rating = in_sr_rating kw,
              sr_total_seasons = in_sr_total_seasons kw,
              sr_total_episodes = in_sr_total_episodes kw\<rparr>)"
  by (auto simp: SeriesBase_validate_def ap_Inr_iff SeriesBase.make_def Let_def)

lemma SeriesCreate_validate_Inr_iff:
  "SeriesCreate_validate kw = Inr s \<longleftrightarrow>
     (\<exists>b. SeriesBase_validate kw = Inr b \<and>
        s = SeriesBase.extend b (SeriesCreate.fields (in_sr_poster_url kw) (in_sr_backdrop_url kw)
              (in_sr_trailer_url kw) (default_to [] (in_sr_genres kw))
              (default_to [] (in_sr_directors kw)) (default_to [] (in_sr_cast kw))
              (in_sr_country kw) (in_sr_language kw) (in_sr_status kw)))"
  by (auto simp: SeriesCreate_validate_def ap_Inr_iff)

lemma SeriesResponse_validate_Inr_iff:
  "SeriesResponse_validate now kw = Inr s \<longleftrightarrow>
     (\<exists>c es u. SeriesCreate_validate kw = Inr c \<and>
        model_list ''episodes'' (EpisodeResponse_validate now) (in_sr_episodes kw) = Inr es \<and>
        in_sr_source_url kw = Some u \<and>
        s = SeriesCreate.extend c (SeriesResponse.fields es
              (default_to now (in_sr_created_at kw)) (default_to now (in_sr_updated_at kw))
              (default_to 0 (in_sr_views kw)) u))"
  by (auto simp: SeriesResponse_validate_def ap_Inr_iff)

lemma SeriesBase_validate_proper [simp]: "proper (SeriesBase_validate kw)"
  by (simp add: SeriesBase_validate_def Let_def)

lemma SeriesCreate_validate_proper [simp]: "proper (SeriesCreate_validate kw)"
  by (simp add: SeriesCreate_validate_def)

lemma SeriesResponse_validate_proper [simp]: "proper (SeriesResponse_validate now kw)"
  by (simp add: SeriesResponse_validate_def)

lemma SeriesBase_validate_ok: "SeriesBase_validate kw = Inr s \<Longrightarrow> SeriesBase_ok s"
  by (auto simp: SeriesBase_validate_Inr_iff SeriesBase_ok_def)

lemma model_list_all:
  assumes "model_list name f kw = Inr vs" and "\<And>r v. f r = Inr v \<Longrightarrow> P v"
  shows "list_all P vs"
proof -
  from assms(1) consider "vs = []" | rs where "list_all2 (\<lambda>r v. f r = Inr v) rs vs"
    by (auto simp: model_list_Inr_iff)
  then show ?thesis
  proof cases
    case 1
    then show ?thesis by simp
  next
    case 2
    then show ?thesis
      by (induction rule: list_all2_induct) (auto intro: assms(2))
  qed
qed

lemma SeriesResponse_validate_ok:
  assumes "SeriesResponse_validate now kw = Inr s"
  shows "SeriesResponse_ok s"
proof -
  from assms obtain b es where b: "SeriesBase_validate kw = Inr b"
    and es: "model_list ''episodes'' (EpisodeResponse_validate now) (in_sr_episodes kw) = Inr es"
    and eq: "sr_year_start s = sr_year_start b" "sr_year_end s = sr_year_end b"
      "sr_rating s = sr_rating b" "sr_total_seasons s = sr_total_seasons b"
      "sr_total_episodes s = sr_total_episodes b" "sr_episodes s = es"
    by (auto simp: SeriesResponse_validate_Inr_iff SeriesCreate_validate_Inr_iff
        SeriesBase.defs SeriesCreate.defs SeriesResponse.defs)
  from es have "list_all EpisodeBase_ok es"
    by (rule model_list_all) (rule EpisodeResponse_validate_ok)
  with SeriesBase_validate_ok [OF b] eq show ?thesis
    by (simp add: SeriesResponse_ok_def SeriesBase_ok_def)
qed

section \<open>Video sources, subtitles and the watch response: accepted input\<close>

lemma VideoSource_validate_Inr_iff:
  "VideoSource_validate kw = Inr v \<longleftrightarrow>
     (\<exists>u. in_vs_url kw = Some u \<and> url_ok u \<and>
        v = \<lparr>vs_url = u, vs_quality = default_to HD (in_vs_quality kw),
              vs_type = default_to ''video/mp4'' (in_vs_type kw), vs_size = in_vs_size kw,
              vs_bitrate = in_vs_bitrate kw, vs_width = in_vs_width kw,
              vs_height = in_vs_height kw, vs_is_direct = default_to True (in_vs_is_direct kw),
              vs_requires_proxy = default_to False (in_vs_requires_proxy kw)\<rparr>)"
  by (auto simp: VideoSource_validate_def ap_Inr_iff VideoSource.make_def)

lemma Subtitle_validate_Inr_iff:
  "Subtitle_validate kw = Inr s \<longleftrightarrow>
     (\<exists>l u. in_sub_language kw = Some l \<and> l \<in> set valid_languages \<and> in_sub_url kw = Some u \<and>
        s = \<lparr>sub_language = l, sub_url = u, sub_format = default_to ''srt'' (in_sub_format kw),
              sub_is_default = default_to False (in_sub_is_default kw)\<rparr>)"
  by (auto simp: Subtitle_validate_def ap_Inr_iff Subtitle.make_def)

lemma WatchResponse_validate_Inr_iff:
  "WatchResponse_validate kw = Inr w \<longleftrightarrow>
     (\<exists>c t ty vs ss. in_wr_content_id kw = Some c \<and> in_wr_title kw = Some t \<and>
        in_wr_type kw = Some ty \<and>
        model_list ''video_sources'' VideoSource_validate (in_wr_video_sources kw) = Inr vs \<and>
        model_list ''subtitles'' Subtitle_validate (in_wr_subtitles kw) = Inr ss \<and>
        w = \<lparr>wr_content_id = c, wr_title = t, wr_type = ty, wr_video_sources = vs,
              wr_subtitles = ss, wr_next_episode = in_wr_next_episode kw,
              wr_prev_episode = in_wr_prev_episode kw\<rparr>)"
  by (auto simp: WatchResponse_validate_def ap_Inr_iff WatchResponse.make_def)

lemma VideoSource_validate_proper [simp]: "proper (VideoSource_validate kw)"
  by (simp add: VideoSource_validate_def)

lemma Subtitle_validate_proper [simp]: "proper (Subtitle_validate kw)"
  by (simp add: Subtitle_validate_def)

lemma WatchResponse_validate_proper [simp]: "proper (WatchResponse_validate kw)"
  by (simp add: WatchResponse_validate_def)

lemma VideoSource_validate_ok: "VideoSource_validate kw = Inr v \<Longrightarrow> VideoSource_ok v"
  by (auto simp: VideoSource_validate_Inr_iff VideoSource_ok_def)

lemma Subtitle_validate_ok: "Subtitle_validate kw = Inr s \<Longrightarrow> Subtitle_ok s"
  by (auto simp: Subtitle_validate_Inr_iff Subtitle_ok_def)

lemma WatchResponse_validate_ok:
  assumes "WatchResponse_validate kw = Inr w"
  shows "WatchResponse_ok w"
proof -
  from assms obtain vs ss
    where vs: "model_list ''video_sources'' VideoSource_validate (in_wr_video_sources kw) = Inr vs"
      and ss: "model_list ''subtitles'' Subtitle_validate (in_wr_subtitles kw) = Inr ss"
      and eq: "wr_video_sources w = vs" "wr_subtitles w = ss"
    by (auto simp: WatchResponse_validate_Inr_iff)
  from vs have "list_all VideoSource_ok vs"
    by (rule model_list_all) (rule VideoSource_validate_ok)
  moreover from ss have "list_all Subtitle_ok ss"
    by (rule model_list_all) (rule Subtitle_validate_ok)
  ultimately show ?thesis using eq by (simp add: WatchResponse_ok_def)
qed

section \<open>The other responses: accepted input\<close>

lemma SearchResult_validate_Inr_iff:
  "SearchResult_validate kw = Inr r \<longleftrightarrow>
     (\<exists>i t ty. in_res_id kw = Some i \<and> in_res_title kw = Some t \<and> in_res_type kw = Some ty \<and>
        r = \<lparr>res_id = i, res_title = t, res_type = ty, res_year = in_res_year kw,
              res_poster_url = in_res_poster_url kw, res_description = in_res_description kw,
              res_score = default_to 0 (in_res_score kw)\<rparr>)"
  by (auto simp: SearchResult_validate_def ap_Inr_iff SearchResult.make_def)

lemma SearchResponse_validate_Inr_iff:
  "SearchResponse_validate kw = Inr r \<longleftrightarrow>
     (\<exists>q rs. in_srch_query kw = Some q \<and>
        model_list ''results'' SearchResult_validate (in_srch_results kw) = Inr rs \<and>
        r = \<lparr>srch_query = q, srch_results = rs,
              srch_total_results = default_to 0 (in_srch_total_results kw),
              srch_page = default_to 1 (in_srch_page kw),
              srch_total_pages = default_to 1 (in_srch_total_pages kw)\<rparr>)"
  by (auto simp: SearchResponse_validate_def ap_Inr_iff SearchResponse.make_def)

lemma CategoryItem_validate_Inr_iff:
  "CategoryItem_validate kw = Inr c \<longleftrightarrow>
     (\<exists>i n. in_cat_id kw = Some i \<and> in_cat_name kw = Some n \<and>
        c = \<lparr>cat_id = i, cat_name = n, cat_description = in_cat_description kw,
              cat_icon = in_cat_icon kw, cat_item_count = default_to 0 (in_cat_item_count kw)\<rparr>)"
  by (auto simp: CategoryItem_validate_def ap_Inr_iff CategoryItem.make_def)

lemma HomeSection_validate_Inr_iff:
  "HomeSection_validate now kw = Inr h \<longleftrightarrow>
     (\<exists>t ty ms. in_hs_title kw = Some t \<and> in_hs_type kw = Some ty \<and>
        model_list ''items'' (MovieResponse_validate now) (in_hs_items kw) = Inr ms \<and>
        h = \<lparr>hs_title = t, hs_type = ty, hs_items = ms, hs_view_all_url = in_hs_view_all_url kw\<rparr>)"
  by (auto simp: HomeSection_validate_def ap_Inr_iff HomeSection.make_def)

lemma HomeResponse_validate_Inr_iff:
  "HomeResponse_validate now kw = Inr h \<longleftrightarrow>
     (\<exists>ss f. model_list ''sections'' (HomeSection_validate now) (in_hr_sections kw) = Inr ss \<and>
        optional_model ''featured'' (MovieResponse_validate now) (in_hr_featured kw) = Inr f \<and>
        h = \<lparr>hr_sections = ss, hr_featured = f,
              hr_updated_at = default_to now (in_hr_updated_at kw)\<rparr>)"
  by (auto simp: HomeResponse_validate_def ap_Inr_iff HomeResponse.make_def)

lemma APIResponse_validate_total:
  "APIResponse_validate now kw =
     Inr \<lparr>api_success = default_to True (in_api_success kw), api_data = in_api_data kw,
          api_message = in_api_message kw, api_error_code = in_api_error_code kw,
          api_timestamp = default_to now (in_api_timestamp kw)\<rparr>"
  by (simp add: APIResponse_validate_def APIResponse.make_def)

section \<open>Properties of the models\<close>

lemmas example_defs = example_now_def example_movie_in_def example_episode_in_def
  example_series_in_def example_source_in_def example_subtitle_in_def example_watch_in_def

text \<open>
  C14. \<open>MovieResponse\<close> accepts an input exactly when id, title and
  source_url are present, the year is absent, zero or between 1900 and next year, and
  the rating is absent or between 0 and 10.
\<close>

theorem movie_accepted_iff:
  "(\<exists>m. MovieResponse_validate now kw = Inr m) \<longleftrightarrow>
     in_mv_id kw \<noteq> None \<and> in_mv_title kw \<noteq> None \<and> in_mv_source_url kw \<noteq> None \<and>
     year_ok now (in_mv_year kw) \<and> rating_ok (in_mv_rating kw)"
  by (auto simp: MovieResponse_validate_Inr_iff MovieCreate_validate_Inr_iff
      MovieBase_validate_Inr_iff)

theorem movie_accepted_iff_witness:
  "\<exists>m. MovieResponse_validate example_now example_movie_in = Inr m"
  using movie_accepted_iff [of example_now example_movie_in]
  by (simp add: example_defs ok_defs)

text \<open>
  C15. An accepted \<open>MovieResponse\<close> carries every field of the input
  unchanged, with empty lists for absent genres, directors and cast, zero views and the
  current time for absent timestamps, and it satisfies the year and rating bounds.
\<close>

theorem movie_fields_from_input:
  assumes "MovieResponse_validate now kw = Inr m"
  shows "in_mv_id kw = Some (mv_id m) \<and> in_mv_title kw = Some (mv_title m) \<and>
     mv_original_title m = in_mv_original_title kw \<and> mv_description m = in_mv_description kw \<and>
     mv_year m = in_mv_year kw \<and> mv_duration m = in_mv_duration kw \<and>
     mv_rating m = in_mv_rating kw \<and> mv_poster_url m = in_mv_poster_url kw \<and>
     mv_backdrop_url m = in_mv_backdrop_url kw \<and> mv_trailer_url m = in_mv_trailer_url kw \<and>
     mv_genres m = default_to [] (in_mv_genres kw) \<and>
     mv_directors m = default_to [] (in_mv_directors kw) \<and>
     mv_cast m = default_to [] (in_mv_cast kw) \<and> mv_country m = in_mv_country kw \<and>
     mv_language m = in_mv_language kw \<and> mv_quality m = in_mv_quality kw \<and>
     mv_created_at m = default_to now (in_mv_created_at kw) \<and>
     mv_updated_at m = default_to now (in_mv_updated_at kw) \<and>
     mv_views m = default_to 0 (in_mv_views kw) \<and>
     in_mv_source_url kw = Some (mv_source_url m) \<and> MovieBase_ok now m"
  using assms MovieResponse_validate_ok [OF assms]
  by (auto simp: MovieResponse_validate_Inr_iff MovieCreate_validate_Inr_iff
      MovieBase_validate_Inr_iff MovieBase.defs MovieCreate.defs MovieResponse.defs)

lemma example_movie_validates:
  "MovieResponse_validate example_now example_movie_in = Inr example_movie"
  by (simp add: MovieResponse_validate_Inr_iff MovieCreate_validate_Inr_iff
      MovieBase_validate_Inr_iff example_movie_in_def example_movie_def example_now_def ok_defs
      MovieBase.defs MovieCreate.defs MovieResponse.defs)

theorem movie_fields_from_input_witness:
  "mv_genres example_movie = [''action''] \<and> mv_views example_movie = 0 \<and>
   mv_created_at example_movie = example_now \<and> MovieBase_ok example_now example_movie"
  using movie_fields_from_input [OF example_movie_validates]
  by (simp add: example_movie_in_def)

text \<open>
  C16. A rejected \<open>MovieResponse\<close> input reports exactly one error per
  offending field, in the order id, title, year, rating, source_url, each with the
  field's name and the reason; the list is never empty.
\<close>

theorem movie_errors_listed:
  "MovieResponse_validate now kw = Inl es \<longleftrightarrow>
     es \<noteq> [] \<and>
     es = (if in_mv_id kw = None then [([Name ''id''], Missing)] else []) @
          (if in_mv_title kw = None then [([Name ''title''], Missing)] else []) @
          (if year_ok now (in_mv_year kw) then [] else [([Name ''year''], ValueError ''Invalid year'')]) @
          (case in_mv_rating kw of None \<Rightarrow> []
           | Some r \<Rightarrow> if r < 0 then [([Name ''rating''], NotGe)]
                        else if 10 < r then [([Name ''rating''], NotLe)] else []) @
          (if in_mv_source_url kw = None then [([Name ''source_url''], Missing)] else [])"
proof -
  have e: "errors (MovieResponse_validate now kw) =
          (if in_mv_id kw = None then [([Name ''id''], Missing)] else []) @
          (if in_mv_title kw = None then [([Name ''title''], Missing)] else []) @
          (if year_ok now (in_mv_year kw) then [] else [([Name ''year''], ValueError ''Invalid year'')]) @
          (case in_mv_rating kw of None \<Rightarrow> []
           | Some r \<Rightarrow> if r < 0 then [([Name ''rating''], NotGe)]
                        else if 10 < r then [([Name ''rating''], NotLe)] else []) @
          (if in_mv_source_url kw = None then [([Name ''source_url''], Missing)] else [])"
    by (simp only: errors_MovieResponse_validate errors_MovieBase_validate errors_optional_year
        errors_optional_rating append_assoc)
  show ?thesis
    unfolding proper_Inl_iff [OF MovieResponse_validate_proper] e by blast
qed

theorem movie_errors_listed_witness:
  "MovieResponse_validate example_now
     (example_movie_in\<lparr>in_mv_year := Some 1800, in_mv_rating := Some 11\<rparr>) =
   Inl [([Name ''year''], ValueError ''Invalid year''), ([Name ''rating''], NotLe)]"
  using movie_errors_listed [of example_now
      "example_movie_in\<lparr>in_mv_year := Some 1800, in_mv_rating := Some 11\<rparr>"
      "[([Name ''year''], ValueError ''Invalid year''), ([Name ''rating''], NotLe)]"]
  by (simp add: example_defs ok_defs)

text \<open>
  C17. The year check is skipped for year 0: any accepted movie input is still accepted
  when its year is replaced by 0.
\<close>

theorem year_zero_accepted:
  assumes "MovieResponse_validate now kw = Inr m"
  shows "\<exists>m'. MovieResponse_validate now (kw\<lparr>in_mv_year := Some 0\<rparr>) = Inr m' \<and> mv_year m' = Some 0"
  using assms
  by (auto simp: MovieResponse_validate_Inr_iff MovieCreate_validate_Inr_iff
      MovieBase_validate_Inr_iff year_ok_def MovieBase.defs MovieCreate.defs)

theorem year_zero_accepted_witness:
  "\<exists>m'. MovieResponse_validate example_now (example_movie_in\<lparr>in_mv_year := Some 0\<rparr>) = Inr m' \<and>
     mv_year m' = Some 0"
  using year_zero_accepted [OF example_movie_validates] .

text \<open>
  C18. An accepted episode title is the input without surrounding whitespace; it is not
  empty, has no whitespace at either end, is no longer than the input, and validating
  it again returns it unchanged.
\<close>

theorem title_validation_idempotent:
  assumes "validate_title v = Inr t"
  shows "t = strip v \<and> title_ok t \<and> validate_title t = Inr t \<and> length t \<le> length v"
  using assms by (auto simp: validate_title_Inr_iff title_ok_strip title_ok_fixed length_strip_le)

theorem title_validation_idempotent_witness:
  "title_ok ''Pilot'' \<and> validate_title ''Pilot'' = Inr ''Pilot''"
  using title_validation_idempotent [of "''  Pilot ''" "''Pilot''"]
  by (simp add: validate_title_def py_defs)

text \<open>
  C19. An episode title is rejected exactly when it is empty or consists of whitespace
  only.
\<close>

theorem blank_title_rejected:
  "(\<exists>e. validate_title v = Inl e) \<longleftrightarrow> (\<forall>c\<in>set v. is_space c)"
  by (auto simp: validate_title_Inl_iff)

theorem blank_title_rejected_witness:
  "\<exists>e. validate_title '' '' = Inl e"
  using blank_title_rejected [of "'' ''"] by (simp add: py_defs)

text \<open>
  C20. An accepted \<open>EpisodeResponse\<close> has the stripped title, episode and
  season numbers of at least 1, season 1 when none is given, and the input's id and
  source_url.
\<close>

theorem episode_validation:
  assumes "EpisodeResponse_validate now kw = Inr e"
  shows "in_ep_id kw = Some (ep_id e) \<and> map_option strip (in_ep_title kw) = Some (ep_title e) \<and>
     title_ok (ep_title e) \<and>
     in_ep_episode_number kw = Some (ep_episode_number e) \<and> 1 \<le> ep_episode_number e \<and>
     ep_season_number e = default_to 1 (in_ep_season_number kw) \<and> 1 \<le> ep_season_number e \<and>
     ep_created_at e = default_to now (in_ep_created_at kw) \<and>
     in_ep_source_url kw = Some (ep_source_url e)"
  using assms EpisodeResponse_validate_ok [OF assms]
  by (auto simp: EpisodeResponse_validate_Inr_iff EpisodeCreate_validate_Inr_iff
      EpisodeBase_validate_Inr_iff EpisodeBase_ok_def EpisodeBase.defs EpisodeCreate.defs
      EpisodeResponse.defs)

lemma strip_example [simp]: "strip ''  Pilot '' = ''Pilot''"
  by (simp add: py_defs)

lemma example_episode_validates:
  "EpisodeResponse_validate example_now example_episode_in = Inr example_episode"
  by (simp add: EpisodeResponse_validate_Inr_iff EpisodeCreate_validate_Inr_iff
      EpisodeBase_validate_Inr_iff example_episode_in_def example_episode_def
      EpisodeBase.defs EpisodeCreate.defs EpisodeResponse.defs)

theorem episode_validation_witness:
  "ep_title example_episode = ''Pilot'' \<and> ep_season_number example_episode = 1 \<and>
   title_ok (ep_title example_episode)"
  using episode_validation [OF example_episode_validates]
  by (simp add: example_episode_in_def)

text \<open>
  C21. An accepted \<open>SeriesResponse\<close> satisfies the bounds on years, rating
  and counts, holds one validated episode per input episode, and every episode
  satisfies the episode invariant.
\<close>

theorem series_validation_invariant:
  assumes "SeriesResponse_validate now kw = Inr s"
  shows "years_ok (sr_year_start s) (sr_year_end s) \<and> rating_ok (sr_rating s) \<and>
     count_ok (sr_total_seasons s) \<and> count_ok (sr_total_episodes s) \<and>
     (\<forall>e\<in>set (sr_episodes s). title_ok (ep_title e) \<and> 1 \<le> ep_episode_number e \<and>
        1 \<le> ep_season_number e) \<and>
     length (sr_episodes s) = length (default_to [] (in_sr_episodes kw))"
proof -
  from assms have "length (sr_episodes s) = length (default_to [] (in_sr_episodes kw))"
    by (auto simp: SeriesResponse_validate_Inr_iff model_list_Inr_iff SeriesCreate.defs
        SeriesResponse.defs dest: list_all2_lengthD)
  with SeriesResponse_validate_ok [OF assms] show ?thesis
    by (simp add: SeriesResponse_ok_def SeriesBase_ok_def EpisodeBase_ok_def list_all_iff)
qed

lemma example_series_validates:
  "SeriesResponse_validate example_now example_series_in = Inr example_series"
  by (simp add: SeriesResponse_validate_Inr_iff SeriesCreate_validate_Inr_iff
      SeriesBase_validate_Inr_iff model_list_Inr_iff example_episode_validates
      example_series_in_def example_series_def ok_defs
      SeriesBase.defs SeriesCreate.defs SeriesResponse.defs)

theorem series_validation_invariant_witness:
  "years_ok (Some 2017) (Some 2020) \<and> length (sr_episodes example_series) = 1"
  using series_validation_invariant [OF example_series_validates]
  by (simp add: example_series_def example_series_in_def)

text \<open>
  C22. The check that a series does not end before it starts is skipped when either
  year is 0: an accepted series input is still accepted with year_end 0 or with
  year_start 0.
\<close>

theorem series_zero_year_accepted:
  assumes "SeriesResponse_validate now kw = Inr s"
  shows "(\<exists>s'. SeriesResponse_validate now (kw\<lparr>in_sr_year_end := Some 0\<rparr>) = Inr s' \<and>
            sr_year_end s' = Some 0 \<and> sr_year_start s' = sr_year_start s) \<and>
         (\<exists>s'. SeriesResponse_validate now (kw\<lparr>in_sr_year_start := Some 0\<rparr>) = Inr s' \<and>
            sr_year_start s' = Some 0 \<and> sr_year_end s' = sr_year_end s)"
  using assms
  by (auto simp: SeriesResponse_validate_Inr_iff SeriesCreate_validate_Inr_iff
      SeriesBase_validate_Inr_iff years_ok_def SeriesBase.defs SeriesCreate.defs
      split: option.splits)

theorem series_zero_year_accepted_witness:
  "\<exists>s'. SeriesResponse_validate example_now (example_series_in\<lparr>in_sr_year_end := Some 0\<rparr>) = Inr s' \<and>
     sr_year_end s' = Some 0 \<and> sr_year_start s' = Some 2017"
  using series_zero_year_accepted [OF example_series_validates]
  by (simp add: example_series_def)

text \<open>
  C23. \<open>VideoSource\<close> accepts an input exactly when its url starts with
  http://, https:// or //, and the accepted value has quality HD, type video/mp4,
  is_direct true and requires_proxy false where the input gives none.
\<close>

theorem video_source_validation:
  "VideoSource_validate kw = Inr v \<longleftrightarrow>
     (\<exists>u. in_vs_url kw = Some u \<and>
        (prefix ''http://'' u \<or> prefix ''https://'' u \<or> prefix ''//'' u) \<and>
        v = \<lparr>vs_url = u, vs_quality = default_to HD (in_vs_quality kw),
              vs_type = default_to ''video/mp4'' (in_vs_type kw), vs_size = in_vs_size kw,
              vs_bitrate = in_vs_bitrate kw, vs_width = in_vs_width kw,
              vs_height = in_vs_height kw, vs_is_direct = default_to True (in_vs_is_direct kw),
              vs_requires_proxy = default_to False (in_vs_requires_proxy kw)\<rparr>)"
  by (simp add: VideoSource_validate_Inr_iff url_ok_def startswith_any_def url_schemes_def
      startswith_def)

theorem video_source_validation_witness:
  "VideoSource_validate example_source_in = Inr example_source"
  using video_source_validation [of example_source_in example_source]
  by (simp add: example_source_in_def example_source_def)

text \<open>
  C24. Validation does not relate is_direct and requires_proxy: a video source that
  claims to be direct and to need the proxy is accepted.
\<close>

theorem proxy_flag_not_checked:
  assumes "VideoSource_validate kw = Inr v"
  shows "\<exists>v'. VideoSource_validate (kw\<lparr>in_vs_is_direct := Some True,
                   in_vs_requires_proxy := Some True\<rparr>) = Inr v' \<and>
           vs_is_direct v' \<and> vs_requires_proxy v'"
  using assms by (clarsimp simp: VideoSource_validate_Inr_iff)

theorem proxy_flag_not_checked_witness:
  "\<exists>v'. VideoSource_validate (example_source_in\<lparr>in_vs_is_direct := Some True,
                   in_vs_requires_proxy := Some True\<rparr>) = Inr v' \<and>
           vs_is_direct v' \<and> vs_requires_proxy v'"
  using proxy_flag_not_checked [of example_source_in example_source]
  by (simp add: VideoSource_validate_Inr_iff example_source_in_def example_source_def
      url_ok_def startswith_any_def url_schemes_def startswith_def)

text \<open>
  C25. \<open>Subtitle\<close> accepts an input exactly when its language is one of the
  nine codes of the whitelist and its url is present.
\<close>

theorem subtitle_language_whitelist:
  "(\<exists>s. Subtitle_validate kw = Inr s) \<longleftrightarrow>
     (\<exists>l. in_sub_language kw = Some l \<and>
        l \<in> {''ar'', ''en'', ''tr'', ''fr'', ''es'', ''de'', ''ru'', ''fa'', ''ur''}) \<and>
     in_sub_url kw \<noteq> None"
proof -
  have s: "{''ar'', ''en'', ''tr'', ''fr'', ''es'', ''de'', ''ru'', ''fa'', ''ur''} = set valid_languages"
    by (simp add: valid_languages_def)
  show ?thesis unfolding s by (auto simp: Subtitle_validate_Inr_iff)
qed

theorem subtitle_language_whitelist_witness:
  "\<exists>s. Subtitle_validate example_subtitle_in = Inr s"
  using subtitle_language_whitelist [of example_subtitle_in]
  by (simp add: example_subtitle_in_def)

text \<open>
  C26. A subtitle that gives a url and a language outside the whitelist is rejected
  with one error at field language whose message lists the nine codes joined by commas.
\<close>

theorem subtitle_language_error:
  assumes "in_sub_language kw = Some l" and "l \<notin> set valid_languages" and "in_sub_url kw \<noteq> None"
  shows "Subtitle_validate kw =
     Inl [([Name ''language''],
           ValueError ''Language must be one of: ar, en, tr, fr, es, de, ru, fa, ur'')]"
  using assms
  by (auto simp: Subtitle_validate_def validate_language_def valid_languages_def required_def
      at_field_def with_default_def default_to_def Subtitle.make_def
      split: option.splits)

theorem subtitle_language_error_witness:
  "Subtitle_validate (example_subtitle_in\<lparr>in_sub_language := Some ''xx''\<rparr>) =
     Inl [([Name ''language''],
           ValueError ''Language must be one of: ar, en, tr, fr, es, de, ru, fa, ur'')]"
  using subtitle_language_error [of "example_subtitle_in\<lparr>in_sub_language := Some ''xx''\<rparr>" "''xx''"]
  by (simp add: example_subtitle_in_def valid_languages_def)

text \<open>
  C27. Every video source of an accepted \<open>WatchResponse\<close> has a well-formed
  url and every subtitle a whitelisted language: the nested models are validated
  element by element.
\<close>

theorem watch_response_invariant:
  assumes "WatchResponse_validate kw = Inr w"
  shows "(\<forall>v\<in>set (wr_video_sources w). url_ok (vs_url v)) \<and>
         (\<forall>s\<in>set (wr_subtitles w). sub_language s \<in> set valid_languages) \<and>
         in_wr_content_id kw = Some (wr_content_id w) \<and> in_wr_type kw = Some (wr_type w)"
  using assms WatchResponse_validate_ok [OF assms]
  by (auto simp: WatchResponse_validate_Inr_iff WatchResponse_ok_def VideoSource_ok_def
      Subtitle_ok_def list_all_iff)

lemma example_watch_validates: "WatchResponse_validate example_watch_in = Inr example_watch"
  by (simp add: WatchResponse_validate_Inr_iff model_list_Inr_iff VideoSource_validate_Inr_iff
      Subtitle_validate_Inr_iff example_watch_in_def example_watch_def example_source_in_def
      example_source_def example_subtitle_in_def valid_languages_def url_ok_def
      startswith_any_def url_schemes_def startswith_def)

theorem watch_response_invariant_witness:
  "url_ok ''https://cdn.example.org/v.mp4'' \<and> ''ar'' \<in> set valid_languages"
  using watch_response_invariant [OF example_watch_validates]
  by (simp add: example_watch_def example_source_def)

text \<open>
  C28. For the three enumerations, looking a string up gives a member exactly when the
  string is that member's value: value and lookup are inverse to each other.
\<close>

theorem enum_value_roundtrip:
  "(Quality_of_value sq = Some q \<longleftrightarrow> Quality_value q = sq) \<and>
   (Language_of_value sl = Some l \<longleftrightarrow> Language_value l = sl) \<and>
   (ContentType_of_value sc = Some c \<longleftrightarrow> ContentType_value c = sc)"
  using enum_of_value_Some [of Quality_value Quality_members sq q]
    enum_of_value_Some [of Language_value Language_members sl l]
    enum_of_value_Some [of ContentType_value ContentType_members sc c]
  by (auto simp: Quality_of_value_def [symmetric] Language_of_value_def [symmetric]
      ContentType_of_value_def [symmetric])

theorem enum_value_roundtrip_witness:
  "Quality_of_value ''FHD'' = Some FHD \<and> Language_of_value ''arabic'' = Some ARABIC \<and>
   ContentType_of_value ''anime'' = Some ANIME"
  using enum_value_roundtrip [of "''FHD''" FHD "''arabic''" ARABIC "''anime''" ANIME]
  by simp

lemma errors_required_url:
  "errors (required name validate_url kw) =
     (case kw of None \<Rightarrow> [([Name name], Missing)]
      | Some u \<Rightarrow> if url_ok u then [] else [([Name name], ValueError ''Invalid URL format'')])"
  by (cases kw)
     (auto simp: errors_at_field validate_url_def url_ok_def truthy_str_def startswith_any_iff
        url_schemes_def simp del: required_url_iff)

lemma errors_VideoSource_validate:
  "errors (VideoSource_validate kw) =
     (case in_vs_url kw of None \<Rightarrow> [([Name ''url''], Missing)]
      | Some u \<Rightarrow> if url_ok u then [] else [([Name ''url''], ValueError ''Invalid URL format'')])"
  by (simp add: VideoSource_validate_def errors_required_url del: required_url_iff)

text \<open>
  C35. The errors of a rejected \<open>WatchResponse\<close> input are those of its own
  required fields followed by the errors of every video source and every subtitle, each
  reported below the field name and the position of the element in its list.
\<close>

theorem watch_errors_located:
  "errors (WatchResponse_validate kw) =
     (if in_wr_content_id kw = None then [([Name ''content_id''], Missing)] else []) @
     (if in_wr_title kw = None then [([Name ''title''], Missing)] else []) @
     (if in_wr_type kw = None then [([Name ''type''], Missing)] else []) @
     concat (map (\<lambda>(i, s). map (\<lambda>(l, e). (Name ''video_sources'' # Index i # l, e))
                               (errors (VideoSource_validate s)))
        (List.enumerate 0 (default_to [] (in_wr_video_sources kw)))) @
     concat (map (\<lambda>(i, s). map (\<lambda>(l, e). (Name ''subtitles'' # Index i # l, e))
                               (errors (Subtitle_validate s)))
        (List.enumerate 0 (default_to [] (in_wr_subtitles kw))))"
  by (simp add: WatchResponse_validate_def errors_required_no_check errors_model_list)

theorem watch_errors_located_witness:
  "WatchResponse_validate
     (example_watch_in\<lparr>in_wr_video_sources :=
        Some [example_source_in, example_source_in\<lparr>in_vs_url := Some ''ftp://x''\<rparr>]\<rparr>) =
   Inl [([Name ''video_sources'', Index 1, Name ''url''], ValueError ''Invalid URL format'')]"
proof -
  let ?kw = "example_watch_in\<lparr>in_wr_video_sources :=
        Some [example_source_in, example_source_in\<lparr>in_vs_url := Some ''ftp://x''\<rparr>]\<rparr>"
  have "errors (WatchResponse_validate ?kw) =
      [([Name ''video_sources'', Index 1, Name ''url''], ValueError ''Invalid URL format'')]"
    unfolding watch_errors_located
    by (simp add: example_watch_in_def example_source_in_def example_subtitle_in_def
        errors_VideoSource_validate url_ok_def startswith_any_def url_schemes_def
        startswith_def proper_errors_Nil_iff Subtitle_validate_Inr_iff valid_languages_def)
  then show ?thesis
    by (simp add: proper_Inl_iff [OF WatchResponse_validate_proper])
qed

text \<open>
  C36. An accepted \<open>HomeResponse\<close> holds one section per input section,
  every movie of every section and the featured movie satisfy the movie invariant, the
  featured movie is present exactly when the input gives one, and the timestamp
  defaults to the current time.
\<close>

theorem home_response_validation:
  assumes "HomeResponse_validate now kw = Inr h"
  shows "length (hr_sections h) = length (default_to [] (in_hr_sections kw)) \<and>
     (\<forall>s\<in>set (hr_sections h). \<forall>m\<in>set (hs_items s). MovieBase_ok now m) \<and>
     (in_hr_featured kw = None \<longleftrightarrow> hr_featured h = None) \<and>
     (\<forall>m. hr_featured h = Some m \<longrightarrow> MovieBase_ok now m) \<and>
     hr_updated_at h = default_to now (in_hr_updated_at kw)"
proof -
  from assms obtain ss f
    where ss: "model_list ''sections'' (HomeSection_validate now) (in_hr_sections kw) = Inr ss"
      and f: "optional_model ''featured'' (MovieResponse_validate now) (in_hr_featured kw) = Inr f"
      and h: "h = \<lparr>hr_sections = ss, hr_featured = f,
                   hr_updated_at = default_to now (in_hr_updated_at kw)\<rparr>"
    by (auto simp: HomeResponse_validate_Inr_iff)
  have items: "list_all (MovieBase_ok now) (hs_items s)" if "HomeSection_validate now r = Inr s" for r s
  proof -
    from that obtain ms where "model_list ''items'' (MovieResponse_validate now) (in_hs_items r) = Inr ms"
      and "hs_items s = ms"
      by (auto simp: HomeSection_validate_Inr_iff)
    then show ?thesis using model_list_all [of "''items''" "MovieResponse_validate now" _ ms "MovieBase_ok now"]
      by (auto intro: MovieResponse_validate_ok)
  qed
  from ss have "list_all (\<lambda>s. list_all (MovieBase_ok now) (hs_items s)) ss"
    by (rule model_list_all) (rule items)
  moreover from ss have "length ss = length (default_to [] (in_hr_sections kw))"
    by (auto simp: model_list_Inr_iff dest: list_all2_lengthD)
  moreover from f have "(in_hr_featured kw = None \<longleftrightarrow> f = None) \<and> (\<forall>m. f = Some m \<longrightarrow> MovieBase_ok now m)"
    by (auto simp: optional_model_Inr_iff nested_Inr_iff intro: MovieResponse_validate_ok)
  ultimately show ?thesis by (simp add: h list_all_iff)
qed

lemma example_home_validates: "HomeResponse_validate example_now example_home_in = Inr example_home"
  by (simp add: HomeResponse_validate_Inr_iff HomeSection_validate_Inr_iff model_list_Inr_iff
      optional_model_Inr_iff example_movie_validates example_home_in_def example_home_def)

theorem home_response_validation_witness:
  "MovieBase_ok example_now example_movie \<and> length (hr_sections example_home) = 1"
  using home_response_validation [OF example_home_validates]
  by (simp add: example_home_def example_home_in_def)

text \<open>
  C37. Validating an accepted model again changes nothing: the fields of an accepted
  movie or episode, given back to the class as keyword arguments, are accepted and give
  the same model.
\<close>

theorem validation_idempotent:
  assumes "MovieResponse_validate now kw = Inr m" and "EpisodeResponse_validate now kw' = Inr e"
  shows "MovieResponse_validate now (MovieResponse_to_in m) = Inr m \<and>
         EpisodeResponse_validate now' (EpisodeResponse_to_in e) = Inr e"
proof
  from MovieResponse_validate_ok [OF assms(1)]
  show "MovieResponse_validate now (MovieResponse_to_in m) = Inr m"
    by (simp add: MovieResponse_validate_Inr_iff MovieCreate_validate_Inr_iff
        MovieBase_validate_Inr_iff MovieResponse_to_in_def MovieBase_ok_def
        MovieBase.defs MovieCreate.defs MovieResponse.defs)
next
  from EpisodeResponse_validate_ok [OF assms(2)] have "title_ok (ep_title e)"
    "1 \<le> ep_episode_number e" "1 \<le> ep_season_number e"
    by (simp_all add: EpisodeBase_ok_def)
  then show "EpisodeResponse_validate now' (EpisodeResponse_to_in e) = Inr e"
    by (simp add: EpisodeResponse_validate_Inr_iff EpisodeCreate_validate_Inr_iff
        EpisodeBase_validate_Inr_iff EpisodeResponse_to_in_def title_ok_def strip_id
        EpisodeBase.defs EpisodeCreate.defs EpisodeResponse.defs)
qed

theorem validation_idempotent_witness:
  "MovieResponse_validate example_now (MovieResponse_to_in example_movie) = Inr example_movie \<and>
   EpisodeResponse_validate example_now (EpisodeResponse_to_in example_episode) = Inr example_episode"
  using validation_idempotent [OF example_movie_validates example_episode_validates] .

text \<open>
  C38. Counters carry no constraint: views, item_count, page and total_pages accept any
  integer, negative ones included, and the accepted model holds the value given.
\<close>

theorem counts_not_validated:
  assumes "MovieResponse_validate now kw = Inr m" and "CategoryItem_validate ckw = Inr c"
    and "SearchResponse_validate skw = Inr p"
  shows "MovieResponse_validate now (kw\<lparr>in_mv_views := Some n\<rparr>) = Inr (m\<lparr>mv_views := n\<rparr>) \<and>
     CategoryItem_validate (ckw\<lparr>in_cat_item_count := Some n\<rparr>) = Inr (c\<lparr>cat_item_count := n\<rparr>) \<and>
     SearchResponse_validate (skw\<lparr>in_srch_page := Some n, in_srch_total_pages := Some k\<rparr>) =
       Inr (p\<lparr>srch_page := n, srch_total_pages := k\<rparr>)"
proof (intro conjI)
  from assms(1) show "MovieResponse_validate now (kw\<lparr>in_mv_views := Some n\<rparr>) = Inr (m\<lparr>mv_views := n\<rparr>)"
    by (auto simp: MovieResponse_validate_Inr_iff MovieCreate_validate_Inr_iff
        MovieBase_validate_Inr_iff MovieBase.defs MovieCreate.defs MovieResponse.defs)
next
  from assms(2) show "CategoryItem_validate (ckw\<lparr>in_cat_item_count := Some n\<rparr>) = Inr (c\<lparr>cat_item_count := n\<rparr>)"
    by (auto simp: CategoryItem_validate_Inr_iff)
next
  from assms(3) show "SearchResponse_validate (skw\<lparr>in_srch_page := Some n, in_srch_total_pages := Some k\<rparr>) =
       Inr (p\<lparr>srch_page := n, srch_total_pages := k\<rparr>)"
    by (auto simp: SearchResponse_validate_Inr_iff)
qed

theorem counts_not_validated_witness:
  "(\<exists>m. MovieResponse_validate example_now (example_movie_in\<lparr>in_mv_views := Some (- 5)\<rparr>) = Inr m \<and>
        mv_views m = - 5) \<and>
   (\<exists>c. CategoryItem_validate (example_category_in\<lparr>in_cat_item_count := Some (- 5)\<rparr>) = Inr c \<and>
        cat_item_count c = - 5) \<and>
   (\<exists>p. SearchResponse_validate
          (example_search_in\<lparr>in_srch_page := Some (- 5), in_srch_total_pages := Some 0\<rparr>) = Inr p \<and>
        srch_page p = - 5 \<and> srch_total_pages p = 0)"
proof -
  have c: "\<exists>c. CategoryItem_validate example_category_in = Inr c"
    by (simp add: CategoryItem_validate_Inr_iff example_category_in_def)
  have p: "\<exists>p. SearchResponse_validate example_search_in = Inr p"
    by (simp add: SearchResponse_validate_Inr_iff model_list_Inr_iff example_search_in_def)
  from c p obtain c0 p0 where "CategoryItem_validate example_category_in = Inr c0"
    "SearchResponse_validate example_search_in = Inr p0" by blast
  from counts_not_validated [OF example_movie_validates this, of "- 5" 0] show ?thesis
    by simp
qed

end
