(* ===== verification/Json.thy ===== *)
theory Json
  imports Py_Prelude "HOL-Library.AList"
begin

text \<open>
  The values the handlers of \<^verbatim>\<open>main.py\<close> pass around and the standard library's
  \<^verbatim>\<open>json\<close> module as they use it: \<^verbatim>\<open>json.dumps\<close> with its default arguments
  (\<^verbatim>\<open>ensure_ascii\<close>, separators \<^verbatim>\<open>", "\<close> and \<^verbatim>\<open>": "\<close>) and \<^verbatim>\<open>json.loads\<close>.

  A value is \<^verbatim>\<open>None\<close>, a \<^verbatim>\<open>bool\<close>, an \<^verbatim>\<open>int\<close>, a \<^verbatim>\<open>str\<close>, a \<^verbatim>\<open>list\<close> or a \<^verbatim>\<open>dict\<close> with
  string keys in insertion order. Floats are left out: \<open>loads\<close> answers \<open>None\<close> (the
  model's "raises or is outside the model") on a number with a fraction or an exponent.
\<close>

section \<open>Values\<close>

datatype json =
    JNull
  | JBool bool
  | JInt py_int
  | JStr py_str
  | JArr "json list"
  | JObj "(py_str \<times> json) list"

text \<open>\<^verbatim>\<open>if v:\<close> on a value.\<close>

fun truthy :: "json \<Rightarrow> bool" where
  "truthy JNull = False"
| "truthy (JBool b) = b"
| "truthy (JInt i) = (i \<noteq> 0)"
| "truthy (JStr s) = (s \<noteq> [])"
| "truthy (JArr xs) = (xs \<noteq> [])"
| "truthy (JObj kvs) = (kvs \<noteq> [])"

section \<open>\<^verbatim>\<open>json.dumps\<close>\<close>

definition dquote :: char where "dquote = CHR 0x22"
definition bslash :: char where "bslash = CHR 0x5C"

definition hex_digits :: "char list" where
  "hex_digits = ''0123456789abcdef''"

definition hex_char :: "nat \<Rightarrow> char" where
  "hex_char n = hex_digits ! n"

definition escape_char :: "char \<Rightarrow> py_str" where
  "escape_char c =
     (if c = dquote then [bslash, dquote]
      else if c = bslash then [bslash, bslash]
      else if c = CHR 0x0A then [bslash, CHR ''n'']
      else if c = CHR 0x0D then [bslash, CHR ''r'']
      else if c = CHR 0x09 then [bslash, CHR ''t'']
      else if c = CHR 0x08 then [bslash, CHR ''b'']
      else if c = CHR 0x0C then [bslash, CHR ''f'']
      else if (of_char c :: nat) < 32 \<or> 126 < (of_char c :: nat)
        then [bslash, CHR ''u'', CHR ''0'', CHR ''0'',
              hex_char (of_char c div 16), hex_char (of_char c mod 16)]
      else [c])"

definition quote :: "py_str \<Rightarrow> py_str" where
  "quote s = dquote # concat (map escape_char s) @ [dquote]"

fun dumps :: "json \<Rightarrow> py_str" where
  "dumps JNull = ''null''"
| "dumps (JBool b) = (if b then ''true'' else ''false'')"
| "dumps (JInt i) = str_int i"
| "dumps (JStr s) = quote s"
| "dumps (JArr xs) = ''['' @ join '', '' (map dumps xs) @ '']''"
| "dumps (JObj kvs) =
     ''{'' @ join '', '' (map (\<lambda>(k, v). quote k @ '': '' @ dumps v) kvs) @ ''}''"

section \<open>\<^verbatim>\<open>json.loads\<close>: the lexer\<close>

datatype token =
    TLBrace | TRBrace | TLBrack | TRBrack | TColon | TComma
  | TStr py_str | TInt py_int | TTrue | TFalse | TNull

definition json_ws :: "char \<Rightarrow> bool" where
  "json_ws c \<longleftrightarrow> c \<in> set [CHR 0x20, CHR 0x09, CHR 0x0A, CHR 0x0D]"

definition hex_val :: "char \<Rightarrow> nat option" where
  "hex_val c =
     (if is_digit c then Some (digit_val c)
      else if c \<in> set ''abcdef'' then Some (of_char c - 87)
      else if c \<in> set ''ABCDEF'' then Some (of_char c - 55)
      else None)"

definition unescape :: "char \<Rightarrow> char option" where
  "unescape e =
     (if e = dquote then Some dquote
      else if e = bslash then Some bslash
      else if e = CHR ''/'' then Some CHR ''/''
      else if e = CHR ''b'' then Some (CHR 0x08)
      else if e = CHR ''f'' then Some (CHR 0x0C)
      else if e = CHR ''n'' then Some (CHR 0x0A)
      else if e = CHR ''r'' then Some (CHR 0x0D)
      else if e = CHR ''t'' then Some (CHR 0x09)
      else None)"

text \<open>Four hex digits of a \<^verbatim>\<open>\uXXXX\<close> escape; code points above 255 are outside the model.\<close>

definition unicode_escape :: "char \<Rightarrow> char \<Rightarrow> char \<Rightarrow> char \<Rightarrow> char option" where
  "unicode_escape a b x y =
     (case (hex_val a, hex_val b, hex_val x, hex_val y) of
        (Some p, Some q, Some h, Some l) \<Rightarrow>
          if p = 0 \<and> q = 0 then Some (char_of (16 * h + l)) else None
      | _ \<Rightarrow> None)"

text \<open>The body of a string literal, after its opening quote: the text and what follows.\<close>

fun lex_string :: "py_str \<Rightarrow> (py_str \<times> py_str) option" where
  "lex_string [] = None"
| "lex_string (c # cs) =
     (if c = dquote then Some ([], cs)
      else if c = bslash then
        (case cs of
           [] \<Rightarrow> None
         | e # es \<Rightarrow>
             if e = CHR ''u'' then
               (case es of
                  a # b # x # y # r \<Rightarrow>
                    (case unicode_escape a b x y of
                       None \<Rightarrow> None
                     | Some d \<Rightarrow> map_option (apfst ((#) d)) (lex_string r))
                | _ \<Rightarrow> None)
             else
               (case unescape e of
                  None \<Rightarrow> None
                | Some d \<Rightarrow> map_option (apfst ((#) d)) (lex_string es)))
      else if (of_char c :: nat) < 32 then None
      else map_option (apfst ((#) c)) (lex_string cs))"

text \<open>
  An integer literal \<^verbatim>\<open>-?(0|[1-9][0-9]*)\<close>. A fraction or an exponent would make it a
  float, which is outside the model.
\<close>

definition lex_int :: "py_str \<Rightarrow> (py_int \<times> py_str) option" where
  "lex_int s =
     (let neg = (s \<noteq> [] \<and> hd s = CHR ''-'');
          t = (if neg then tl s else s);
          ds = takeWhile is_digit t;
          r = dropWhile is_digit t
      in if ds = [] \<or> (1 < length ds \<and> hd ds = CHR ''0'') then None
         else if r \<noteq> [] \<and> hd r \<in> set ''.eE'' then None
         else Some (if neg then - int (nat_of_digits ds) else int (nat_of_digits ds), r))"

lemma lex_string_shorter: "lex_string s = Some (t, r) \<Longrightarrow> length r < length s"
proof (induction s arbitrary: t r rule: lex_string.induct)
  case 1
  then show ?case by simp
next
  case (2 c cs)
  then show ?case
    by (auto split: if_splits list.splits option.splits) fastforce+
qed

lemma lex_int_shorter: "lex_int s = Some (i, r) \<Longrightarrow> length r < length s"
proof -
  assume a: "lex_int s = Some (i, r)"
  define t where "t = (if s \<noteq> [] \<and> hd s = CHR ''-'' then tl s else s)"
  from a have r: "r = dropWhile is_digit t" and ne: "takeWhile is_digit t \<noteq> []"
    by (auto simp: lex_int_def Let_def t_def split: if_splits)
  have "length (takeWhile is_digit t) + length r = length t"
    unfolding r by (metis length_append takeWhile_dropWhile_id)
  with ne have "length r < length t" by (cases "takeWhile is_digit t") auto
  also have "length t \<le> length s" by (simp add: t_def)
  finally show ?thesis .
qed

text \<open>One token at the head of a text that does not start with white space.\<close>

definition lex_token :: "py_str \<Rightarrow> (token \<times> py_str) option" where
  "lex_token s =
     (case s of
        [] \<Rightarrow> None
      | c # cs \<Rightarrow>
          if c = CHR ''{'' then Some (TLBrace, cs)
          else if c = CHR ''}'' then Some (TRBrace, cs)
          else if c = CHR ''['' then Some (TLBrack, cs)
          else if c = CHR '']'' then Some (TRBrack, cs)
          else if c = CHR '':'' then Some (TColon, cs)
          else if c = CHR '','' then Some (TComma, cs)
          else if c = dquote then map_option (apfst TStr) (lex_string cs)
          else if c = CHR ''-'' \<or> is_digit c then map_option (apfst TInt) (lex_int s)
          else if prefix ''true'' s then Some (TTrue, drop 4 s)
          else if prefix ''false'' s then Some (TFalse, drop 5 s)
          else if prefix ''null'' s then Some (TNull, drop 4 s)
          else None)"

lemma lex_token_shorter:
  assumes "lex_token s = Some (t, r)"
  shows "length r < length s"
proof (cases s)
  case Nil
  with assms show ?thesis by (simp add: lex_token_def)
next
  case (Cons c cs)
  consider (str) u where "lex_string cs = Some (u, r)"
    | (num) i where "lex_int s = Some (i, r)"
    | (lit) "r = cs \<or> r = drop 4 s \<or> r = drop 5 s"
    using assms Cons by (auto simp: lex_token_def split: if_splits)
  then show ?thesis
  proof cases
    case str
    then show ?thesis using Cons by (auto dest: lex_string_shorter)
  next
    case num
    then show ?thesis by (rule lex_int_shorter)
  next
    case lit
    then show ?thesis using Cons by auto
  qed
qed

function tokenize :: "py_str \<Rightarrow> token list option" where
  "tokenize [] = Some []"
| "tokenize (c # cs) =
     (if json_ws c then tokenize cs
      else (case lex_token (c # cs) of
              None \<Rightarrow> None
            | Some (t, r) \<Rightarrow> map_option ((#) t) (tokenize r)))"
  by pat_completeness auto
termination
proof (relation "measure length")
  show "wf (measure length)" by simp
next
  fix c :: char and cs :: py_str
  show "(cs, c # cs) \<in> measure length" by simp
next
  fix c :: char and cs x2 t r
  assume "lex_token (c # cs) = Some x2" and "(t, r) = x2"
  then have "length r < length (c # cs)" by (auto dest: lex_token_shorter)
  then show "(r, c # cs) \<in> measure length" by simp
qed

declare tokenize.simps(2) [simp del]

section \<open>\<^verbatim>\<open>json.loads\<close>: the parser\<close>

text \<open>\<^verbatim>\<open>dict(pairs)\<close>: a repeated key keeps its first position and takes the last value.\<close>

definition dict_of_pairs :: "(py_str \<times> json) list \<Rightarrow> (py_str \<times> json) list" where
  "dict_of_pairs ps = foldl (\<lambda>d (k, v). AList.update k v d) [] ps"

fun parse_value :: "nat \<Rightarrow> token list \<Rightarrow> (json \<times> token list) option"
  and parse_elems :: "nat \<Rightarrow> token list \<Rightarrow> (json list \<times> token list) option"
  and parse_members :: "nat \<Rightarrow> token list \<Rightarrow> ((py_str \<times> json) list \<times> token list) option"
where
  "parse_value 0 ts = None"
| "parse_value (Suc n) [] = None"
| "parse_value (Suc n) (t # ts) =
     (case t of
        TNull \<Rightarrow> Some (JNull, ts)
      | TTrue \<Rightarrow> Some (JBool True, ts)
      | TFalse \<Rightarrow> Some (JBool False, ts)
      | TInt i \<Rightarrow> Some (JInt i, ts)
      | TStr s \<Rightarrow> Some (JStr s, ts)
      | TLBrack \<Rightarrow>
          (case ts of
             TRBrack # r \<Rightarrow> Some (JArr [], r)
           | _ \<Rightarrow> map_option (apfst JArr) (parse_elems n ts))
      | TLBrace \<Rightarrow>
          (case ts of
             TRBrace # r \<Rightarrow> Some (JObj [], r)
           | _ \<Rightarrow> map_option (apfst (JObj \<circ> dict_of_pairs)) (parse_members n ts))
      | _ \<Rightarrow> None)"
| "parse_elems 0 ts = None"
| "parse_elems (Suc n) ts =
     (case parse_value n ts of
        None \<Rightarrow> None
      | Some (v, r) \<Rightarrow>
          (case r of
             TRBrack # r' \<Rightarrow> Some ([v], r')
           | TComma # r' \<Rightarrow> map_option (apfst ((#) v)) (parse_elems n r')
           | _ \<Rightarrow> None))"
| "parse_members 0 ts = None"
| "parse_members (Suc n) ts =
     (case ts of
        TStr k # TColon # r \<Rightarrow>
          (case parse_value n r of
             None \<Rightarrow> None
           | Some (v, r') \<Rightarrow>
               (case r' of
                  TRBrace # r'' \<Rightarrow> Some ([(k, v)], r'')
                | TComma # r'' \<Rightarrow> map_option (apfst ((#) (k, v))) (parse_members n r'')
                | _ \<Rightarrow> None))
      | _ \<Rightarrow> None)"

text \<open>
  The whole text must be one value. Each call of the parser consumes a token or is
  followed by one that does, so twice the number of tokens, and one more, is fuel enough.
\<close>

definition loads :: "py_str \<Rightarrow> json option" where
  "loads s =
     (case tokenize s of
        None \<Rightarrow> None
      | Some ts \<Rightarrow>
          (case parse_value (2 * length ts + 1) ts of
             Some (v, []) \<Rightarrow> Some v
           | _ \<Rightarrow> None))"

text \<open>A \<^verbatim>\<open>dict\<close> has no repeated key, at any depth.\<close>

fun wf_json :: "json \<Rightarrow> bool" where
  "wf_json (JArr xs) = list_all wf_json xs"
| "wf_json (JObj kvs) = (distinct (map fst kvs) \<and> list_all (\<lambda>kv. wf_json (snd kv)) kvs)"
| "wf_json v = True"

lemmas json_defs = dquote_def bslash_def hex_digits_def hex_char_def escape_char_def quote_def
  json_ws_def hex_val_def unescape_def unicode_escape_def lex_int_def lex_token_def
  dict_of_pairs_def
  loads_def

section \<open>Lemmas on \<^verbatim>\<open>dumps\<close>\<close>

lemma quote_ne [simp]: "quote s \<noteq> []"
  by (simp add: quote_def)

lemma dumps_ne [simp]: "dumps v \<noteq> []"
  by (cases v) simp_all

lemma truthy_str_dumps [simp]: "truthy_str (dumps v)"
  by (simp add: truthy_str_def)

end
