(* ===== verification/Json_Roundtrip.thy ===== *)
theory Json_Roundtrip
  imports Json
begin

text \<open>
  \<^verbatim>\<open>json.loads\<close> undoes \<^verbatim>\<open>json.dumps\<close>. The proof goes through the tokens of a value:
  the lexer reads the text of \<open>dumps v\<close> as \<open>tokens v\<close>, and the parser rebuilds \<open>v\<close> from
  them with the fuel \<open>loads\<close> gives it. The only condition is that no \<^verbatim>\<open>dict\<close> repeats a
  key, which holds of every Python value.
\<close>

section \<open>The tokens of a value\<close>

text \<open>
  \<open>at_delim\<close> describes the text that may follow a serialised value: nothing, or one of
  the characters that end an element. An integer is only read back when what follows is
  not a digit.
\<close>

fun tokens :: "json \<Rightarrow> token list" where
  "tokens JNull = [TNull]"
| "tokens (JBool b) = [if b then TTrue else TFalse]"
| "tokens (JInt i) = [TInt i]"
| "tokens (JStr s) = [TStr s]"
| "tokens (JArr xs) = TLBrack # join [TComma] (map tokens xs) @ [TRBrack]"
| "tokens (JObj kvs) =
     TLBrace # join [TComma] (map (\<lambda>(k, v). TStr k # TColon # tokens v) kvs) @ [TRBrace]"

definition at_delim :: "py_str \<Rightarrow> bool" where
  "at_delim r \<longleftrightarrow> (case r of [] \<Rightarrow> True | c # cs \<Rightarrow> c \<in> set '',]}'')"

section \<open>Strings\<close>

lemma hex_val_hex_char: "k < 16 \<Longrightarrow> hex_val (hex_char k) = Some k"
proof -
  have "list_all (\<lambda>k. hex_val (hex_char k) = Some k) [0..<16]" by code_simp
  then show "k < 16 \<Longrightarrow> ?thesis" by (simp add: list_all_iff)
qed

lemma unicode_escape_hex:
  "unicode_escape CHR ''0'' CHR ''0'' (hex_char (of_char c div 16)) (hex_char (of_char c mod 16)) =
     Some c"
proof -
  have "(of_char c :: nat) < 256" by (rule nat_of_char_less_256)
  then have "(of_char c :: nat) div 16 < 16" by arith
  then have h: "hex_val (hex_char (of_char c div 16)) = Some (of_char c div 16)"
    by (rule hex_val_hex_char)
  have l: "hex_val (hex_char (of_char c mod 16)) = Some (of_char c mod 16)"
    by (rule hex_val_hex_char) simp
  have z: "hex_val CHR ''0'' = Some 0"
    by (simp add: hex_val_def is_digit_def digits_def digit_val_def)
  show ?thesis
    by (simp add: unicode_escape_def h l z)
qed

lemma lex_string_escape:
  "lex_string (escape_char c @ r) = map_option (apfst ((#) c)) (lex_string r)"
proof -
  let ?special = "{dquote, bslash, CHR 0x0A, CHR 0x0D, CHR 0x09, CHR 0x08, CHR 0x0C}"
  consider (special) "c \<in> ?special"
    | (hex) "c \<notin> ?special" "(of_char c :: nat) < 32 \<or> 126 < (of_char c :: nat)"
    | (plain) "c \<notin> ?special" "\<not> ((of_char c :: nat) < 32 \<or> 126 < (of_char c :: nat))"
    by blast
  then show ?thesis
  proof cases
    case special
    then show ?thesis
      by (elim insertE emptyE) (simp_all add: escape_char_def unescape_def dquote_def bslash_def)
  next
    case hex
    then have "escape_char c = [bslash, CHR ''u'', CHR ''0'', CHR ''0'',
        hex_char (of_char c div 16), hex_char (of_char c mod 16)]"
      by (simp add: escape_char_def)
    then show ?thesis
      by (simp add: unicode_escape_hex) (simp add: dquote_def bslash_def)
  next
    case plain
    then have "escape_char c = [c]" by (simp add: escape_char_def)
    with plain show ?thesis by simp
  qed
qed

lemma lex_string_quoted: "lex_string (concat (map escape_char s) @ dquote # r) = Some (s, r)"
  by (induction s) (simp_all add: lex_string_escape)

section \<open>Integers\<close>

lemma str_nat_leading_zero: "hd (str_nat n) = CHR ''0'' \<Longrightarrow> str_nat n = ''0''"
proof (induction n rule: str_nat.induct)
  case (1 n)
  show ?case
  proof (cases "n < 10")
    case True
    with 1(2) have "digit_char n = digit_char 0"
      by (subst (asm) str_nat.simps) (simp add: digit_char_def digits_def)
    with True have "n = 0" by (simp add: digit_char_inj)
    then show ?thesis by (subst str_nat.simps) (simp add: digit_char_def digits_def)
  next
    case False
    with 1(2) have "hd (str_nat (n div 10)) = CHR ''0''"
      by (subst (asm) str_nat.simps) simp
    with 1(1) False have "str_nat (n div 10) = ''0''" by simp
    then have "nat_of_digits (str_nat (n div 10)) = 0"
      by (simp only: nat_of_digits_def) (simp add: digit_val_def)
    with False show ?thesis by simp
  qed
qed

lemma takeWhile_digits_str_nat:
  assumes "r = [] \<or> \<not> is_digit (hd r)"
  shows "takeWhile is_digit (str_nat n @ r) = str_nat n"
    and "dropWhile is_digit (str_nat n @ r) = r"
  using assms by (cases r; simp add: takeWhile_append2 dropWhile_append2 str_nat_digits)+

lemma lex_int_str_int:
  assumes "r = [] \<or> (\<not> is_digit (hd r) \<and> hd r \<notin> set ''.eE'')"
  shows "lex_int (str_int i @ r) = Some (i, r)"
proof -
  have lead: "\<not> (1 < length (str_nat n) \<and> hd (str_nat n) = CHR ''0'')" for n
    using str_nat_leading_zero [of n] by auto
  have hd: "hd (str_nat n @ r) \<noteq> CHR ''-''" for n
    using hd_str_nat_digit [of n] by (auto simp: hd_append)
  from assms have r: "r = [] \<or> \<not> is_digit (hd r)" by auto
  show ?thesis
  proof (cases "i < 0")
    case True
    with assms lead [of "nat (- i)"] show ?thesis
      by (auto simp: lex_int_def str_int_def Let_def takeWhile_digits_str_nat [OF r])
  next
    case False
    with assms lead [of "nat i"] hd [of "nat i"] show ?thesis
      by (auto simp: lex_int_def str_int_def Let_def takeWhile_digits_str_nat [OF r])
  qed
qed


section \<open>Tokens\<close>

lemma lex_ws: "json_ws c \<Longrightarrow> tokenize (c # cs) = tokenize cs"
  by (simp add: tokenize.simps(2))

lemma lex_tok:
  "\<not> json_ws c \<Longrightarrow> lex_token (c # cs) = Some (t, r) \<Longrightarrow> tokenize r = Some ts \<Longrightarrow>
     tokenize (c # cs) = Some (t # ts)"
  by (simp add: tokenize.simps(2))

lemma lex_punct:
  assumes "tokenize r = Some ts"
  shows "tokenize (CHR ''['' # r) = Some (TLBrack # ts)" "tokenize (CHR '']'' # r) = Some (TRBrack # ts)"
    "tokenize (CHR ''{'' # r) = Some (TLBrace # ts)" "tokenize (CHR ''}'' # r) = Some (TRBrace # ts)"
    "tokenize (CHR '','' # CHR '' '' # r) = Some (TComma # ts)"
    "tokenize (CHR '':'' # CHR '' '' # r) = Some (TColon # ts)"
  using assms by (simp_all add: tokenize.simps(2) [of _ r] tokenize.simps(2) [of _ "_ # r"] json_ws_def
      lex_token_def)

lemma lex_literal:
  assumes "tokenize r = Some ts"
  shows "tokenize (''null'' @ r) = Some (TNull # ts)" "tokenize (''true'' @ r) = Some (TTrue # ts)"
    "tokenize (''false'' @ r) = Some (TFalse # ts)"
  using assms by (simp_all add: tokenize.simps(2) [of _ "_ # _ # _ # r"]
      tokenize.simps(2) [of _ "_ # _ # _ # _ # r"] json_ws_def lex_token_def dquote_def is_digit_def
      digits_def)

lemma dquote_other [simp]:
  "dquote \<noteq> CHR ''{''" "dquote \<noteq> CHR ''}''" "dquote \<noteq> CHR ''[''" "dquote \<noteq> CHR '']''"
  "dquote \<noteq> CHR '':''" "dquote \<noteq> CHR '',''" "\<not> json_ws dquote"
  by (simp_all add: dquote_def json_ws_def)

lemma lex_quote: "tokenize r = Some ts \<Longrightarrow> tokenize (quote s @ r) = Some (TStr s # ts)"
proof -
  have "lex_token (dquote # concat (map escape_char s) @ dquote # r) = Some (TStr s, r)"
    by (simp add: lex_token_def lex_string_quoted)
  then show "tokenize r = Some ts \<Longrightarrow> ?thesis"
    by (simp add: quote_def lex_tok)
qed

lemma at_delim_simps [simp]:
  "at_delim []" "at_delim (CHR '','' # r)" "at_delim (CHR '']'' # r)" "at_delim (CHR ''}'' # r)"
  by (simp_all add: at_delim_def)

lemma at_delim_no_digit: "at_delim r \<Longrightarrow> r = [] \<or> (\<not> is_digit (hd r) \<and> hd r \<notin> set ''.eE'')"
  by (cases r) (auto simp: at_delim_def is_digit_def digits_def)

lemma lex_str_int:
  assumes "tokenize r = Some ts" and "at_delim r"
  shows "tokenize (str_int i @ r) = Some (TInt i # ts)"
proof -
  obtain c cs where c: "str_int i = c # cs" by (cases "str_int i") auto
  then have "is_digit c \<or> c = CHR ''-''" using str_int_chars [of c i] by simp
  then have "\<not> json_ws c" and "lex_token (c # cs @ r) = map_option (apfst TInt) (lex_int (c # cs @ r))"
    by (auto simp: json_ws_def lex_token_def is_digit_def digits_def dquote_def)
  with lex_int_str_int [OF at_delim_no_digit [OF assms(2)], of i] assms(1) show ?thesis
    by (simp add: c lex_tok [where t = "TInt i" and r = r])
qed

section \<open>The lexer on a serialised value\<close>

lemma lex_join:
  assumes "\<And>x r ts. x \<in> set xs \<Longrightarrow> tokenize r = Some ts \<Longrightarrow> at_delim r \<Longrightarrow>
             tokenize (f x @ r) = Some (g x @ ts)"
    and "tokenize r = Some ts" and "at_delim r"
  shows "tokenize (join '', '' (map f xs) @ r) = Some (join [TComma] (map g xs) @ ts)"
  using assms(1)
proof (induction xs rule: induct_list012)
  case 1
  from assms(2) show ?case by simp
next
  case (2 x)
  from 2 [of x r ts] assms(2,3) show ?case by simp
next
  case (3 x y zs)
  let ?rest = "join '', '' (map f (y # zs)) @ r"
  have "tokenize ?rest = Some (join [TComma] (map g (y # zs)) @ ts)"
    by (rule 3(2)) (rule 3(3), simp_all)
  then have "tokenize (CHR '','' # CHR '' '' # ?rest) = Some (TComma # join [TComma] (map g (y # zs)) @ ts)"
    by (rule lex_punct)
  from 3(3) [OF _ this] show ?case by simp
qed

lemma lex_dumps:
  "tokenize r = Some ts \<Longrightarrow> at_delim r \<Longrightarrow> tokenize (dumps v @ r) = Some (tokens v @ ts)"
proof (induction v arbitrary: r ts)
  case JNull
  then show ?case using lex_literal(1) [of r ts] by simp
next
  case (JBool b)
  then show ?case using lex_literal(2,3) [of r ts] by simp
next
  case (JInt i)
  then show ?case by (simp add: lex_str_int)
next
  case (JStr s)
  then show ?case by (simp add: lex_quote)
next
  case (JArr xs)
  from JArr(2) have "tokenize (CHR '']'' # r) = Some (TRBrack # ts)" by (rule lex_punct)
  then have "tokenize (join '', '' (map dumps xs) @ CHR '']'' # r) =
      Some (join [TComma] (map tokens xs) @ TRBrack # ts)"
    by (intro lex_join JArr(1)) simp_all
  then show ?case using lex_punct(1) by simp
next
  case (JObj kvs)
  let ?f = "\<lambda>(k, v). quote k @ '': '' @ dumps v"
  let ?g = "\<lambda>(k, v). TStr k # TColon # tokens v"
  have el: "tokenize (?f kv @ r') = Some (?g kv @ ts')"
    if "kv \<in> set kvs" "tokenize r' = Some ts'" "at_delim r'" for kv r' ts'
  proof -
    obtain k v where kv: "kv = (k, v)" by (cases kv)
    with that(1) have "tokenize (dumps v @ r') = Some (tokens v @ ts')"
      by (intro JObj(1) [of kv v] that) simp_all
    then have "tokenize (CHR '':'' # CHR '' '' # dumps v @ r') = Some (TColon # tokens v @ ts')"
      by (rule lex_punct)
    then show ?thesis by (simp add: kv lex_quote)
  qed
  from JObj(2) have "tokenize (CHR ''}'' # r) = Some (TRBrace # ts)" by (rule lex_punct)
  then have "tokenize (join '', '' (map ?f kvs) @ CHR ''}'' # r) =
      Some (join [TComma] (map ?g kvs) @ TRBrace # ts)"
    by (intro lex_join el) simp_all
  then show ?case using lex_punct(3) by simp
qed

lemma lex_dumps_tokens: "tokenize (dumps v) = Some (tokens v)"
  using lex_dumps [of "[]" "[]" v] by simp


section \<open>The parser on the tokens of a value\<close>

lemma tokens_Cons: "\<exists>t ts. tokens v = t # ts \<and> t \<noteq> TRBrack \<and> t \<noteq> TRBrace"
  by (cases v) auto

lemma join_Cons:
  assumes "xs \<noteq> []" and "\<And>x. x \<in> set xs \<Longrightarrow> \<exists>t ts. g x = t # ts \<and> P t"
  shows "\<exists>t ts. join sep (map g xs) = t # ts \<and> P t"
proof -
  from assms(1) obtain x ys where xs: "xs = x # ys" by (cases xs) auto
  with assms(2) [of x] obtain t ts where "g x = t # ts" "P t" by auto
  then show ?thesis by (cases ys) (auto simp: xs)
qed

lemma parse_value_arr:
  assumes "xs \<noteq> []"
  shows "parse_value (Suc n) (TLBrack # join [TComma] (map tokens xs) @ r) =
     map_option (apfst JArr) (parse_elems n (join [TComma] (map tokens xs) @ r))"
proof -
  from join_Cons [OF assms, of tokens "\<lambda>t. t \<noteq> TRBrack" "[TComma]"] tokens_Cons
  obtain t ts where "join [TComma] (map tokens xs) = t # ts" "t \<noteq> TRBrack" by metis
  then show ?thesis by (cases t) simp_all
qed

lemma parse_value_obj:
  assumes "kvs \<noteq> []"
  shows "parse_value (Suc n)
       (TLBrace # join [TComma] (map (\<lambda>(k, v). TStr k # TColon # tokens v) kvs) @ r) =
     map_option (apfst (JObj \<circ> dict_of_pairs))
       (parse_members n (join [TComma] (map (\<lambda>(k, v). TStr k # TColon # tokens v) kvs) @ r))"
proof -
  let ?g = "\<lambda>(k, v). TStr k # TColon # tokens v"
  have "\<exists>t ts. ?g kv = t # ts \<and> t \<noteq> TRBrace" for kv by (cases kv) simp
  from join_Cons [OF assms, of ?g "\<lambda>t. t \<noteq> TRBrace" "[TComma]"] this
  obtain t ts where "join [TComma] (map ?g kvs) = t # ts" "t \<noteq> TRBrace" by metis
  then show ?thesis by (cases t) simp_all
qed

lemma parse_elems_join:
  assumes "\<And>x n r. x \<in> set xs \<Longrightarrow> 2 * length (tokens x) \<le> n \<Longrightarrow>
             parse_value n (tokens x @ r) = Some (x, r)"
    and "xs \<noteq> []" and "2 * length (join [TComma] (map tokens xs)) + 2 \<le> n"
  shows "parse_elems n (join [TComma] (map tokens xs) @ TRBrack # r) = Some (xs, r)"
  using assms
proof (induction xs arbitrary: n rule: induct_list012)
  case 1
  then show ?case by simp
next
  case (2 x)
  from 2(3) obtain m where n: "n = Suc m" by (cases n) auto
  with 2(3) have "parse_value m (tokens x @ TRBrack # r) = Some (x, TRBrack # r)"
    by (intro 2(1)) simp_all
  then show ?case by (simp add: n)
next
  case (3 x y zs)
  from 3(5) obtain m where n: "n = Suc m" by (cases n) auto
  let ?rest = "join [TComma] (map tokens (y # zs)) @ TRBrack # r"
  from 3(5) have "parse_value m (tokens x @ TComma # ?rest) = Some (x, TComma # ?rest)"
    by (intro 3(3)) (simp_all add: n)
  moreover from 3(5) have "parse_elems m ?rest = Some (y # zs, r)"
    by (intro 3(2) 3(3)) (simp_all add: n)
  ultimately show ?case by (simp add: n)
qed

lemma parse_members_join:
  assumes "\<And>k v n r. (k, v) \<in> set kvs \<Longrightarrow> 2 * length (tokens v) \<le> n \<Longrightarrow>
             parse_value n (tokens v @ r) = Some (v, r)"
    and "kvs \<noteq> []"
    and "2 * length (join [TComma] (map (\<lambda>(k, v). TStr k # TColon # tokens v) kvs)) + 2 \<le> n"
  shows "parse_members n
           (join [TComma] (map (\<lambda>(k, v). TStr k # TColon # tokens v) kvs) @ TRBrace # r) =
         Some (kvs, r)"
  using assms
proof (induction kvs arbitrary: n rule: induct_list012)
  case 1
  then show ?case by simp
next
  case (2 kv)
  obtain k v where kv: "kv = (k, v)" by (cases kv)
  from 2(3) obtain m where n: "n = Suc m" by (cases n) auto
  with 2(3) have "parse_value m (tokens v @ TRBrace # r) = Some (v, TRBrace # r)"
    by (intro 2(1) [of k]) (simp_all add: kv)
  then show ?case by (simp add: n kv)
next
  case (3 kv y zs)
  obtain k v where kv: "kv = (k, v)" by (cases kv)
  from 3(5) obtain m where n: "n = Suc m" by (cases n) auto
  let ?rest = "join [TComma] (map (\<lambda>(k, v). TStr k # TColon # tokens v) (y # zs)) @ TRBrace # r"
  from 3(5) have "parse_value m (tokens v @ TComma # ?rest) = Some (v, TComma # ?rest)"
    by (intro 3(3) [of k]) (simp_all add: n kv)
  moreover have "parse_members m ?rest = Some (y # zs, r)"
  proof (rule 3(2))
    show "parse_value n' (tokens v' @ r') = Some (v', r')"
      if "(k', v') \<in> set (y # zs)" "2 * length (tokens v') \<le> n'" for k' v' n' r'
      using that by (intro 3(3) [of k']) auto
  qed (use 3(5) in \<open>simp_all add: n kv\<close>)
  ultimately show ?case by (simp add: n kv)
qed

lemma update_fresh: "k \<notin> fst ` set al \<Longrightarrow> AList.update k v al = al @ [(k, v)]"
  by (induction al) auto

lemma foldl_update_distinct:
  "distinct (map fst (acc @ ps)) \<Longrightarrow>
     foldl (\<lambda>d (k, v). AList.update k v d) acc ps = acc @ ps"
proof (induction ps arbitrary: acc)
  case Nil
  then show ?case by simp
next
  case (Cons p ps)
  obtain k v where p: "p = (k, v)" by (cases p)
  from Cons(2) have "AList.update k v acc = acc @ [(k, v)]"
    by (intro update_fresh) (auto simp: p)
  with Cons(1) [of "acc @ [p]"] Cons(2) show ?case by (simp add: p)
qed

lemma dict_of_pairs_distinct: "distinct (map fst kvs) \<Longrightarrow> dict_of_pairs kvs = kvs"
  using foldl_update_distinct [of "[]" kvs] by (simp add: dict_of_pairs_def)

lemma parse_value_atom:
  assumes "0 < n"
  shows "parse_value n (TNull # r) = Some (JNull, r)"
    "parse_value n (TTrue # r) = Some (JBool True, r)"
    "parse_value n (TFalse # r) = Some (JBool False, r)"
    "parse_value n (TInt i # r) = Some (JInt i, r)"
    "parse_value n (TStr s # r) = Some (JStr s, r)"
  using assms by (cases n; simp)+

lemma parse_value_tokens:
  "wf_json v \<Longrightarrow> 2 * length (tokens v) \<le> n \<Longrightarrow> parse_value n (tokens v @ r) = Some (v, r)"
proof (induction v arbitrary: n r)
  case (JArr xs)
  from JArr(3) obtain m where n: "n = Suc m" by (cases n) auto
  show ?case
  proof (cases "xs = []")
    case True
    then show ?thesis by (simp add: n)
  next
    case False
    from JArr(2,3) have "parse_elems m (join [TComma] (map tokens xs) @ TRBrack # r) = Some (xs, r)"
      by (intro parse_elems_join JArr(1) False) (simp_all add: n list_all_iff)
    with False show ?thesis by (simp add: n parse_value_arr del: parse_value.simps)
  qed
next
  case (JObj kvs)
  from JObj(3) obtain m where n: "n = Suc m" by (cases n) auto
  show ?case
  proof (cases "kvs = []")
    case True
    then show ?thesis by (simp add: n)
  next
    case False
    have "parse_value n' (tokens v @ r') = Some (v, r')"
      if "(k, v) \<in> set kvs" "2 * length (tokens v) \<le> n'" for k v n' r'
      using that JObj(2) by (intro JObj(1) [of "(k, v)"]) (auto simp: list_all_iff)
    with JObj(3) have "parse_members m
        (join [TComma] (map (\<lambda>(k, v). TStr k # TColon # tokens v) kvs) @ TRBrace # r) =
        Some (kvs, r)"
      by (intro parse_members_join False) (simp_all add: n)
    with False JObj(2) show ?thesis
      by (simp add: n parse_value_obj dict_of_pairs_distinct del: parse_value.simps)
  qed
qed (simp_all add: parse_value_atom)

section \<open>Round trip\<close>

lemma loads_dumps: "wf_json v \<Longrightarrow> loads (dumps v) = Some v"
  using parse_value_tokens [of v "2 * length (tokens v) + 1" "[]"]
  by (simp add: loads_def lex_dumps_tokens)

lemma dumps_eq_iff: "wf_json v \<Longrightarrow> wf_json w \<Longrightarrow> dumps v = dumps w \<longleftrightarrow> v = w"
  by (metis loads_dumps option.inject)

lemma dumps_inj_on: "inj_on dumps {v. wf_json v}"
  by (rule inj_onI) (simp add: dumps_eq_iff)

end
