(* ===== verification/Cache_Store.thy ===== *)
theory Cache_Store
  imports Py_Prelude
begin

text \<open>
  The key/value store behind \<^verbatim>\<open>redis_client\<close> of \<^verbatim>\<open>src/backend/src/main.py\<close>, as far as
  the handlers use it: \<^verbatim>\<open>GET\<close> and \<^verbatim>\<open>SETEX\<close> on string keys with string values
  (\<^verbatim>\<open>decode_responses=True\<close>). Time is a count of seconds. An entry carries the time at
  which it expires; an expired entry is never returned, whether or not the server has
  deleted it yet.
\<close>

section \<open>State and operations\<close>

record entry =
  e_value :: py_str
  e_expires_at :: nat

type_synonym store = "py_str \<rightharpoonup> entry"

definition live :: "nat \<Rightarrow> entry \<Rightarrow> bool" where
  "live now e \<longleftrightarrow> now < e_expires_at e"

definition store_get :: "nat \<Rightarrow> store \<Rightarrow> py_str \<Rightarrow> py_str option" where
  "store_get now st k =
     (case st k of None \<Rightarrow> None | Some e \<Rightarrow> if live now e then Some (e_value e) else None)"

definition store_setex :: "nat \<Rightarrow> store \<Rightarrow> py_str \<Rightarrow> nat \<Rightarrow> py_str \<Rightarrow> store" where
  "store_setex now st k seconds v = st(k \<mapsto> \<lparr>e_value = v, e_expires_at = now + seconds\<rparr>)"

text \<open>The remaining life of a key, as \<^verbatim>\<open>TTL\<close> reports it for a key that exists.\<close>

definition store_ttl :: "nat \<Rightarrow> store \<Rightarrow> py_str \<Rightarrow> nat option" where
  "store_ttl now st k =
     (case st k of None \<Rightarrow> None
      | Some e \<Rightarrow> if live now e then Some (e_expires_at e - now) else None)"

lemmas [cache_defs] = live_def store_get_def store_setex_def store_ttl_def

section \<open>Lemmas\<close>

lemma store_get_empty [simp]: "store_get now Map.empty k = None"
  by (simp add: store_get_def)

lemma store_get_setex_same:
  "store_get t (store_setex now st k seconds v) k = (if t < now + seconds then Some v else None)"
  by (simp add: store_get_def store_setex_def live_def)

lemma store_get_setex_other [simp]:
  "k' \<noteq> k \<Longrightarrow> store_get t (store_setex now st k seconds v) k' = store_get t st k'"
  by (simp add: store_get_def store_setex_def)

lemma store_get_setex:
  "store_get t (store_setex now st k seconds v) k' =
     (if k' = k then (if t < now + seconds then Some v else None) else store_get t st k')"
  by (simp add: store_get_setex_same)

lemma store_get_Some_iff:
  "store_get now st k = Some v \<longleftrightarrow> (\<exists>e. st k = Some e \<and> now < e_expires_at e \<and> e_value e = v)"
  by (auto simp: store_get_def live_def split: option.splits)

lemma store_get_mono:
  "store_get now st k = None \<Longrightarrow> now \<le> later \<Longrightarrow> store_get later st k = None"
  by (auto simp: store_get_def live_def split: option.splits if_splits)

lemma store_get_earlier:
  "store_get later st k = Some v \<Longrightarrow> now \<le> later \<Longrightarrow> store_get now st k = Some v"
  by (auto simp: store_get_Some_iff)

lemma store_ttl_setex_same:
  "t < now + seconds \<Longrightarrow> store_ttl t (store_setex now st k seconds v) k = Some (now + seconds - t)"
  by (simp add: store_ttl_def store_setex_def live_def)

lemma store_ttl_Some_iff: "(\<exists>n. store_ttl now st k = Some n) \<longleftrightarrow> (\<exists>v. store_get now st k = Some v)"
  by (auto simp: store_ttl_def store_get_def split: option.splits)

lemma dom_store_setex [simp]: "dom (store_setex now st k seconds v) = insert k (dom st)"
  by (simp add: store_setex_def)

end
