(* ===== verification/Handlers.thy ===== *)
theory Handlers
  imports Json_Roundtrip Cache_Store Pydantic
begin

text \<open>
  The request handlers of \<^verbatim>\<open>src/backend/src/main.py\<close>. The state a handler runs in is a
  \<open>world\<close>: the contents of the Redis server and whether it can be reached, the clock,
  and the log of calls made to the scraper functions. A handler takes the scraper as a
  parameter (\<open>resolver\<close>), so that its lemmas hold for the placeholder functions at the
  end of \<^verbatim>\<open>main.py\<close> and for whatever replaces them; it returns the response, or the
  exception that escapes it, with the new world.

  The six handlers are written out as the code has them. \<open>read_through\<close> is the one
  algorithm they all follow, with the key, the life time and the rule for falsy results
  as functions of the request; \<open>handle_read_through\<close> shows that each handler is an
  instance of it. \<open>search_endpoint\<close>, \<open>home_endpoint\<close> and \<open>category_endpoint\<close> put the
  validation of the request body and the default page in front of the handlers.
\<close>

section \<open>Requests, exceptions, the world\<close>

datatype request =
    Home py_int
  | Search py_str "py_int option"
  | Movie py_str
  | Series py_str
  | Watch py_str
  | Category py_str py_int

datatype py_exn =
    ConnectionError | JSONDecodeError | UpstreamError py_str
  | RequestValidationError "verror list"

record SearchRequest =
  sreq_query :: py_str
  sreq_page :: "py_int option"

text \<open>The response models declared in \<^verbatim>\<open>main.py\<close>; no handler builds one.\<close>

record MovieResponse_main =
  mm_id :: py_str
  mm_title :: py_str
  mm_poster :: "py_str option"
  mm_year :: "py_int option"
  mm_type :: py_str
  mm_description :: "py_str option"
  mm_url :: py_str
  mm_rating :: "py_float option"

record EpisodeResponse_main =
  em_id :: py_str
  em_title :: py_str
  em_episode_number :: py_int
  em_season_number :: py_int
  em_url :: py_str
  em_thumbnail :: "py_str option"

record VideoSource_main =
  vm_url :: py_str
  vm_quality :: py_str
  vm_type :: py_str
  vm_size :: "py_str option"

text \<open>The scraper: what it answers to a request made at a given time.\<close>

type_synonym resolver = "nat \<Rightarrow> request \<Rightarrow> py_exn + json"

record world =
  redis_up :: bool
  redis :: store
  clock :: nat
  upstream_calls :: "request list"

type_synonym response = "(py_exn + json) \<times> world"

section \<open>What a handler calls\<close>

definition redis_get :: "world \<Rightarrow> py_str \<Rightarrow> py_exn + py_str option" where
  "redis_get w k =
     (if redis_up w then Inr (store_get (clock w) (redis w) k) else Inl ConnectionError)"

definition redis_setex :: "world \<Rightarrow> py_str \<Rightarrow> nat \<Rightarrow> py_str \<Rightarrow> py_exn + world" where
  "redis_setex w k seconds v =
     (if redis_up w then Inr (w\<lparr>redis := store_setex (clock w) (redis w) k seconds v\<rparr>)
      else Inl ConnectionError)"

definition json_loads :: "py_str \<Rightarrow> py_exn + json" where
  "json_loads s = (case loads s of None \<Rightarrow> Inl JSONDecodeError | Some v \<Rightarrow> Inr v)"

definition await :: "resolver \<Rightarrow> request \<Rightarrow> world \<Rightarrow> response" where
  "await up r w = (up (clock w) r, w\<lparr>upstream_calls := upstream_calls w @ [r]\<rparr>)"

section \<open>The placeholder scraper\<close>

definition get_home_content :: "py_int \<Rightarrow> json" where
  "get_home_content page = JObj [(''sections'', JArr []), (''featured'', JArr [])]"

definition perform_search :: "py_str \<Rightarrow> py_int option \<Rightarrow> json" where
  "perform_search query page = JObj [(''results'', JArr []), (''total_pages'', JInt 0)]"

definition get_movie_info :: "py_str \<Rightarrow> json" where
  "get_movie_info movie_id = JNull"

definition get_series_info :: "py_str \<Rightarrow> json" where
  "get_series_info series_id = JNull"

definition extract_video_sources :: "py_str \<Rightarrow> json" where
  "extract_video_sources content_id = JArr []"

definition get_category_content :: "py_str \<Rightarrow> py_int \<Rightarrow> json" where
  "get_category_content category page = JObj [(''items'', JArr []), (''total_pages'', JInt 0)]"

fun placeholder :: resolver where
  "placeholder t (Home page) = Inr (get_home_content page)"
| "placeholder t (Search query page) = Inr (perform_search query page)"
| "placeholder t (Movie movie_id) = Inr (get_movie_info movie_id)"
| "placeholder t (Series series_id) = Inr (get_series_info series_id)"
| "placeholder t (Watch content_id) = Inr (extract_video_sources content_id)"
| "placeholder t (Category category page) = Inr (get_category_content category page)"

section \<open>The handlers\<close>

definition root :: json where
  "root = JObj [(''message'', JStr ''Akwam Streaming API''), (''status'', JStr ''active'')]"

definition get_home_page :: "resolver \<Rightarrow> py_int \<Rightarrow> world \<Rightarrow> response" where
  "get_home_page up page w =
     (let cache_key = ''home_page_'' @ str_int page in
      case redis_get w cache_key of
        Inl e \<Rightarrow> (Inl e, w)
      | Inr cached \<Rightarrow>
          if truthy_opt truthy_str cached then (json_loads (the cached), w)
          else
            (case await up (Home page) w of
               (Inl e, w1) \<Rightarrow> (Inl e, w1)
             | (Inr home_data, w1) \<Rightarrow>
                 (case redis_setex w1 cache_key 3600 (dumps home_data) of
                    Inl e \<Rightarrow> (Inl e, w1)
                  | Inr w2 \<Rightarrow> (Inr home_data, w2))))"

definition search_content :: "resolver \<Rightarrow> SearchRequest \<Rightarrow> world \<Rightarrow> response" where
  "search_content up request w =
     (let cache_key = ''search_'' @ sreq_query request @ ''_'' @ str_opt_int (sreq_page request) in
      case redis_get w cache_key of
        Inl e \<Rightarrow> (Inl e, w)
      | Inr cached \<Rightarrow>
          if truthy_opt truthy_str cached then (json_loads (the cached), w)
          else
            (case await up (Search (sreq_query request) (sreq_page request)) w of
               (Inl e, w1) \<Rightarrow> (Inl e, w1)
             | (Inr search_results, w1) \<Rightarrow>
                 (case redis_setex w1 cache_key 1800 (dumps search_results) of
                    Inl e \<Rightarrow> (Inl e, w1)
                  | Inr w2 \<Rightarrow> (Inr search_results, w2))))"

definition get_movie_details :: "resolver \<Rightarrow> py_str \<Rightarrow> world \<Rightarrow> response" where
  "get_movie_details up movie_id w =
     (let cache_key = ''movie_'' @ movie_id in
      case redis_get w cache_key of
        Inl e \<Rightarrow> (Inl e, w)
      | Inr cached \<Rightarrow>
          if truthy_opt truthy_str cached then (json_loads (the cached), w)
          else
            (case await up (Movie movie_id) w of
               (Inl e, w1) \<Rightarrow> (Inl e, w1)
             | (Inr movie_data, w1) \<Rightarrow>
                 if truthy movie_data then
                   (case redis_setex w1 cache_key 7200 (dumps movie_data) of
                      Inl e \<Rightarrow> (Inl e, w1)
                    | Inr w2 \<Rightarrow> (Inr movie_data, w2))
                 else (Inr movie_data, w1)))"

definition get_series_details :: "resolver \<Rightarrow> py_str \<Rightarrow> world \<Rightarrow> response" where
  "get_series_details up series_id w =
     (let cache_key = ''series_'' @ series_id in
      case redis_get w cache_key of
        Inl e \<Rightarrow> (Inl e, w)
      | Inr cached \<Rightarrow>
          if truthy_opt truthy_str cached then (json_loads (the cached), w)
          else
            (case await up (Series series_id) w of
               (Inl e, w1) \<Rightarrow> (Inl e, w1)
             | (Inr series_data, w1) \<Rightarrow>
                 if truthy series_data then
                   (case redis_setex w1 cache_key 7200 (dumps series_data) of
                      Inl e \<Rightarrow> (Inl e, w1)
                    | Inr w2 \<Rightarrow> (Inr series_data, w2))
                 else (Inr series_data, w1)))"

definition get_video_sources :: "resolver \<Rightarrow> py_str \<Rightarrow> world \<Rightarrow> response" where
  "get_video_sources up content_id w =
     (let cache_key = ''watch_'' @ content_id in
      case redis_get w cache_key of
        Inl e \<Rightarrow> (Inl e, w)
      | Inr cached \<Rightarrow>
          if truthy_opt truthy_str cached then (json_loads (the cached), w)
          else
            (case await up (Watch content_id) w of
               (Inl e, w1) \<Rightarrow> (Inl e, w1)
             | (Inr sources, w1) \<Rightarrow>
                 if truthy sources then
                   (case redis_setex w1 cache_key 3600 (dumps sources) of
                      Inl e \<Rightarrow> (Inl e, w1)
                    | Inr w2 \<Rightarrow> (Inr sources, w2))
                 else (Inr sources, w1)))"

definition get_category :: "resolver \<Rightarrow> py_str \<Rightarrow> py_int \<Rightarrow> world \<Rightarrow> response" where
  "get_category up category page w =
     (let cache_key = ''category_'' @ category @ ''_'' @ str_int page in
      case redis_get w cache_key of
        Inl e \<Rightarrow> (Inl e, w)
      | Inr cached \<Rightarrow>
          if truthy_opt truthy_str cached then (json_loads (the cached), w)
          else
            (case await up (Category category page) w of
               (Inl e, w1) \<Rightarrow> (Inl e, w1)
             | (Inr category_data, w1) \<Rightarrow>
                 (case redis_setex w1 cache_key 3600 (dumps category_data) of
                    Inl e \<Rightarrow> (Inl e, w1)
                  | Inr w2 \<Rightarrow> (Inr category_data, w2))))"

text \<open>\<^verbatim>\<open>/health\<close>; the argument is \<^verbatim>\<open>datetime.now().isoformat()\<close>.\<close>

definition health_check :: "py_str \<Rightarrow> json" where
  "health_check now_iso = JObj [(''status'', JStr ''healthy''), (''timestamp'', JStr now_iso)]"

text \<open>The routing table: which handler serves which request.\<close>

fun handle :: "resolver \<Rightarrow> request \<Rightarrow> world \<Rightarrow> response" where
  "handle up (Home page) w = get_home_page up page w"
| "handle up (Search query page) w =
     search_content up \<lparr>sreq_query = query, sreq_page = page\<rparr> w"
| "handle up (Movie movie_id) w = get_movie_details up movie_id w"
| "handle up (Series series_id) w = get_series_details up series_id w"
| "handle up (Watch content_id) w = get_video_sources up content_id w"
| "handle up (Category category page) w = get_category up category page w"

section \<open>What the framework does before a handler runs\<close>

text \<open>
  The body of \<^verbatim>\<open>POST /api/search\<close> is validated as a \<^verbatim>\<open>SearchRequest\<close>: \<^verbatim>\<open>query\<close> is
  required, \<^verbatim>\<open>page\<close> is \<^verbatim>\<open>Optional[int] = 1\<close>, so a body without it means page 1 and a body
  with \<^verbatim>\<open>null\<close> means \<^verbatim>\<open>None\<close>. A body that fails is answered with the validation errors,
  each located below \<^verbatim>\<open>body\<close>, and the handler does not run. The query parameter \<^verbatim>\<open>page: int = 1\<close> of the home and category
  endpoints defaults to 1.
\<close>

record SearchRequest_in =
  in_sreq_query :: "py_str option"
  in_sreq_page :: "py_int option option"

definition SearchRequest_validate :: "SearchRequest_in \<Rightarrow> SearchRequest validated" where
  "SearchRequest_validate kw =
     ap (ap (Inr SearchRequest.make)
       (required ''query'' no_check (in_sreq_query kw)))
       (with_default ''page'' (Some 1) no_check (in_sreq_page kw))"

definition search_endpoint :: "resolver \<Rightarrow> SearchRequest_in \<Rightarrow> world \<Rightarrow> response" where
  "search_endpoint up body w =
     (case SearchRequest_validate body of
        Inl es \<Rightarrow> (Inl (RequestValidationError (map (\<lambda>(l, e). (Name ''body'' # l, e)) es)), w)
      | Inr request \<Rightarrow> search_content up request w)"

definition home_endpoint :: "resolver \<Rightarrow> py_int option \<Rightarrow> world \<Rightarrow> response" where
  "home_endpoint up page w = get_home_page up (default_to 1 page) w"

definition category_endpoint :: "resolver \<Rightarrow> py_str \<Rightarrow> py_int option \<Rightarrow> world \<Rightarrow> response" where
  "category_endpoint up category page w = get_category up category (default_to 1 page) w"

section \<open>The read-through algorithm\<close>

fun cache_key :: "request \<Rightarrow> py_str" where
  "cache_key (Home page) = ''home_page_'' @ str_int page"
| "cache_key (Search query page) = ''search_'' @ query @ ''_'' @ str_opt_int page"
| "cache_key (Movie movie_id) = ''movie_'' @ movie_id"
| "cache_key (Series series_id) = ''series_'' @ series_id"
| "cache_key (Watch content_id) = ''watch_'' @ content_id"
| "cache_key (Category category page) = ''category_'' @ category @ ''_'' @ str_int page"

fun ttl :: "request \<Rightarrow> nat" where
  "ttl (Home page) = 3600"
| "ttl (Search query page) = 1800"
| "ttl (Movie movie_id) = 7200"
| "ttl (Series series_id) = 7200"
| "ttl (Watch content_id) = 3600"
| "ttl (Category category page) = 3600"

text \<open>Whether a result is written to the cache: always, or only when it is truthy.\<close>

fun cacheable :: "request \<Rightarrow> json \<Rightarrow> bool" where
  "cacheable (Home page) v = True"
| "cacheable (Search query page) v = True"
| "cacheable (Movie movie_id) v = truthy v"
| "cacheable (Series series_id) v = truthy v"
| "cacheable (Watch content_id) v = truthy v"
| "cacheable (Category category page) v = True"

definition read_through :: "resolver \<Rightarrow> request \<Rightarrow> world \<Rightarrow> response" where
  "read_through up r w =
     (case redis_get w (cache_key r) of
        Inl e \<Rightarrow> (Inl e, w)
      | Inr cached \<Rightarrow>
          if truthy_opt truthy_str cached then (json_loads (the cached), w)
          else
            (case await up r w of
               (Inl e, w1) \<Rightarrow> (Inl e, w1)
             | (Inr v, w1) \<Rightarrow>
                 if cacheable r v then
                   (case redis_setex w1 (cache_key r) (ttl r) (dumps v) of
                      Inl e \<Rightarrow> (Inl e, w1)
                    | Inr w2 \<Rightarrow> (Inr v, w2))
                 else (Inr v, w1)))"

text \<open>
  The three situations a request can meet, and the two changes a handler makes to the world:
  a miss is a reachable cache that holds no live non-empty entry under the key.
\<close>

definition is_miss :: "world \<Rightarrow> request \<Rightarrow> bool" where
  "is_miss w r \<longleftrightarrow>
     redis_up w \<and> \<not> truthy_opt truthy_str (store_get (clock w) (redis w) (cache_key r))"

definition called :: "world \<Rightarrow> request \<Rightarrow> world" where
  "called w r = w\<lparr>upstream_calls := upstream_calls w @ [r]\<rparr>"

definition stored :: "world \<Rightarrow> request \<Rightarrow> json \<Rightarrow> world" where
  "stored w r v =
     w\<lparr>redis := store_setex (clock w) (redis w) (cache_key r) (ttl r) (dumps v)\<rparr>"

section \<open>Example worlds\<close>

text \<open>A world with a reachable, empty cache at time 0, and a scraper that always fails.\<close>

definition example_world :: world where
  "example_world = \<lparr>redis_up = True, redis = Map.empty, clock = 0, upstream_calls = []\<rparr>"

definition failing :: resolver where
  "failing t r = Inl (UpstreamError ''timeout'')"

lemmas [handler_defs] = redis_get_def redis_setex_def json_loads_def await_def
  get_home_content_def perform_search_def get_movie_info_def get_series_info_def
  extract_video_sources_def get_category_content_def root_def health_check_def

lemmas handlers_unfold = get_home_page_def search_content_def get_movie_details_def
  get_series_details_def get_video_sources_def get_category_def

section \<open>The handlers are instances of the algorithm\<close>

lemma handle_read_through [simp]: "handle up r w = read_through up r w"
  by (cases r)
     (auto simp: handlers_unfold read_through_def Let_def split: sum.splits prod.splits)

declare handle.simps [simp del]

section \<open>Reading back what was stored\<close>

lemma json_loads_dumps [simp]: "wf_json v \<Longrightarrow> json_loads (dumps v) = Inr v"
  by (simp add: json_loads_def loads_dumps)

section \<open>The key derivation\<close>

lemma cache_key_ne [simp]: "cache_key r \<noteq> []"
  by (cases r) simp_all

lemma search_key_inj:
  "''search_'' @ q @ ''_'' @ str_opt_int p = ''search_'' @ q' @ ''_'' @ str_opt_int p' \<longleftrightarrow>
     q = q' \<and> p = p'"
  by simp

lemma category_key_inj:
  "''category_'' @ c @ ''_'' @ str_int p = ''category_'' @ c' @ ''_'' @ str_int p' \<longleftrightarrow>
     c = c' \<and> p = p'"
  by simp

lemma cache_key_inj: "cache_key r = cache_key r' \<longleftrightarrow> r = r'"
proof
  assume eq: "cache_key r = cache_key r'"
  show "r = r'"
  proof (cases r)
    case (Home p)
    with eq show ?thesis by (cases r') auto
  next
    case (Search q p)
    with eq show ?thesis by (cases r') (auto simp: search_key_inj)
  next
    case (Movie i)
    with eq show ?thesis by (cases r') auto
  next
    case (Series i)
    with eq show ?thesis by (cases r') auto
  next
    case (Watch i)
    with eq show ?thesis by (cases r') auto
  next
    case (Category c p)
    with eq show ?thesis by (cases r') (auto simp: category_key_inj)
  qed
qed simp

section \<open>The branches of the algorithm\<close>

lemma read_through_down:
  "\<not> redis_up w \<Longrightarrow> read_through up r w = (Inl ConnectionError, w)"
  by (simp add: read_through_def redis_get_def)

lemma read_through_hit:
  assumes "redis_up w" and "store_get (clock w) (redis w) (cache_key r) = Some s" and "s \<noteq> []"
  shows "read_through up r w = (json_loads s, w)"
  using assms by (simp add: read_through_def redis_get_def truthy_str_def)

lemma read_through_miss_error:
  "is_miss w r \<Longrightarrow> up (clock w) r = Inl e \<Longrightarrow> read_through up r w = (Inl e, called w r)"
  by (simp add: read_through_def redis_get_def is_miss_def await_def called_def)

lemma read_through_miss_store:
  "is_miss w r \<Longrightarrow> up (clock w) r = Inr v \<Longrightarrow> cacheable r v \<Longrightarrow>
     read_through up r w = (Inr v, stored (called w r) r v)"
  by (simp add: read_through_def redis_get_def redis_setex_def is_miss_def await_def called_def
      stored_def)

lemma read_through_miss_skip:
  "is_miss w r \<Longrightarrow> up (clock w) r = Inr v \<Longrightarrow> \<not> cacheable r v \<Longrightarrow>
     read_through up r w = (Inr v, called w r)"
  by (simp add: read_through_def redis_get_def is_miss_def await_def called_def)

lemma is_miss_empty: "redis_up w \<Longrightarrow> redis w = Map.empty \<Longrightarrow> is_miss w r"
  by (simp add: is_miss_def)

lemma stored_hit:
  assumes "redis_up w" and "t < clock w + ttl r" and "clock w' = t" and "redis_up w'"
    and "redis w' = redis (stored w r v)"
  shows "read_through up r w' = (json_loads (dumps v), w')"
  using assms by (intro read_through_hit) (simp_all add: stored_def store_get_setex_same)

lemma fields_called [simp]:
  "redis (called w r) = redis w" "clock (called w r) = clock w"
  "redis_up (called w r) = redis_up w" "upstream_calls (called w r) = upstream_calls w @ [r]"
  by (simp_all add: called_def)

lemma fields_stored [simp]:
  "clock (stored w r v) = clock w" "redis_up (stored w r v) = redis_up w"
  "upstream_calls (stored w r v) = upstream_calls w"
  "redis (stored w r v) = store_setex (clock w) (redis w) (cache_key r) (ttl r) (dumps v)"
  by (simp_all add: stored_def)

section \<open>Properties of the handlers\<close>

lemma example_world_miss: "is_miss example_world r"
  by (simp add: is_miss_empty example_world_def)

text \<open>
  C1. Each of the six caching handlers of main.py is the read-through algorithm
  \<open>read_through\<close> at its own request: same key, same lifetime, same rule
  for what is stored, same result and same final world.
\<close>

theorem handlers_follow_read_through:
  "get_home_page up page w = read_through up (Home page) w \<and>
   search_content up request w =
     read_through up (Search (sreq_query request) (sreq_page request)) w \<and>
   get_movie_details up movie_id w = read_through up (Movie movie_id) w \<and>
   get_series_details up series_id w = read_through up (Series series_id) w \<and>
   get_video_sources up content_id w = read_through up (Watch content_id) w \<and>
   get_category up category page w = read_through up (Category category page) w"
  by (cases request) (simp add: handle_read_through [symmetric] handle.simps del: handle_read_through)

theorem handlers_follow_read_through_witness:
  "fst (get_movie_details placeholder ''m1'' example_world) = Inr JNull \<and>
   redis (snd (get_movie_details placeholder ''m1'' example_world)) = Map.empty"
  using handlers_follow_read_through [of placeholder 1 example_world undefined "''m1''"]
    read_through_miss_skip [of example_world "Movie ''m1''" placeholder JNull]
  by (simp add: example_world_miss get_movie_info_def) (simp add: example_world_def)

text \<open>
  C2. The cache key determines the request: two different requests, of the same or of
  different endpoints, never share a key, whatever characters the query, the identifier
  or the category hold.
\<close>

theorem cache_key_injective: "inj cache_key"
  by (simp add: inj_def cache_key_inj)

theorem cache_key_injective_witness:
  "cache_key (Search ''a_1'' (Some 2)) \<noteq> cache_key (Search ''a'' (Some 12)) \<and>
   cache_key (Category ''drama'' 1) \<noteq> cache_key (Category ''drama'' 11)"
  using cache_key_injective [THEN injD, of "Search ''a_1'' (Some 2)" "Search ''a'' (Some 12)"]
    cache_key_injective [THEN injD, of "Category ''drama'' 1" "Category ''drama'' 11"]
  by auto

text \<open>
  C3. On a miss where the scraper returns data the handler caches, the response is that
  data, the scraper is called once, the entry under the request's key reads back as the
  serialised data for exactly \<open>ttl\<close> seconds, and no other key changes.
\<close>

theorem miss_stores_with_ttl:
  assumes "is_miss w r" and "up (clock w) r = Inr v" and "cacheable r v"
    and "handle up r w = (res, w')"
  shows "res = Inr v \<and>
     store_get (clock w + d) (redis w') (cache_key r) = (if d < ttl r then Some (dumps v) else None) \<and>
     (\<forall>k. k \<noteq> cache_key r \<longrightarrow> redis w' k = redis w k) \<and>
     upstream_calls w' = upstream_calls w @ [r] \<and> clock w' = clock w"
  using assms
  by (auto simp: handle_read_through read_through_miss_store store_get_def live_def
      store_setex_def)

theorem miss_stores_with_ttl_witness:
  "store_get 3599 (redis (snd (handle placeholder (Home 1) example_world))) ''home_page_1'' =
     Some (dumps (get_home_content 1)) \<and>
   store_get 3600 (redis (snd (handle placeholder (Home 1) example_world))) ''home_page_1'' = None"
proof -
  have h: "handle placeholder (Home 1) example_world =
      (fst (handle placeholder (Home 1) example_world),
       snd (handle placeholder (Home 1) example_world))"
    by simp
  note store = miss_stores_with_ttl [OF example_world_miss _ _ h,
      where v = "get_home_content 1"]
  from store [where d = 3599] store [where d = 3600] show ?thesis
    by (simp add: example_world_def str_int_def str_nat.simps py_defs)
qed

text \<open>
  C10. When the cache server is unreachable every caching handler fails with the
  connection error before the scraper is called; the world does not change.
\<close>

theorem outage_fails_request:
  "\<not> redis_up w \<Longrightarrow> handle up r w = (Inl ConnectionError, w)"
  by (simp add: handle_read_through read_through_down)

theorem outage_fails_request_witness:
  "handle placeholder (Home 1) (example_world\<lparr>redis_up := False\<rparr>) =
     (Inl ConnectionError, example_world\<lparr>redis_up := False\<rparr>)"
  using outage_fails_request [of "example_world\<lparr>redis_up := False\<rparr>" placeholder "Home 1"]
  by simp

text \<open>
  C11. When the scraper raises on a miss the handler raises the same error and stores
  nothing, so the request stays a miss.
\<close>

theorem scraper_error_not_cached:
  assumes "is_miss w r" and "up (clock w) r = Inl e"
  shows "fst (handle up r w) = Inl e \<and> redis (snd (handle up r w)) = redis w \<and>
     is_miss (snd (handle up r w)) r"
  using assms
  by (simp add: handle_read_through read_through_miss_error) (simp add: is_miss_def)

theorem scraper_error_not_cached_witness:
  "fst (handle failing (Movie ''m1'') example_world) = Inl (UpstreamError ''timeout'') \<and>
   is_miss (snd (handle failing (Movie ''m1'') example_world)) (Movie ''m1'')"
  using scraper_error_not_cached [of example_world "Movie ''m1''" failing "UpstreamError ''timeout''"]
  by (simp add: example_world_miss failing_def)

text \<open>
  C29. A hit returns the data that was stored: when the cache holds the serialisation
  of a value under the request's key and the entry has not expired, the handler returns
  that value, calls nothing and changes nothing. This rests on loads (dumps v) = Some v
  for every value without a repeated dictionary key.
\<close>

theorem hit_returns_stored_data:
  assumes "redis_up w" and "store_get (clock w) (redis w) (cache_key r) = Some (dumps v)"
    and "wf_json v"
  shows "handle up r w = (Inr v, w)"
  using assms read_through_hit [of w r "dumps v" up] by simp

theorem hit_returns_stored_data_witness:
  "handle failing (Home 1) (stored example_world (Home 1) (get_home_content 1)) =
     (Inr (get_home_content 1), stored example_world (Home 1) (get_home_content 1))"
  using hit_returns_stored_data [of "stored example_world (Home 1) (get_home_content 1)"
      "Home 1" "get_home_content 1" failing]
  by (simp add: store_get_setex_same example_world_def get_home_content_def)

lemma SearchRequest_validate_Inr_iff:
  "SearchRequest_validate kw = Inr rq \<longleftrightarrow>
     (\<exists>q. in_sreq_query kw = Some q \<and>
        rq = \<lparr>sreq_query = q, sreq_page = default_to (Some 1) (in_sreq_page kw)\<rparr>)"
  by (auto simp: SearchRequest_validate_def ap_Inr_iff SearchRequest.make_def)

lemma errors_SearchRequest_validate:
  "errors (SearchRequest_validate kw) =
     (if in_sreq_query kw = None then [([Name ''query''], Missing)] else [])"
  by (simp add: SearchRequest_validate_def errors_required_no_check)

lemma SearchRequest_validate_proper [simp]: "proper (SearchRequest_validate kw)"
  by (simp add: SearchRequest_validate_def)

lemma search_endpoint_query:
  "in_sreq_query body = Some q \<Longrightarrow>
     search_endpoint up body w = handle up (Search q (default_to (Some 1) (in_sreq_page body))) w"
  using SearchRequest_validate_Inr_iff
    [of body "\<lparr>sreq_query = q, sreq_page = default_to (Some 1) (in_sreq_page body)\<rparr>"]
  by (simp add: search_endpoint_def handle.simps del: handle_read_through)

lemma search_endpoint_no_query:
  "in_sreq_query body = None \<Longrightarrow>
     search_endpoint up body w =
       (Inl (RequestValidationError [([Name ''body'', Name ''query''], Missing)]), w)"
  using proper_Inl_iff [OF SearchRequest_validate_proper, of body "[([Name ''query''], Missing)]"]
  by (simp add: search_endpoint_def errors_SearchRequest_validate)

text \<open>
  C39. What reaches the handlers: a search body without page is the search for page 1,
  a body whose page is null is the search for page None with a key ending in _None, a
  body without query is answered with one error located at body, query and nothing else
  happens, and a home or category request without page is the request for page 1.
\<close>

theorem search_body_defaults:
  "search_endpoint up \<lparr>in_sreq_query = Some q, in_sreq_page = None\<rparr> w =
     handle up (Search q (Some 1)) w \<and>
   search_endpoint up \<lparr>in_sreq_query = Some q, in_sreq_page = Some None\<rparr> w =
     handle up (Search q None) w \<and>
   search_endpoint up \<lparr>in_sreq_query = None, in_sreq_page = p\<rparr> w =
     (Inl (RequestValidationError [([Name ''body'', Name ''query''], Missing)]), w) \<and>
   cache_key (Search q None) = ''search_'' @ q @ ''_None'' \<and>
   home_endpoint up None w = handle up (Home 1) w \<and>
   category_endpoint up c None w = handle up (Category c 1) w"
  by (simp add: search_endpoint_query search_endpoint_no_query home_endpoint_def
      category_endpoint_def handle_read_through [symmetric] handle.simps
      del: handle_read_through)

theorem search_body_defaults_witness:
  "fst (search_endpoint placeholder \<lparr>in_sreq_query = Some ''batman'', in_sreq_page = None\<rparr>
          example_world) = Inr (perform_search ''batman'' (Some 1)) \<and>
   cache_key (Search ''batman'' None) = ''search_batman_None''"
  using search_body_defaults [of placeholder "''batman''" example_world]
    read_through_miss_store [of example_world "Search ''batman'' (Some 1)" placeholder
      "perform_search ''batman'' (Some 1)"]
  by (simp add: example_world_miss)

end
