(* ===== verification/Service.thy ===== *)
theory Service
  imports Handlers
begin

text \<open>
  The service over time: requests arrive one after another, the clock advances, the
  Redis server goes away and comes back. \<open>step\<close> is one such event, \<open>run\<close> a sequence
  of them, \<open>reachable\<close> the worlds the service can be in when it starts with an empty
  cache. The invariant \<open>coherent\<close> says where every cache entry comes from; the
  theorems on staleness and on the number of scraper calls follow from it and from the
  branch lemmas of \<open>read_through\<close>.
\<close>

section \<open>Events\<close>

datatype event = Request request | Tick nat | Outage | Recovery

fun step :: "resolver \<Rightarrow> world \<Rightarrow> event \<Rightarrow> world" where
  "step up w (Request r) = snd (handle up r w)"
| "step up w (Tick d) = w\<lparr>clock := clock w + d\<rparr>"
| "step up w Outage = w\<lparr>redis_up := False\<rparr>"
| "step up w Recovery = w\<lparr>redis_up := True\<rparr>"

definition run :: "resolver \<Rightarrow> world \<Rightarrow> event list \<Rightarrow> world" where
  "run up w evs = foldl (step up) w evs"

definition init :: world where
  "init = \<lparr>redis_up = True, redis = Map.empty, clock = 0, upstream_calls = []\<rparr>"

inductive reachable :: "resolver \<Rightarrow> world \<Rightarrow> bool" for up :: resolver where
  reach_init: "reachable up init"
| reach_step: "reachable up w \<Longrightarrow> reachable up (step up w ev)"

section \<open>Where cache entries come from\<close>

text \<open>
  An entry under a key is the serialised answer the scraper gave to the request with
  that key at some time \<open>t\<close> that is not in the future, the answer was one the handler
  caches, and the entry expires \<open>ttl\<close> seconds after \<open>t\<close>.
\<close>

definition origin :: "resolver \<Rightarrow> nat \<Rightarrow> py_str \<Rightarrow> entry \<Rightarrow> request \<Rightarrow> json \<Rightarrow> nat \<Rightarrow> bool" where
  "origin up now k e r v t \<longleftrightarrow>
     k = cache_key r \<and> up t r = Inr v \<and> cacheable r v \<and> e_value e = dumps v \<and>
     e_expires_at e = t + ttl r \<and> t \<le> now"

definition coherent :: "resolver \<Rightarrow> world \<Rightarrow> bool" where
  "coherent up w \<longleftrightarrow>
     (\<forall>k e. redis w k = Some e \<longrightarrow> (\<exists>r v t. origin up (clock w) k e r v t))"

text \<open>The scraper returns Python values: no dictionary repeats a key.\<close>

definition serialisable :: "resolver \<Rightarrow> bool" where
  "serialisable up \<longleftrightarrow> (\<forall>t r v. up t r = Inr v \<longrightarrow> wf_json v)"

section \<open>One request\<close>

lemma origin_later: "origin up now k e r v t \<Longrightarrow> now \<le> later \<Longrightarrow> origin up later k e r v t"
  by (simp add: origin_def)

lemma read_through_cases:
  obtains (down) "\<not> redis_up w" "read_through up r w = (Inl ConnectionError, w)"
  | (hit) s where "redis_up w" "store_get (clock w) (redis w) (cache_key r) = Some s" "s \<noteq> []"
      "read_through up r w = (json_loads s, w)"
  | (error) e where "is_miss w r" "up (clock w) r = Inl e"
      "read_through up r w = (Inl e, called w r)"
  | (store) v where "is_miss w r" "up (clock w) r = Inr v" "cacheable r v"
      "read_through up r w = (Inr v, stored (called w r) r v)"
  | (skip) v where "is_miss w r" "up (clock w) r = Inr v" "\<not> cacheable r v"
      "read_through up r w = (Inr v, called w r)"
proof (cases "redis_up w")
  case False
  then show ?thesis by (rule down) (simp add: read_through_down False)
next
  case up: True
  show ?thesis
  proof (cases "truthy_opt truthy_str (store_get (clock w) (redis w) (cache_key r))")
    case True
    then obtain s where s: "store_get (clock w) (redis w) (cache_key r) = Some s" "s \<noteq> []"
      by (cases "store_get (clock w) (redis w) (cache_key r)") (auto simp: truthy_str_def)
    with up show ?thesis by (intro hit [of s] read_through_hit)
  next
    case False
    with up have miss: "is_miss w r" by (simp add: is_miss_def)
    show ?thesis
    proof (cases "up (clock w) r")
      case (Inl e)
      with miss show ?thesis by (intro error [of e] read_through_miss_error)
    next
      case (Inr v)
      with miss show ?thesis
        by (cases "cacheable r v")
           (auto intro: store [of v] skip [of v] read_through_miss_store read_through_miss_skip)
    qed
  qed
qed

lemma coherent_called [simp]: "coherent up (called w r) \<longleftrightarrow> coherent up w"
  by (simp add: coherent_def)

lemma coherent_stored:
  assumes "coherent up w" and "up (clock w) r = Inr v" and "cacheable r v"
  shows "coherent up (stored w r v)"
  unfolding coherent_def
proof (intro allI impI)
  fix k e
  assume e: "redis (stored w r v) k = Some e"
  show "\<exists>r' v' t. origin up (clock (stored w r v)) k e r' v' t"
  proof (cases "k = cache_key r")
    case True
    with e assms(2,3) have "origin up (clock w) k e r v (clock w)"
      by (auto simp: origin_def store_setex_def)
    then show ?thesis by auto
  next
    case False
    with e have "redis w k = Some e" by (simp add: store_setex_def)
    with assms(1) show ?thesis by (simp add: coherent_def)
  qed
qed

lemma coherent_read_through: "coherent up w \<Longrightarrow> coherent up (snd (read_through up r w))"
  by (cases up r w rule: read_through_cases) (simp_all add: coherent_stored)

lemma coherent_step: "coherent up w \<Longrightarrow> coherent up (step up w ev)"
proof (cases ev)
  case (Request r)
  then show "coherent up w \<Longrightarrow> ?thesis"
    by (simp add: handle_read_through coherent_read_through)
next
  case (Tick d)
  then show "coherent up w \<Longrightarrow> ?thesis"
    by (fastforce simp: coherent_def intro: origin_later)
qed (simp_all add: coherent_def)

lemma coherent_init: "coherent up init"
  by (simp add: coherent_def init_def)

lemma reachable_coherent: "reachable up w \<Longrightarrow> coherent up w"
  by (induction rule: reachable.induct) (simp_all add: coherent_init coherent_step)

lemma reachable_run: "reachable up w \<Longrightarrow> reachable up (run up w evs)"
  unfolding run_def by (induction evs arbitrary: w) (auto intro: reachable.reach_step)

lemma run_append [simp]: "run up w (evs @ evs') = run up (run up w evs) evs'"
  by (simp add: run_def)

lemma run_Nil [simp]: "run up w [] = w"
  by (simp add: run_def)

lemma run_Cons [simp]: "run up w (ev # evs) = run up (step up w ev) evs"
  by (simp add: run_def)

section \<open>What a response can be\<close>

lemma coherent_hit_origin:
  assumes "coherent up w" and "store_get (clock w) (redis w) (cache_key r) = Some s"
  shows "\<exists>v t. up t r = Inr v \<and> cacheable r v \<and> s = dumps v \<and> t \<le> clock w \<and> clock w < t + ttl r"
proof -
  from assms(2) obtain e where e: "redis w (cache_key r) = Some e"
    and live: "clock w < e_expires_at e" and s: "e_value e = s"
    by (auto simp: store_get_Some_iff)
  from assms(1) e obtain r' v t where "origin up (clock w) (cache_key r) e r' v t"
    unfolding coherent_def by blast
  then have "r' = r" and "up t r' = Inr v" "cacheable r' v" "e_value e = dumps v"
    "e_expires_at e = t + ttl r'" "t \<le> clock w"
    by (simp_all add: origin_def cache_key_inj)
  with live s show ?thesis by auto
qed

lemma response_fresh:
  assumes "coherent up w" and "serialisable up" and "read_through up r w = (Inr v, w')"
  shows "\<exists>t. up t r = Inr v \<and> t \<le> clock w \<and> clock w < t + ttl r"
proof (cases up r w rule: read_through_cases)
  case (hit s)
  from coherent_hit_origin [OF assms(1) hit(2)] obtain u t
    where u: "up t r = Inr u" "s = dumps u" "t \<le> clock w" "clock w < t + ttl r"
    by blast
  with assms(2) have "json_loads s = Inr u"
    by (auto simp: serialisable_def)
  with hit(4) assms(3) u show ?thesis by auto
next
  case (store u)
  with assms(3) show ?thesis by (cases r) auto
next
  case (skip u)
  with assms(3) show ?thesis by (cases r) auto
qed (use assms(3) in auto)

section \<open>How often the scraper is called\<close>

lemma calls_read_through:
  "upstream_calls (snd (read_through up r w)) =
     upstream_calls w @ (if is_miss w r then [r] else [])"
proof (cases up r w rule: read_through_cases)
  case down
  then show ?thesis by (simp add: is_miss_def)
next
  case (hit s)
  then show ?thesis by (simp add: is_miss_def truthy_str_def)
qed simp_all

lemma clock_read_through [simp]: "clock (snd (read_through up r w)) = clock w"
  by (cases up r w rule: read_through_cases) simp_all

lemma redis_up_read_through [simp]: "redis_up (snd (read_through up r w)) = redis_up w"
  by (cases up r w rule: read_through_cases) simp_all

lemma second_request_hits:
  assumes "is_miss w r" and "up (clock w) r = Inr v" and "cacheable r v" and "d < ttl r"
  shows "read_through up r (step up (snd (read_through up r w)) (Tick d)) =
     (json_loads (dumps v), step up (snd (read_through up r w)) (Tick d))"
proof -
  from assms have rt: "read_through up r w = (Inr v, stored (called w r) r v)"
    by (simp add: read_through_miss_store)
  from assms(1) have "redis_up w" by (simp add: is_miss_def)
  with assms(4) show ?thesis
    unfolding rt by (intro read_through_hit) (simp_all add: store_get_setex_same)
qed

lemma uncached_stays_miss:
  assumes "is_miss w r" and "up (clock w) r = Inr v" and "\<not> cacheable r v"
  shows "is_miss (snd (read_through up r w)) r"
  using assms by (simp add: read_through_miss_skip) (simp add: is_miss_def)

lemma expired_is_miss:
  assumes "is_miss w r" and "up (clock w) r = Inr v" and "cacheable r v" and "ttl r \<le> d"
  shows "is_miss (step up (snd (read_through up r w)) (Tick d)) r"
proof -
  from assms have rt: "read_through up r w = (Inr v, stored (called w r) r v)"
    by (simp add: read_through_miss_store)
  from assms(1) have "redis_up w" by (simp add: is_miss_def)
  with assms(4) show ?thesis
    unfolding rt by (simp add: is_miss_def store_get_setex_same)
qed

section \<open>Properties of the service\<close>

lemma init_example: "init = example_world"
  by (simp add: init_def example_world_def)

lemma serialisable_placeholder: "serialisable placeholder"
  unfolding serialisable_def
proof (intro allI impI)
  fix t r v
  assume "placeholder t r = Inr v"
  then show "wf_json v"
    by (cases r)
       (auto simp: get_home_content_def perform_search_def get_movie_info_def
          get_series_info_def extract_video_sources_def get_category_content_def)
qed

text \<open>
  C4. Bounded staleness: in every world the service can reach from an empty cache, a
  successful response to a request is an answer the scraper gave to that same request
  at a time no more than \<open>ttl\<close> seconds ago, provided the scraper's answers
  survive serialisation.
\<close>

theorem responses_are_fresh:
  assumes "reachable up w" and "serialisable up" and "handle up r w = (Inr v, w')"
  shows "\<exists>t. up t r = Inr v \<and> t \<le> clock w \<and> clock w < t + ttl r"
  using assms
  by (auto simp: handle_read_through intro: response_fresh reachable_coherent)

theorem responses_are_fresh_witness:
  "\<exists>t. placeholder t (Home 1) = Inr (get_home_content 1) \<and> t \<le> clock init \<and>
        clock init < t + ttl (Home 1)"
proof -
  have "handle placeholder (Home 1) init =
      (Inr (get_home_content 1), stored (called init (Home 1)) (Home 1) (get_home_content 1))"
    by (simp add: handle_read_through [of placeholder "Home 1" init] read_through_miss_store
        init_example example_world_miss)
  from responses_are_fresh [OF reach_init serialisable_placeholder this] show ?thesis .
qed

text \<open>
  C8. Every live cache entry of a reachable world is the serialisation of data the
  scraper returned, for the one request that has this key, at most \<open>ttl\<close>
  seconds ago, and the data was of the kind the handler caches.
\<close>

theorem cache_entries_have_origin:
  assumes "reachable up w" and "store_get (clock w) (redis w) k = Some s"
  shows "\<exists>r v t. k = cache_key r \<and> up t r = Inr v \<and> cacheable r v \<and> s = dumps v \<and>
           t \<le> clock w \<and> clock w < t + ttl r"
proof -
  from assms(2) obtain e where e: "redis w k = Some e" "clock w < e_expires_at e" "e_value e = s"
    by (auto simp: store_get_Some_iff)
  from reachable_coherent [OF assms(1)] e(1) obtain r v t where "origin up (clock w) k e r v t"
    unfolding coherent_def by blast
  with e(2,3) show ?thesis by (auto simp: origin_def)
qed

theorem cache_entries_have_origin_witness:
  "\<exists>r v t. ''home_page_1'' = cache_key r \<and> placeholder t r = Inr v \<and> cacheable r v \<and>
     dumps (get_home_content 1) = dumps v \<and> t \<le> 0 \<and> 0 < t + ttl r"
proof -
  let ?w = "step placeholder init (Request (Home 1))"
  have w: "?w = stored (called init (Home 1)) (Home 1) (get_home_content 1)"
    by (simp add: handle_read_through [of placeholder "Home 1" init] read_through_miss_store
        init_example example_world_miss)
  have "store_get (clock ?w) (redis ?w) ''home_page_1'' = Some (dumps (get_home_content 1))"
    unfolding w by (simp add: init_def store_get_setex str_int_def str_nat.simps py_defs)
  from cache_entries_have_origin [OF reach_step [OF reach_init] this] show ?thesis
    unfolding w by (simp add: init_def)
qed

text \<open>
  C5. After a miss that stored data, the same request within the lifetime of the entry
  returns the same data and leaves the world as it is: the scraper is not called again.
  The data is a value in which no dictionary repeats a key, as every Python value is.
\<close>

theorem second_request_served_from_cache:
  assumes "is_miss w r" and "up (clock w) r = Inr v" and "cacheable r v" and "d < ttl r"
    and "wf_json v"
  shows "handle up r (run up w [Request r, Tick d]) = (Inr v, run up w [Request r, Tick d])"
  using assms second_request_hits [of w r up v d] by simp

theorem second_request_served_from_cache_witness:
  "handle placeholder (Home 1) (run placeholder init [Request (Home 1), Tick 3599]) =
     (Inr (get_home_content 1), run placeholder init [Request (Home 1), Tick 3599])"
  using second_request_served_from_cache [of init "Home 1" placeholder "get_home_content 1" 3599]
  by (simp add: init_example example_world_miss get_home_content_def)

text \<open>
  C6. A result the handler does not cache (a movie, series or watch lookup that found
  nothing) leaves the cache as it was, so the next identical request calls the scraper
  again.
\<close>

theorem negative_result_not_cached:
  assumes "is_miss w r" and "up (clock w) r = Inr v" and "\<not> cacheable r v"
  shows "upstream_calls (run up w [Request r, Request r]) = upstream_calls w @ [r, r] \<and>
         redis (run up w [Request r, Request r]) = redis w"
proof -
  let ?w1 = "snd (read_through up r w)"
  from assms have w1: "?w1 = called w r" by (simp add: read_through_miss_skip)
  from assms uncached_stays_miss [of w r up v] have "is_miss (called w r) r" by (simp add: w1)
  with assms(2,3) have "read_through up r (called w r) = (Inr v, called (called w r) r)"
    by (intro read_through_miss_skip) simp_all
  with w1 show ?thesis by (simp add: handle_read_through)
qed

theorem negative_result_not_cached_witness:
  "upstream_calls (run placeholder init [Request (Movie ''m1''), Request (Movie ''m1'')]) =
     [Movie ''m1'', Movie ''m1'']"
  using negative_result_not_cached [of init "Movie ''m1''" placeholder JNull]
  by (simp add: init_example example_world_miss get_movie_info_def) (simp add: example_world_def)

text \<open>
  C7. Once \<open>ttl\<close> seconds have passed since a miss stored its data, the
  same request is a miss again and calls the scraper a second time.
\<close>

theorem entry_expires_after_ttl:
  assumes "is_miss w r" and "up (clock w) r = Inr v" and "cacheable r v" and "ttl r \<le> d"
  shows "upstream_calls (run up w [Request r, Tick d, Request r]) = upstream_calls w @ [r, r]"
proof -
  let ?w1 = "snd (read_through up r w)"
  from assms(1-3) have w1: "?w1 = stored (called w r) r v" by (simp add: read_through_miss_store)
  from assms expired_is_miss [of w r up v d] show ?thesis
    by (simp add: handle_read_through calls_read_through w1)
qed

theorem entry_expires_after_ttl_witness:
  "upstream_calls (run placeholder init [Request (Home 1), Tick 3600, Request (Home 1)]) =
     [Home 1, Home 1]"
  using entry_expires_after_ttl [of init "Home 1" placeholder "get_home_content 1" 3600]
  by (simp add: init_example example_world_miss) (simp add: example_world_def)

text \<open>
  C9. A request calls the scraper exactly when it is a miss, and then exactly once; a
  hit and an unreachable cache call nothing.
\<close>

theorem scraper_called_only_on_miss:
  "upstream_calls (snd (handle up r w)) = upstream_calls w @ (if is_miss w r then [r] else [])"
  by (simp add: handle_read_through calls_read_through)

theorem scraper_called_only_on_miss_witness:
  "upstream_calls (snd (handle placeholder (Watch ''c1'') init)) = [Watch ''c1'']"
  using scraper_called_only_on_miss [of placeholder "Watch ''c1''" init]
  by (simp add: init_example example_world_miss) (simp add: example_world_def)

end
