(* ===== verification/Concurrent.thy ===== *)
theory Concurrent
  imports Service
begin

text \<open>
  Handlers that overlap. A handler of \<^verbatim>\<open>main.py\<close> is a coroutine with one suspension
  point, the \<^verbatim>\<open>await\<close> of the scraper: the code before it (build the key, ask the cache,
  return on a hit) runs without interruption, and so does the code after it (store the
  result, return it). \<open>start\<close> and \<open>finish\<close> are these two halves. Between them other
  handlers may run; \<open>cstep\<close> is the event loop that interleaves them. The source takes
  no lock between the two halves. The call of the scraper is logged when the handler
  suspends, and the scraper's data is its answer at the time the handler resumes.
\<close>

section \<open>The two halves of a handler\<close>

definition start :: "request \<Rightarrow> world \<Rightarrow> (py_exn + json) option \<times> world" where
  "start r w =
     (case redis_get w (cache_key r) of
        Inl e \<Rightarrow> (Some (Inl e), w)
      | Inr cached \<Rightarrow>
          if truthy_opt truthy_str cached then (Some (json_loads (the cached)), w)
          else (None, w\<lparr>upstream_calls := upstream_calls w @ [r]\<rparr>))"

definition finish :: "resolver \<Rightarrow> request \<Rightarrow> world \<Rightarrow> response" where
  "finish up r w =
     (case up (clock w) r of
        Inl e \<Rightarrow> (Inl e, w)
      | Inr v \<Rightarrow>
          if cacheable r v then
            (case redis_setex w (cache_key r) (ttl r) (dumps v) of
               Inl e \<Rightarrow> (Inl e, w)
             | Inr w2 \<Rightarrow> (Inr v, w2))
          else (Inr v, w))"

section \<open>The event loop\<close>

record cworld =
  base :: world
  pending :: "request list"
  answered :: "(request \<times> (py_exn + json)) list"

datatype cevent = Arrive request | Resume nat | Pass nat | Down | Up

fun cstep :: "resolver \<Rightarrow> cworld \<Rightarrow> cevent \<Rightarrow> cworld" where
  "cstep up c (Arrive r) =
     (case start r (base c) of
        (Some res, w) \<Rightarrow> c\<lparr>base := w, answered := answered c @ [(r, res)]\<rparr>
      | (None, w) \<Rightarrow> c\<lparr>base := w, pending := pending c @ [r]\<rparr>)"
| "cstep up c (Resume i) =
     (if i < length (pending c) then
        (case finish up (pending c ! i) (base c) of
           (res, w) \<Rightarrow>
             c\<lparr>base := w, pending := take i (pending c) @ drop (Suc i) (pending c),
               answered := answered c @ [(pending c ! i, res)]\<rparr>)
      else c)"
| "cstep up c (Pass d) = c\<lparr>base := step up (base c) (Tick d)\<rparr>"
| "cstep up c Down = c\<lparr>base := step up (base c) Outage\<rparr>"
| "cstep up c Up = c\<lparr>base := step up (base c) Recovery\<rparr>"

definition crun :: "resolver \<Rightarrow> cworld \<Rightarrow> cevent list \<Rightarrow> cworld" where
  "crun up c evs = foldl (cstep up) c evs"

definition cinit :: cworld where
  "cinit = \<lparr>base = init, pending = [], answered = []\<rparr>"

inductive creachable :: "resolver \<Rightarrow> cworld \<Rightarrow> bool" for up :: resolver where
  creach_init: "creachable up cinit"
| creach_step: "creachable up c \<Longrightarrow> creachable up (cstep up c ev)"

text \<open>Every success that was returned is an answer of the scraper that is not from the future.\<close>

definition answers_genuine :: "resolver \<Rightarrow> cworld \<Rightarrow> bool" where
  "answers_genuine up c \<longleftrightarrow>
     (\<forall>r v. (r, Inr v) \<in> set (answered c) \<longrightarrow> (\<exists>t. up t r = Inr v \<and> t \<le> clock (base c)))"

text \<open>Two requests for the first home page that overlap on an empty cache.\<close>

definition example_overlap :: cworld where
  "example_overlap = crun placeholder cinit [Arrive (Home 1), Arrive (Home 1), Resume 0, Resume 0]"

section \<open>A handler is its two halves\<close>

lemma read_through_start_finish:
  "read_through up r w =
     (case start r w of (Some res, w') \<Rightarrow> (res, w') | (None, w') \<Rightarrow> finish up r w')"
  by (auto simp: read_through_def start_def finish_def await_def redis_get_def redis_setex_def
      split: sum.splits)

lemma start_cases:
  obtains (down) "\<not> redis_up w" "start r w = (Some (Inl ConnectionError), w)"
  | (hit) s where "redis_up w" "store_get (clock w) (redis w) (cache_key r) = Some s" "s \<noteq> []"
      "start r w = (Some (json_loads s), w)"
  | (miss) "is_miss w r" "start r w = (None, called w r)"
proof (cases "redis_up w")
  case False
  then show ?thesis by (intro down) (simp_all add: start_def redis_get_def)
next
  case up: True
  show ?thesis
  proof (cases "truthy_opt truthy_str (store_get (clock w) (redis w) (cache_key r))")
    case True
    then obtain s where s: "store_get (clock w) (redis w) (cache_key r) = Some s" "s \<noteq> []"
      by (cases "store_get (clock w) (redis w) (cache_key r)") (auto simp: truthy_str_def)
    with up show ?thesis by (intro hit [of s]) (simp_all add: start_def redis_get_def truthy_str_def)
  next
    case False
    with up show ?thesis
      by (intro miss) (simp_all add: is_miss_def start_def redis_get_def called_def)
  qed
qed

lemma finish_cases:
  obtains (error) e where "up (clock w) r = Inl e" "finish up r w = (Inl e, w)"
  | (store) v where "up (clock w) r = Inr v" "cacheable r v" "redis_up w"
      "finish up r w = (Inr v, stored w r v)"
  | (lost) v where "up (clock w) r = Inr v" "cacheable r v" "\<not> redis_up w"
      "finish up r w = (Inl ConnectionError, w)"
  | (skip) v where "up (clock w) r = Inr v" "\<not> cacheable r v" "finish up r w = (Inr v, w)"
  by (cases "up (clock w) r"; cases "redis_up w"; cases "cacheable r (projr (up (clock w) r))")
     (auto simp: finish_def redis_setex_def stored_def)

lemma coherent_start: "coherent up (snd (start r w)) \<longleftrightarrow> coherent up w"
  by (cases r w rule: start_cases) simp_all

lemma coherent_finish: "coherent up w \<Longrightarrow> coherent up (snd (finish up r w))"
  by (rule finish_cases [where up = up and w = w and r = r]) (simp_all add: coherent_stored)

lemma clock_start [simp]: "clock (snd (start r w)) = clock w"
  by (cases r w rule: start_cases) simp_all

lemma clock_finish [simp]: "clock (snd (finish up r w)) = clock w"
  by (rule finish_cases [where up = up and w = w and r = r]) simp_all

lemma base_cstep:
  "base (cstep up c (Arrive r)) = snd (start r (base c))"
  "base (cstep up c (Resume i)) =
     (if i < length (pending c) then snd (finish up (pending c ! i) (base c)) else base c)"
  by (simp_all split: prod.splits option.splits)

lemma coherent_cstep: "coherent up (base c) \<Longrightarrow> coherent up (base (cstep up c ev))"
  by (cases ev)
     (simp_all add: base_cstep coherent_start coherent_finish coherent_step
        del: cstep.simps(1,2) step.simps)

lemma creachable_coherent: "creachable up c \<Longrightarrow> coherent up (base c)"
  by (induction rule: creachable.induct) (simp_all add: cinit_def coherent_init coherent_cstep)

lemma crun_simps [simp]:
  "crun up c [] = c" "crun up c (ev # evs) = crun up (cstep up c ev) evs"
  "crun up c (evs @ evs') = crun up (crun up c evs) evs'"
  by (simp_all add: crun_def)

lemma creachable_crun: "creachable up c \<Longrightarrow> creachable up (crun up c evs)"
  by (induction evs arbitrary: c) (auto intro: creach_step)


section \<open>What the event loop records\<close>

lemma answered_cstep:
  "answered (cstep up c (Arrive r)) =
     answered c @ (case fst (start r (base c)) of Some res \<Rightarrow> [(r, res)] | None \<Rightarrow> [])"
  "answered (cstep up c (Resume i)) =
     (if i < length (pending c)
      then answered c @ [(pending c ! i, fst (finish up (pending c ! i) (base c)))]
      else answered c)"
  "answered (cstep up c (Pass d)) = answered c"
  "answered (cstep up c Down) = answered c" "answered (cstep up c Up) = answered c"
  by (simp_all split: prod.splits option.splits)

lemma pending_cstep:
  "pending (cstep up c (Arrive r)) =
     pending c @ (case fst (start r (base c)) of Some res \<Rightarrow> [] | None \<Rightarrow> [r])"
  "pending (cstep up c (Resume i)) =
     (if i < length (pending c) then take i (pending c) @ drop (Suc i) (pending c)
      else pending c)"
  "pending (cstep up c (Pass d)) = pending c"
  "pending (cstep up c Down) = pending c" "pending (cstep up c Up) = pending c"
  by (simp_all split: prod.splits option.splits)

lemma clock_cstep: "clock (base c) \<le> clock (base (cstep up c ev))"
  by (cases ev) (simp_all add: base_cstep del: cstep.simps(1,2))

lemma start_Some_genuine:
  assumes "coherent up w" and "serialisable up" and "fst (start r w) = Some (Inr v)"
  shows "\<exists>t. up t r = Inr v \<and> t \<le> clock w"
proof (cases r w rule: start_cases)
  case (hit s)
  from coherent_hit_origin [OF assms(1) hit(2)] obtain u t
    where u: "up t r = Inr u" "s = dumps u" "t \<le> clock w"
    by blast
  with assms(2) have "json_loads s = Inr u" by (auto simp: serialisable_def)
  with hit(4) assms(3) u show ?thesis by auto
qed (use assms(3) in auto)

lemma finish_genuine: "fst (finish up r w) = Inr v \<Longrightarrow> up (clock w) r = Inr v"
  by (rule finish_cases [where up = up and w = w and r = r]) auto

lemma answers_genuine_cstep:
  assumes "coherent up (base c)" and "serialisable up" and "answers_genuine up c"
  shows "answers_genuine up (cstep up c ev)"
  unfolding answers_genuine_def
proof (intro allI impI)
  fix r v
  assume new: "(r, Inr v) \<in> set (answered (cstep up c ev))"
  have old: "\<exists>t. up t r = Inr v \<and> t \<le> clock (base (cstep up c ev))"
    if "(r, Inr v) \<in> set (answered c)"
    using that assms(3) clock_cstep [of c up ev] unfolding answers_genuine_def
    by (meson le_trans)
  show "\<exists>t. up t r = Inr v \<and> t \<le> clock (base (cstep up c ev))"
  proof (cases ev)
    case (Arrive r')
    with new old start_Some_genuine [OF assms(1,2), of r v] show ?thesis
      by (auto simp: answered_cstep base_cstep simp del: cstep.simps split: option.splits)
  next
    case (Resume i)
    with new old finish_genuine [of up r "base c" v] show ?thesis
      by (auto simp: answered_cstep base_cstep simp del: cstep.simps split: if_splits)
  qed (use new old in \<open>auto simp: answered_cstep simp del: cstep.simps\<close>)
qed

lemma creachable_genuine:
  "creachable up c \<Longrightarrow> serialisable up \<Longrightarrow> answers_genuine up c"
proof (induction rule: creachable.induct)
  case creach_init
  then show ?case by (simp add: answers_genuine_def cinit_def)
next
  case (creach_step c ev)
  then show ?case by (simp add: answers_genuine_cstep creachable_coherent)
qed

section \<open>Misses that overlap\<close>

lemma start_miss: "is_miss w r \<Longrightarrow> start r w = (None, called w r)"
  by (simp add: is_miss_def start_def redis_get_def called_def)

lemma is_miss_called [simp]: "is_miss (called w r') r \<longleftrightarrow> is_miss w r"
  by (simp add: is_miss_def)

lemma arrivals_on_miss:
  assumes "is_miss (base c) r"
  shows "crun up c (replicate n (Arrive r)) =
     c\<lparr>base := (base c)\<lparr>upstream_calls := upstream_calls (base c) @ replicate n r\<rparr>,
        pending := pending c @ replicate n r\<rparr>"
  using assms
proof (induction n arbitrary: c)
  case 0
  then show ?case by simp
next
  case (Suc n)
  let ?c = "cstep up c (Arrive r)"
  from Suc(2) have c: "?c = c\<lparr>base := called (base c) r, pending := pending c @ [r]\<rparr>"
    by (simp add: start_miss)
  with Suc(2) have "is_miss (base ?c) r" by simp
  from Suc(1) [OF this] show ?case
    by (simp add: c called_def replicate_app_Cons_same del: cstep.simps)
qed


lemma arrive_then_resume:
  "cstep up (cstep up c (Arrive r)) (Resume (length (pending c))) =
     c\<lparr>base := snd (read_through up r (base c)),
       answered := answered c @ [(r, fst (read_through up r (base c)))]\<rparr>"
proof (cases r "base c" rule: start_cases)
  case miss
  then show ?thesis
    by (simp add: read_through_start_finish split: prod.splits)
qed (simp_all add: read_through_start_finish)

text \<open>
  Resuming the pending handlers one after the other while the cache can be reached and
  the scraper answers: \<open>D\<close> collects the requests whose data is already in the cache.
\<close>

lemma ttl_pos [simp]: "0 < ttl r"
  by (cases r) simp_all

lemma finish_delivers:
  assumes "redis_up w" and "up (clock w) r = Inr v"
  shows "finish up r w = (Inr v, if cacheable r v then stored w r v else w)"
  using assms by (simp add: finish_def redis_setex_def stored_def)

lemma resume_all_delivers:
  assumes "pending c = ps" and "redis_up (base c)"
    and "\<forall>r\<in>set ps. up (clock (base c)) r = Inr (f r)"
    and "\<forall>r\<in>D. cacheable r (f r) \<longrightarrow>
           store_get (clock (base c)) (redis (base c)) (cache_key r) = Some (dumps (f r))"
  shows "pending (crun up c (replicate (length ps) (Resume 0))) = [] \<and>
     answered (crun up c (replicate (length ps) (Resume 0))) =
       answered c @ map (\<lambda>r. (r, Inr (f r))) ps \<and>
     (\<forall>r\<in>D \<union> set ps. cacheable r (f r) \<longrightarrow>
        store_get (clock (base c))
          (redis (base (crun up c (replicate (length ps) (Resume 0))))) (cache_key r) =
        Some (dumps (f r)))"
  using assms
proof (induction ps arbitrary: c D)
  case Nil
  then show ?case by simp
next
  case (Cons r rs)
  let ?c = "cstep up c (Resume 0)"
  let ?w = "if cacheable r (f r) then stored (base c) r (f r) else base c"
  from Cons(2-4) have fin: "finish up r (base c) = (Inr (f r), ?w)"
    by (intro finish_delivers) simp_all
  with Cons(2) have c: "pending ?c = rs" "base ?c = ?w" "answered ?c = answered c @ [(r, Inr (f r))]"
    by (simp_all add: pending_cstep base_cstep answered_cstep del: cstep.simps)
  have w: "clock ?w = clock (base c)" "redis_up ?w = redis_up (base c)" by simp_all
  have kept: "\<forall>r'\<in>insert r D. cacheable r' (f r') \<longrightarrow>
      store_get (clock (base ?c)) (redis (base ?c)) (cache_key r') = Some (dumps (f r'))"
    using Cons(5) unfolding c(2) w(1) by (auto simp: store_get_setex cache_key_inj)
  from Cons(1) [OF c(1), of "insert r D"] Cons(3,4) kept show ?case
    by (simp add: c w del: cstep.simps)
qed

section \<open>Properties of overlapping handlers\<close>

lemma cinit_miss: "is_miss (base cinit) r"
  by (simp add: cinit_def init_def is_miss_empty)

text \<open>
  C30. A handler is its two halves run back to back: a request that arrives and is
  resumed before anything else happens changes the world and answers exactly as the
  handler of main.py does.
\<close>

theorem handler_is_arrive_then_resume:
  "crun up c [Arrive r, Resume (length (pending c))] =
     c\<lparr>base := snd (handle up r (base c)),
       answered := answered c @ [(r, fst (handle up r (base c)))]\<rparr>"
  by (simp add: arrive_then_resume del: cstep.simps)

theorem handler_is_arrive_then_resume_witness:
  "base (crun placeholder cinit [Arrive (Home 1), Resume 0]) =
     snd (handle placeholder (Home 1) init) \<and>
   answered (crun placeholder cinit [Arrive (Home 1), Resume 0]) =
     [(Home 1, Inr (get_home_content 1))]"
  using handler_is_arrive_then_resume [of placeholder cinit "Home 1"]
    read_through_miss_store [of init "Home 1" placeholder "get_home_content 1"]
  by (simp add: cinit_def init_example example_world_miss del: cstep.simps)

text \<open>
  C31. There is no single-flight guard: when n requests for the same key arrive on a
  miss before any of them is resumed, as happens when the scraper suspends at its await
  or when several workers serve one cache, the scraper is called n times and n handlers
  are pending.
\<close>

theorem overlapping_misses_call_each:
  assumes "is_miss (base c) r"
  shows "upstream_calls (base (crun up c (replicate n (Arrive r)))) =
           upstream_calls (base c) @ replicate n r \<and>
         pending (crun up c (replicate n (Arrive r))) = pending c @ replicate n r"
  by (simp add: arrivals_on_miss [OF assms])

theorem overlapping_misses_call_each_witness:
  "upstream_calls (base (crun placeholder cinit (replicate 3 (Arrive (Home 1))))) =
     [Home 1, Home 1, Home 1]"
  using overlapping_misses_call_each
      [where c = cinit and r = "Home 1" and up = placeholder and n = 3]
  by (simp add: cinit_miss del: cstep.simps crun_simps replicate.simps replicate_Suc)
    (simp add: cinit_def init_def numeral_3_eq_3)

text \<open>
  C32. However handlers overlap, every successful answer the service has returned is
  data the scraper returned for that same request at a time that is not in the future,
  provided the scraper returns values in which no dictionary repeats a key.
\<close>

theorem overlapping_answers_genuine:
  assumes "creachable up c" and "serialisable up" and "(r, Inr v) \<in> set (answered c)"
  shows "\<exists>t. up t r = Inr v \<and> t \<le> clock (base c)"
  using creachable_genuine [OF assms(1,2)] assms(3) by (auto simp: answers_genuine_def)

lemma example_overlap_eval:
  "answered example_overlap =
     [(Home 1, Inr (get_home_content 1)), (Home 1, Inr (get_home_content 1))]"
  "store_get 0 (redis (base example_overlap)) (cache_key (Home 1)) =
     Some (dumps (get_home_content 1))"
  "clock (base example_overlap) = 0" "upstream_calls (base example_overlap) = [Home 1, Home 1]"
  by (simp_all add: example_overlap_def cinit_def init_def start_def finish_def redis_get_def
      redis_setex_def store_get_setex_same)

theorem overlapping_answers_genuine_witness:
  "\<exists>t. placeholder t (Home 1) = Inr (get_home_content 1) \<and> t \<le> clock (base example_overlap)"
  using overlapping_answers_genuine [of placeholder example_overlap "Home 1" "get_home_content 1"]
    creachable_crun [OF creach_init, of placeholder
      "[Arrive (Home 1), Arrive (Home 1), Resume 0, Resume 0]"]
  by (simp add: serialisable_placeholder example_overlap_eval
      example_overlap_def [symmetric] del: crun_simps)

text \<open>
  C33. However handlers overlap, a live cache entry under the key of a request is the
  serialisation of data the scraper returned for that request at most
  \<open>ttl\<close> seconds ago.
\<close>

theorem overlapping_cache_coherent:
  assumes "creachable up c"
    and "store_get (clock (base c)) (redis (base c)) (cache_key r) = Some s"
  shows "\<exists>v t. up t r = Inr v \<and> cacheable r v \<and> s = dumps v \<and>
           t \<le> clock (base c) \<and> clock (base c) < t + ttl r"
  using coherent_hit_origin [OF creachable_coherent [OF assms(1)] assms(2)] .

text \<open>
  C34. Suspended handlers deliver: while the cache can be reached and the scraper
  answers every pending request, resuming the oldest pending handler once per pending
  handler leaves none pending, answers each request, in order, with the data the
  scraper returned for it, and leaves that data in the cache under the key of every
  request whose data is cached.
\<close>

theorem pending_handlers_deliver:
  assumes "redis_up (base c)" and "\<forall>r\<in>set (pending c). up (clock (base c)) r = Inr (f r)"
  shows "pending (crun up c (replicate (length (pending c)) (Resume 0))) = [] \<and>
     answered (crun up c (replicate (length (pending c)) (Resume 0))) =
       answered c @ map (\<lambda>r. (r, Inr (f r))) (pending c) \<and>
     (\<forall>r\<in>set (pending c). cacheable r (f r) \<longrightarrow>
        store_get (clock (base c))
          (redis (base (crun up c (replicate (length (pending c)) (Resume 0)))))
          (cache_key r) = Some (dumps (f r)))"
  using assms resume_all_delivers [where c = c and ps = "pending c" and D = "{}" and up = up and f = f]
  by simp

theorem overlapping_cache_coherent_witness:
  "\<exists>v t. placeholder t (Home 1) = Inr v \<and> cacheable (Home 1) v \<and>
     dumps (get_home_content 1) = dumps v \<and> t \<le> 0 \<and> 0 < t + ttl (Home 1)"
  using overlapping_cache_coherent [of placeholder example_overlap "Home 1"
      "dumps (get_home_content 1)"]
    creachable_crun [OF creach_init, of placeholder
      "[Arrive (Home 1), Arrive (Home 1), Resume 0, Resume 0]"]
  by (simp add: example_overlap_eval example_overlap_def [symmetric]
      del: crun_simps cache_key.simps dumps.simps ttl.simps)

theorem pending_handlers_deliver_witness:
  "answered (crun placeholder (crun placeholder cinit [Arrive (Home 1), Arrive (Home 2)])
      (replicate 2 (Resume 0))) =
     [(Home 1, Inr (get_home_content 1)), (Home 2, Inr (get_home_content 2))] \<and>
   store_get 0
     (redis (base (crun placeholder (crun placeholder cinit [Arrive (Home 1), Arrive (Home 2)])
        (replicate 2 (Resume 0)))))
     (cache_key (Home 2)) = Some (dumps (get_home_content 2))"
proof -
  let ?c = "crun placeholder cinit [Arrive (Home 1), Arrive (Home 2)]"
  have c: "pending ?c = [Home 1, Home 2]" "answered ?c = []" "redis_up (base ?c)"
    "clock (base ?c) = 0"
    by (simp_all add: cinit_def init_def start_def redis_get_def)
  then have "length (pending ?c) = 2" by simp
  with pending_handlers_deliver
      [where c = ?c and f = "\<lambda>r. get_home_content 1" and up = placeholder] c
  show ?thesis
    by (simp add: get_home_content_def numeral_2_eq_2 del: crun_simps cstep.simps cache_key.simps)
qed

text \<open>
  C40. When the cache server goes away while a handler waits for the scraper, the
  handler fails with the connection error and the data the scraper returned is lost,
  unless the data is of the kind that is not cached, which is returned; the cache is
  not changed and the scraper call has been made.
\<close>

theorem outage_during_await:
  assumes "is_miss (base c) r" and "up (clock (base c)) r = Inr v"
  shows "answered (crun up c [Arrive r, Down, Resume (length (pending c))]) =
           answered c @ [(r, if cacheable r v then Inl ConnectionError else Inr v)] \<and>
         redis (base (crun up c [Arrive r, Down, Resume (length (pending c))])) = redis (base c) \<and>
         upstream_calls (base (crun up c [Arrive r, Down, Resume (length (pending c))])) =
           upstream_calls (base c) @ [r]"
  using assms
  by (simp add: start_miss finish_def redis_setex_def called_def)

theorem outage_during_await_witness:
  "answered (crun placeholder cinit [Arrive (Home 1), Down, Resume 0]) =
     [(Home 1, Inl ConnectionError)] \<and>
   answered (crun placeholder cinit [Arrive (Movie ''m1''), Down, Resume 0]) =
     [(Movie ''m1'', Inr JNull)]"
  using outage_during_await [of cinit "Home 1" placeholder "get_home_content 1"]
    outage_during_await [of cinit "Movie ''m1''" placeholder JNull]
  by (simp add: cinit_miss get_movie_info_def del: crun_simps) (simp add: cinit_def)

end
