(* ===== verification/Spec2Isabelle.thy ===== *)
theory Spec2Isabelle
  imports Models Service Concurrent
begin

text \<open>
  \<^bold>\<open>The program.\<close> The backend of the Akwam streaming site consists of two Python files.
  \<^verbatim>\<open>src/backend/src/models.py\<close> declares the canonical data model as pydantic classes:
  three enumerations, the movie, episode and series families (a base class, a create class
  and a response class each), video sources, subtitles, and the response envelopes of the
  watch, search, category and home endpoints. Four of the classes carry a validator
  function. \<^verbatim>\<open>src/backend/src/main.py\<close> is the FastAPI application: six endpoints that
  answer from a Redis cache when they can and otherwise ask a scraper and store what it
  returned, the endpoints \<^verbatim>\<open>/\<close> and \<^verbatim>\<open>/health\<close>, and six scraper functions that are
  placeholders returning fixed values.

  \<^bold>\<open>The theories.\<close>

  \<^item> \<^verbatim>\<open>Py_Prelude\<close>: the Python built-ins the two files use, as functions on HOL values:
    truthiness, \<^verbatim>\<open>str.strip\<close>, \<^verbatim>\<open>str.startswith\<close> with a tuple, \<^verbatim>\<open>str(int)\<close> as used by
    f-strings, \<^verbatim>\<open>str.join\<close>. Its lemmas are the facts on stripping, on prefixes and on
    decimal numerals (injectivity, no underscore in a numeral) that the later theories
    share.

  \<^item> \<^verbatim>\<open>Pydantic\<close>: what pydantic does when a model class is called with keyword arguments:
    required and optional fields, defaults, the bounds \<^verbatim>\<open>ge\<close> and \<^verbatim>\<open>le\<close>, validator functions
    that raise \<^verbatim>\<open>ValueError\<close>, nested models and lists of models. Validation returns either
    the model or the list of all errors, each with the path of its field; \<open>ap\<close> combines
    the fields in declaration order and accumulates the errors.

  \<^item> \<^verbatim>\<open>Models\<close>: every class of \<^verbatim>\<open>models.py\<close>. An enumeration is a datatype with its value
    function and the lookup by value. A class \<^verbatim>\<open>C\<close> is a record \<open>C\<close> (a subclass extends the
    record of its parent), a record \<open>C_in\<close> of optional keyword arguments and a function
    \<open>C_validate\<close>; the validator functions are \<open>validate_year\<close>, \<open>validate_title\<close>,
    \<open>validate_year_end\<close>, \<open>validate_url\<close> and \<open>validate_language\<close>. The current time, which
    the year validator and the timestamp defaults read, is a parameter \<open>now\<close>. For each
    class the lemmas characterise the accepted inputs and the accepted model
    (\<open>C_validate_Inr_iff\<close>), show that validation never fails with an empty error list,
    and that the accepted model satisfies the invariant of its class (\<open>C_ok\<close>).

  \<^item> \<^verbatim>\<open>Json\<close>: the values that \<^verbatim>\<open>json.dumps\<close> and \<^verbatim>\<open>json.loads\<close> exchange with the cache:
    \<open>dumps\<close> prints with the default separators and escapes, \<open>loads\<close> is a lexer (a
    terminating \<open>function\<close> on the remaining input) followed by a parser.

  \<^item> \<^verbatim>\<open>Json_Roundtrip\<close>: \<open>loads (dumps v) = Some v\<close> for every value without a repeated
    dictionary key, through the token list of the value; \<open>dumps\<close> is injective.

  \<^item> \<^verbatim>\<open>Cache_Store\<close>: the Redis commands \<^verbatim>\<open>GET\<close> and \<^verbatim>\<open>SETEX\<close> on a map from keys to
    entries with an absolute expiry time.

  \<^item> \<^verbatim>\<open>Handlers\<close>: the request classes and the handlers of \<^verbatim>\<open>main.py\<close>. The state is the
    record \<open>world\<close>: whether the Redis server can be reached, the store, the clock in
    seconds, and the log of scraper calls. A handler maps a world to a response and a
    world; a raised exception is a value \<open>Inl\<close>. The six caching handlers are written out
    one by one as the source has them, the scraper is a parameter \<open>up\<close> (the placeholder
    functions of the source are the instance \<open>placeholder\<close>), and \<open>read_through\<close> is the
    algorithm they share, with the key \<open>cache_key\<close>, the lifetime \<open>ttl\<close> and the rule
    \<open>cacheable\<close> for what is stored. \<open>search_endpoint\<close>, \<open>home_endpoint\<close> and
    \<open>category_endpoint\<close> add what the framework does with the declared parameters: the
    validation of the search body as a \<^verbatim>\<open>SearchRequest\<close> and the default page. The lemmas
    show that every handler is an instance of \<open>read_through\<close>, that keys are injective,
    what each branch of the algorithm does, and that a hit returns the stored data.

  \<^item> \<^verbatim>\<open>Service\<close>: the service over time. An event is a request, the passing of some
    seconds, the loss or the return of the Redis server; \<open>step\<close> applies one event, \<open>run\<close>
    a list of them, and \<open>reachable\<close> is the set of worlds that \<open>step\<close> reaches from the
    empty cache \<open>init\<close>. The invariant \<open>coherent\<close> says that every cache entry is what the
    scraper returned for the request of that key, stored with that request's lifetime.
    From it follow the bound on staleness and the statements on when the scraper is
    called.

  \<^item> \<^verbatim>\<open>Concurrent\<close>: handlers that overlap. A handler is split at its \<^verbatim>\<open>await\<close> into
    \<open>start\<close> (key, cache lookup, return on a hit) and \<open>finish\<close> (store, return); \<open>cstep\<close> is
    the event loop that lets requests arrive and pending handlers resume in any order.
    The sequential handler is \<open>start\<close> followed at once by \<open>finish\<close>; the invariant of
    the cache survives every interleaving; overlapping misses each call the scraper;
    pending handlers that are resumed while the cache is reachable answer with the
    scraper's data and leave it in the cache.

  \<^item> This theory holds the properties of the service as shipped, with the placeholder
    scraper, which need the handlers, the service and the JSON codec together.

  \<^bold>\<open>Correspondence.\<close> Record fields carry a prefix for their class (\<open>mv_\<close>, \<open>ep_\<close>, \<open>sr_\<close>,
  \<open>vs_\<close>, \<open>sub_\<close>, \<open>wr_\<close>, \<open>res_\<close>, \<open>srch_\<close>, \<open>cat_\<close>, \<open>hs_\<close>, \<open>hr_\<close>, \<open>api_\<close>) followed by the name
  of the attribute; the keyword argument of a field \<open>f\<close> is \<open>in_f\<close>. Python integers are
  \<open>int\<close>, floats are \<open>real\<close> (only comparisons with the bounds 0 and 10 are used), strings
  are lists of characters, \<^verbatim>\<open>Optional\<close> is \<open>option\<close>, a list is a list. Handlers, validators
  and scraper functions keep the names of the source.

  \<^bold>\<open>Bounds.\<close> The lexer of \<open>loads\<close> terminates because every token consumes input; the parser
  runs on fuel \<open>2 * n + 1\<close> for \<open>n\<close> tokens, which is enough because every recursive call
  of the parser follows the consumption of a token or enters a value that starts with
  one. Characters are the 256 code points of the HOL type; \<open>dumps\<close> escapes every code
  point outside the printable ASCII range, as \<^verbatim>\<open>ensure_ascii\<close> does. Time is a natural
  number of seconds.

  \<^bold>\<open>Assumptions of the model.\<close>

  \<^item> The scraper is a function of the time in seconds and the request: two calls for one
    request within the same second return the same data. Its latency is not
    represented; in \<open>finish\<close> the data is the scraper's answer at the time the handler
    resumes.
  \<^item> Every \<^verbatim>\<open>await\<close> is a point where other handlers may run. The placeholder functions
    that \<^verbatim>\<open>main.py\<close> ships never suspend, so in one event loop their handlers do not
    overlap; a scraper that does network I/O, or several workers on one cache, give the
    interleavings of \<open>cstep\<close>.
  \<^item> The cache has no other writer and evicts nothing; its only failure is being
    unreachable.
  \<^item> Validation takes keyword arguments after type coercion: wrongly typed values and
    \<^verbatim>\<open>None\<close> for a field that is not \<^verbatim>\<open>Optional\<close> are not represented. The year validator and
    the two timestamp defaults of one construction read the same \<open>now\<close>.
    \<^verbatim>\<open>use_enum_values\<close> stores the string of an enumeration member; the records keep the
    member, and \<open>C_value\<close> is injective.
  \<^item> JSON values hold no floats, and strings are made of the 256 code points of the HOL
    type, so escapes above \<^verbatim>\<open>\u00ff\<close> are outside the model. The fuel of the parser is shown
    to be enough for every text that \<open>dumps\<close> writes, which is what the cache holds.
  \<^item> Ratings and scores are real numbers: no rounding, NaN or infinity.

  \<^bold>\<open>Not modelled.\<close> The HTTP transport (FastAPI routing, CORS, uvicorn, status codes)
  beyond the validation and the defaults of the declared parameters; the conversion of
  JSON text into keyword arguments; the network connection to Redis beyond "reachable
  or not"; real scraping (the source has none); cancellation of a request and time-outs
  of the scraper. The Video Source Selector and the Search Ranker of the specification
  have no code in the repository and are not part of the development.
\<close>

section \<open>The service as shipped\<close>

lemma placeholder_time: "placeholder t r = placeholder t' r"
  by (cases r) simp_all

text \<open>
  C12. With the placeholder scraper that main.py ships, every request answered while
  the cache is reachable returns that scraper's fixed answer, whether it is served from
  the cache or not.
\<close>

theorem shipped_service_answers:
  assumes "reachable placeholder w" and "redis_up w"
  shows "fst (handle placeholder r w) = placeholder (clock w) r"
proof (cases placeholder r w rule: read_through_cases)
  case (hit s)
  from coherent_hit_origin [OF reachable_coherent [OF assms(1)] hit(2)]
  obtain v t where "placeholder t r = Inr v" "s = dumps v" by blast
  moreover from this serialisable_placeholder have "json_loads s = Inr v"
    by (auto simp: serialisable_def)
  moreover have "placeholder t r = placeholder (clock w) r" by (cases r) simp_all
  ultimately show ?thesis using hit(4) by (simp add: handle_read_through)
next
  case (error e)
  then show ?thesis by (cases r) simp_all
qed (use assms(2) in \<open>simp_all add: handle_read_through\<close>)

theorem shipped_service_answers_witness:
  "fst (handle placeholder (Search ''batman'' None) init) = Inr (perform_search ''batman'' None)"
  using shipped_service_answers [OF reach_init, of "Search ''batman'' None"]
  by (simp add: init_def)

text \<open>
  C13. With the placeholder scraper, no movie, series or watch key is ever written:
  these lookups return None or an empty list, which the handlers do not cache.
\<close>

theorem shipped_details_never_cached:
  assumes "reachable placeholder w"
  shows "redis w (cache_key (Movie i)) = None \<and> redis w (cache_key (Series i)) = None \<and>
         redis w (cache_key (Watch i)) = None"
proof -
  have "redis w (cache_key r) = None" if "\<And>t. \<not> cacheable r (projr (placeholder t r))" for r
  proof (rule ccontr)
    assume "redis w (cache_key r) \<noteq> None"
    then obtain e where "redis w (cache_key r) = Some e" by auto
    with reachable_coherent [OF assms] obtain r' v t where "origin placeholder (clock w) (cache_key r) e r' v t"
      unfolding coherent_def by blast
    then have "placeholder t r = Inr v" "cacheable r v"
      by (simp_all add: origin_def cache_key_inj)
    with that [of t] show False by simp
  qed
  from this [of "Movie i"] this [of "Series i"] this [of "Watch i"] show ?thesis
    by (simp add: get_movie_info_def get_series_info_def extract_video_sources_def)
qed

theorem shipped_details_never_cached_witness:
  "redis (run placeholder init [Request (Movie ''m1''), Tick 5, Request (Watch ''m1'')])
     (cache_key (Movie ''m1'')) = None"
  using shipped_details_never_cached
      [of "run placeholder init [Request (Movie ''m1''), Tick 5, Request (Watch ''m1'')]" "''m1''"]
    reachable_run [OF reach_init,
      of placeholder "[Request (Movie ''m1''), Tick 5, Request (Watch ''m1'')]"]
  by simp

end
